theory Spec2Isabelle
  imports Main "HOL-Library.Word"
begin

unbundle bit_operations_syntax

section \<open>The reflection layer of src/reflect/value.go\<close>

text \<open>
  The Go file manipulates raw memory through \<^verbatim>\<open>unsafe.Pointer\<close>. The embedding keeps that
  level: memory is a map from addresses to bytes, a \<^verbatim>\<open>uintptr\<close> is a natural number
  below \<open>2 ^ (8 * ptrSize)\<close> with the wrap-around of every \<^verbatim>\<open>uintptr\<close> operation written
  out, multi-byte values are little-endian (the byte order that \<^verbatim>\<open>loadValue\<close> and
  \<^verbatim>\<open>valueInterfaceUnsafe\<close> spell out), a Go \<^verbatim>\<open>int\<close> argument is an \<open>int\<close>, and a panic
  is the left injection of a sum. Loads never trap: the nil checks the compiler inserts
  before a dereference are not part of the source file and are not modelled.
\<close>

subsection \<open>Kinds, type descriptors, the target\<close>

type_synonym byte = "8 word"

text \<open>The kinds, in the order of type.go; \<^verbatim>\<open>Int\<close> is written \<open>IntKind\<close>.\<close>

datatype Kind =
    Invalid | Bool | IntKind | Int8 | Int16 | Int32 | Int64
  | Uint | Uint8 | Uint16 | Uint32 | Uint64 | Uintptr
  | Float32 | Float64 | Complex64 | Complex128
  | String | UnsafePointer | Chan | Interface | Pointer | Slice | Array | Func | Map
  | Struct

record rawField =
  Name :: string
  PkgPath :: string
  Type :: nat
  Offset :: nat

text \<open>
  Modelled from the spec: the type descriptor (\<^verbatim>\<open>rawType\<close>, declared in type.go, which is
  not among the sources). The spec lists what a descriptor exposes: kind tag, byte size,
  element type, key type, field list (type, byte offset, visibility marker), and the
  predicate "equality is pure byte comparison". A descriptor is referred to by its
  address (\<open>0\<close> is the nil descriptor), and descriptors are compared by address.
\<close>

record rawType =
  tkind :: Kind
  tsize :: nat
  tname :: string
  telem :: nat
  tkey :: nat
  tfields :: "rawField list"
  tlen :: nat
  tbinary :: bool
  tunderlying :: nat
  tptrTo :: nat

text \<open>
  The target and the process-wide tables the file reads: the sizes of \<^verbatim>\<open>uintptr\<close> and
  \<^verbatim>\<open>int\<close> in bytes, the descriptor table, the compiler's assignability relation
  (\<^verbatim>\<open>AssignableTo\<close>, type.go), the descriptor of \<^verbatim>\<open>uint8\<close>, the address of the 32 zero
  bytes of \<^verbatim>\<open>zerobuffer\<close>, and the two floating-point conversions of the language, which
  act on bit patterns here.
\<close>

record env =
  ptrSize :: nat
  intSize :: nat
  types :: "nat \<Rightarrow> rawType"
  assignableTo :: "nat \<Rightarrow> nat \<Rightarrow> bool"
  uint8Type :: nat
  zerobuffer :: nat
  float32to64 :: "nat \<Rightarrow> nat"
  float64to32 :: "nat \<Rightarrow> nat"

definition pbits :: "env \<Rightarrow> nat" where
  "pbits E = 8 * ptrSize E"

definition ibits :: "env \<Rightarrow> nat" where
  "ibits E = 8 * intSize E"

subsection \<open>Conversions and uintptr arithmetic\<close>

definition to_uintptr :: "env \<Rightarrow> nat \<Rightarrow> nat" where
  "to_uintptr E n = n mod 2 ^ pbits E"

definition int_to_uintptr :: "env \<Rightarrow> int \<Rightarrow> nat" where
  "int_to_uintptr E i = nat (i mod 2 ^ pbits E)"

definition int_to_uint :: "env \<Rightarrow> int \<Rightarrow> nat" where
  "int_to_uint E i = nat (i mod 2 ^ ibits E)"

definition uintptr_to_uint :: "env \<Rightarrow> nat \<Rightarrow> nat" where
  "uintptr_to_uint E n = n mod 2 ^ ibits E"

text \<open>The signed reading of the low \<open>8 * n\<close> bits (for \<open>0 < n\<close>).\<close>

definition signed :: "nat \<Rightarrow> nat \<Rightarrow> int" where
  "signed n x = signed_take_bit (8 * n - 1) (int x)"

definition uintptr_to_int :: "env \<Rightarrow> nat \<Rightarrow> int" where
  "uintptr_to_int E n = signed (intSize E) n"

definition uadd :: "env \<Rightarrow> nat \<Rightarrow> nat \<Rightarrow> nat" where
  "uadd E a b = (a + b) mod 2 ^ pbits E"

definition usub :: "env \<Rightarrow> nat \<Rightarrow> nat \<Rightarrow> nat" where
  "usub E a b = nat ((int a - int b) mod 2 ^ pbits E)"

definition umul :: "env \<Rightarrow> nat \<Rightarrow> nat \<Rightarrow> nat" where
  "umul E a b = (a * b) mod 2 ^ pbits E"

text \<open>Go shifts: a count of the width or more gives 0, bits shifted out are lost.\<close>

definition ushl :: "env \<Rightarrow> nat \<Rightarrow> nat \<Rightarrow> nat" where
  "ushl E a n = take_bit (pbits E) (push_bit n a)"

definition ushr :: "env \<Rightarrow> nat \<Rightarrow> nat \<Rightarrow> nat" where
  "ushr E a n = drop_bit n a"

text \<open>\<^verbatim>\<open>unsafe.Add(p, n)\<close>: address arithmetic in the width of a pointer.\<close>

definition unsafe_Add :: "env \<Rightarrow> nat \<Rightarrow> nat \<Rightarrow> nat" where
  "unsafe_Add E p n = uadd E p n"

subsection \<open>Memory\<close>

type_synonym memory = "nat \<Rightarrow> byte"

text \<open>A typed load \<^verbatim>\<open>*(*T)(p)\<close> of \<open>n\<close> bytes, and the matching store.\<close>

fun load_le :: "env \<Rightarrow> memory \<Rightarrow> nat \<Rightarrow> nat \<Rightarrow> nat" where
  "load_le E m p 0 = 0"
| "load_le E m p (Suc n) = unat (m p) + 256 * load_le E m (unsafe_Add E p 1) n"

fun store_le :: "env \<Rightarrow> memory \<Rightarrow> nat \<Rightarrow> nat \<Rightarrow> nat \<Rightarrow> memory" where
  "store_le E m p 0 x = m"
| "store_le E m p (Suc n) x = store_le E (m(p := of_nat x)) (unsafe_Add E p 1) n (x div 256)"

fun load_bytes :: "env \<Rightarrow> memory \<Rightarrow> nat \<Rightarrow> nat \<Rightarrow> byte list" where
  "load_bytes E m p 0 = []"
| "load_bytes E m p (Suc n) = m p # load_bytes E m (unsafe_Add E p 1) n"

fun store_bytes :: "env \<Rightarrow> memory \<Rightarrow> nat \<Rightarrow> byte list \<Rightarrow> memory" where
  "store_bytes E m p [] = m"
| "store_bytes E m p (b # bs) = store_bytes E (m(p := b)) (unsafe_Add E p 1) bs"

definition load_word :: "env \<Rightarrow> memory \<Rightarrow> nat \<Rightarrow> nat" where
  "load_word E m p = load_le E m p (ptrSize E)"

definition store_word :: "env \<Rightarrow> memory \<Rightarrow> nat \<Rightarrow> nat \<Rightarrow> memory" where
  "store_word E m p x = store_le E m p (ptrSize E) x"

text \<open>The bytes of a local variable that holds the word \<open>w\<close> (what \<^verbatim>\<open>&value\<close> points at).\<close>

fun word_bytes :: "nat \<Rightarrow> nat \<Rightarrow> byte list" where
  "word_bytes 0 w = []"
| "word_bytes (Suc n) w = of_nat w # word_bytes n (w div 256)"

text \<open>The first \<open>n\<close> bytes of such a local, read back as a number.\<close>

definition local_load :: "nat \<Rightarrow> nat \<Rightarrow> nat" where
  "local_load n w = w mod 2 ^ (8 * n)"

subsection \<open>The methods of a descriptor that value.go calls\<close>

text \<open>
  Modelled from the spec: the methods of \<^verbatim>\<open>*rawType\<close> (type.go) read the descriptor.
  \<^verbatim>\<open>Kind\<close> of the nil descriptor is \<open>Invalid\<close> (the zero-valued handle has no kind);
  \<^verbatim>\<open>rawField\<close> fails outside \<open>[0, NumField)\<close>.
\<close>

datatype panic =
    ValueError string Kind
  | PanicString string
  | SlicePanic

definition rawType_Kind :: "env \<Rightarrow> nat \<Rightarrow> Kind" where
  "rawType_Kind E t = (if t = 0 then Invalid else tkind (types E t))"

definition rawType_Size :: "env \<Rightarrow> nat \<Rightarrow> nat" where
  "rawType_Size E t = tsize (types E t)"

definition rawType_elem :: "env \<Rightarrow> nat \<Rightarrow> nat" where
  "rawType_elem E t = telem (types E t)"

definition rawType_key :: "env \<Rightarrow> nat \<Rightarrow> nat" where
  "rawType_key E t = tkey (types E t)"

definition rawType_underlying :: "env \<Rightarrow> nat \<Rightarrow> nat" where
  "rawType_underlying E t = tunderlying (types E t)"

definition rawType_Len :: "env \<Rightarrow> nat \<Rightarrow> nat" where
  "rawType_Len E t = tlen (types E t)"

definition rawType_String :: "env \<Rightarrow> nat \<Rightarrow> string" where
  "rawType_String E t = tname (types E t)"

definition rawType_isBinary :: "env \<Rightarrow> nat \<Rightarrow> bool" where
  "rawType_isBinary E t = tbinary (types E t)"

definition rawType_NumField :: "env \<Rightarrow> nat \<Rightarrow> nat" where
  "rawType_NumField E t = length (tfields (types E t))"

definition rawType_rawField :: "env \<Rightarrow> nat \<Rightarrow> int \<Rightarrow> panic + rawField" where
  "rawType_rawField E t i =
     (if 0 \<le> i \<and> i < int (rawType_NumField E t)
      then Inr (tfields (types E t) ! nat i)
      else Inl (PanicString ''reflect: field index out of range''))"

definition pointerTo :: "env \<Rightarrow> nat \<Rightarrow> nat" where
  "pointerTo E t = tptrTo (types E t)"

definition rawType_AssignableTo :: "env \<Rightarrow> nat \<Rightarrow> nat \<Rightarrow> bool" where
  "rawType_AssignableTo E t u = assignableTo E t u"

subsection \<open>The handle\<close>

type_synonym valueFlags = "8 word"

definition valueFlagIndirect :: valueFlags where
  "valueFlagIndirect = 1"

definition valueFlagExported :: valueFlags where
  "valueFlagExported = 2"

record Value =
  typecode :: nat
  val :: nat
  flags :: valueFlags

text \<open>\<^verbatim>\<open>Value{}\<close>: the nil descriptor, the nil pointer, no flag.\<close>

definition zeroValue :: Value where
  "zeroValue = \<lparr>typecode = 0, val = 0, flags = 0\<rparr>"

definition isIndirect :: "Value \<Rightarrow> bool" where
  "isIndirect v = (flags v AND valueFlagIndirect \<noteq> 0)"

definition isExported :: "Value \<Rightarrow> bool" where
  "isExported v = (flags v AND valueFlagExported \<noteq> 0)"

definition Value_Kind :: "env \<Rightarrow> Value \<Rightarrow> Kind" where
  "Value_Kind E v = rawType_Kind E (typecode v)"

definition Value_IsValid :: "Value \<Rightarrow> bool" where
  "Value_IsValid v = (typecode v \<noteq> 0)"

definition Value_CanInterface :: "Value \<Rightarrow> bool" where
  "Value_CanInterface v = isExported v"

definition Value_CanAddr :: "Value \<Rightarrow> bool" where
  "Value_CanAddr v = (flags v AND valueFlagIndirect = valueFlagIndirect)"

definition Value_CanSet :: "Value \<Rightarrow> bool" where
  "Value_CanSet v =
     (flags v AND (valueFlagExported OR valueFlagIndirect) = valueFlagExported OR valueFlagIndirect)"

definition Value_Addr :: "env \<Rightarrow> Value \<Rightarrow> panic + Value" where
  "Value_Addr E v =
     (if \<not> Value_CanAddr v then Inl (PanicString ''reflect.Value.Addr of unaddressable value'')
      else Inr \<lparr>typecode = pointerTo E (typecode v), val = val v,
                flags = flags v XOR valueFlagIndirect\<rparr>)"

text \<open>\<^verbatim>\<open>pointer\<close>: the pointer a Ptr, Map, Chan or UnsafePointer handle stands for.\<close>

definition Value_pointer :: "env \<Rightarrow> memory \<Rightarrow> Value \<Rightarrow> nat" where
  "Value_pointer E m v = (if isIndirect v then load_word E m (val v) else val v)"

subsection \<open>Scalar readers\<close>

text \<open>
  \<^verbatim>\<open>Int\<close> returns the \<^verbatim>\<open>int64\<close> as an integer, \<^verbatim>\<open>Uint\<close> the \<^verbatim>\<open>uint64\<close> as a natural number,
  \<^verbatim>\<open>Float\<close> the bit pattern of the \<^verbatim>\<open>float64\<close>, \<^verbatim>\<open>Complex\<close> the bit patterns of the real
  and the imaginary part, \<^verbatim>\<open>String\<close> the bytes of the string.
\<close>

definition Value_Bool :: "env \<Rightarrow> memory \<Rightarrow> Value \<Rightarrow> panic + bool" where
  "Value_Bool E m v =
     (case Value_Kind E v of
        Bool \<Rightarrow> (if isIndirect v then Inr (m (val v) \<noteq> 0) else Inr (val v \<noteq> 0))
      | k \<Rightarrow> Inl (ValueError ''Bool'' k))"

definition Value_Int :: "env \<Rightarrow> memory \<Rightarrow> Value \<Rightarrow> panic + int" where
  "Value_Int E m v =
     (case Value_Kind E v of
        IntKind \<Rightarrow>
          (if isIndirect v \<or> intSize E > ptrSize E
           then Inr (signed (intSize E) (load_le E m (val v) (intSize E)))
           else Inr (signed (intSize E) (val v)))
      | Int8 \<Rightarrow>
          (if isIndirect v then Inr (signed 1 (load_le E m (val v) 1))
           else Inr (signed 1 (val v)))
      | Int16 \<Rightarrow>
          (if isIndirect v then Inr (signed 2 (load_le E m (val v) 2))
           else Inr (signed 2 (val v)))
      | Int32 \<Rightarrow>
          (if isIndirect v \<or> 4 > ptrSize E then Inr (signed 4 (load_le E m (val v) 4))
           else Inr (signed 4 (val v)))
      | Int64 \<Rightarrow>
          (if isIndirect v \<or> 8 > ptrSize E then Inr (signed 8 (load_le E m (val v) 8))
           else Inr (signed 8 (val v)))
      | k \<Rightarrow> Inl (ValueError ''Int'' k))"

definition to_uint64 :: "nat \<Rightarrow> nat" where
  "to_uint64 n = n mod 2 ^ 64"

definition Value_Uint :: "env \<Rightarrow> memory \<Rightarrow> Value \<Rightarrow> panic + nat" where
  "Value_Uint E m v =
     (case Value_Kind E v of
        Uintptr \<Rightarrow>
          (if isIndirect v then Inr (to_uint64 (load_le E m (val v) (ptrSize E)))
           else Inr (to_uint64 (val v)))
      | Uint8 \<Rightarrow>
          (if isIndirect v then Inr (to_uint64 (load_le E m (val v) 1))
           else Inr (to_uint64 (val v)))
      | Uint16 \<Rightarrow>
          (if isIndirect v then Inr (to_uint64 (load_le E m (val v) 2))
           else Inr (to_uint64 (val v)))
      | Uint \<Rightarrow>
          (if isIndirect v \<or> intSize E > ptrSize E
           then Inr (to_uint64 (load_le E m (val v) (intSize E)))
           else Inr (to_uint64 (val v)))
      | Uint32 \<Rightarrow>
          (if isIndirect v \<or> 4 > ptrSize E then Inr (to_uint64 (load_le E m (val v) 4))
           else Inr (to_uint64 (val v)))
      | Uint64 \<Rightarrow>
          (if isIndirect v \<or> 8 > ptrSize E then Inr (to_uint64 (load_le E m (val v) 8))
           else Inr (to_uint64 (val v)))
      | k \<Rightarrow> Inl (ValueError ''Uint'' k))"

definition Value_Float :: "env \<Rightarrow> memory \<Rightarrow> Value \<Rightarrow> panic + nat" where
  "Value_Float E m v =
     (case Value_Kind E v of
        Float32 \<Rightarrow>
          (if isIndirect v \<or> 4 > ptrSize E
           then Inr (float32to64 E (load_le E m (val v) 4))
           else Inr (float32to64 E (local_load 4 (val v))))
      | Float64 \<Rightarrow>
          (if isIndirect v \<or> 8 > ptrSize E
           then Inr (load_le E m (val v) 8)
           else Inr (local_load 8 (val v)))
      | k \<Rightarrow> Inl (ValueError ''Float'' k))"

definition Value_Complex :: "env \<Rightarrow> memory \<Rightarrow> Value \<Rightarrow> panic + nat \<times> nat" where
  "Value_Complex E m v =
     (case Value_Kind E v of
        Complex64 \<Rightarrow>
          (if isIndirect v \<or> 8 > ptrSize E
           then Inr (float32to64 E (load_le E m (val v) 4),
                     float32to64 E (load_le E m (unsafe_Add E (val v) 4) 4))
           else Inr (float32to64 E (local_load 4 (val v)),
                     float32to64 E (local_load 4 (val v div 2 ^ 32))))
      | Complex128 \<Rightarrow>
          Inr (load_le E m (val v) 8, load_le E m (unsafe_Add E (val v) 8) 8)
      | k \<Rightarrow> Inl (ValueError ''Complex'' k))"

text \<open>A string header is a data pointer followed by a length.\<close>

definition load_string :: "env \<Rightarrow> memory \<Rightarrow> nat \<Rightarrow> string" where
  "load_string E m p =
     map (\<lambda>b. char_of (unat b))
       (load_bytes E m (load_word E m p) (load_word E m (unsafe_Add E p (ptrSize E))))"

definition Value_String :: "env \<Rightarrow> memory \<Rightarrow> Value \<Rightarrow> panic + string" where
  "Value_String E m v =
     (case Value_Kind E v of
        String \<Rightarrow> Inr (load_string E m (val v))
      | _ \<Rightarrow> Inr (''<'' @ rawType_String E (typecode v) @ '' Value>''))"

subsection \<open>The type-erased container\<close>

text \<open>
  Modelled from the spec: the two primitives of the host boundary,
  \<^verbatim>\<open>decompose(container) -> (type, data)\<close> and \<^verbatim>\<open>compose(type, data) -> container\<close>
  (\<^verbatim>\<open>runtime.decomposeInterface\<close> and \<^verbatim>\<open>runtime.composeInterface\<close>, linked in by name). A
  container is the pair of a descriptor and a data word; in memory it is two words.
\<close>

type_synonym iface = "nat \<times> nat"

definition composeInterface :: "nat \<Rightarrow> nat \<Rightarrow> iface" where
  "composeInterface t x = (t, x)"

definition decomposeInterface :: "iface \<Rightarrow> nat \<times> nat" where
  "decomposeInterface i = (fst i, snd i)"

definition load_iface :: "env \<Rightarrow> memory \<Rightarrow> nat \<Rightarrow> iface" where
  "load_iface E m p = (load_word E m p, load_word E m (unsafe_Add E p (ptrSize E)))"

definition ValueOf :: "iface \<Rightarrow> Value" where
  "ValueOf i =
     (case decomposeInterface i of
        (t, x) \<Rightarrow> \<lparr>typecode = t, val = x, flags = valueFlagExported\<rparr>)"

text \<open>
  The loop of \<^verbatim>\<open>valueInterfaceUnsafe\<close>:
  \<^verbatim>\<open>for j := size; j != 0; j-- { value = (value << 8) | uintptr(*(*uint8)(unsafe.Add(v.value, j-1))) }\<close>
\<close>

fun unbox :: "env \<Rightarrow> memory \<Rightarrow> nat \<Rightarrow> nat \<Rightarrow> nat \<Rightarrow> nat" where
  "unbox E m p 0 x = x"
| "unbox E m p (Suc j) x = unbox E m p j (ushl E x 8 OR unat (m (unsafe_Add E p j)))"

definition valueInterfaceUnsafe :: "env \<Rightarrow> memory \<Rightarrow> Value \<Rightarrow> iface" where
  "valueInterfaceUnsafe E m v =
     (if rawType_Kind E (typecode v) = Interface then load_iface E m (val v)
      else if isIndirect v \<and> rawType_Size E (typecode v) \<le> ptrSize E
      then composeInterface (typecode v) (unbox E m (val v) (rawType_Size E (typecode v)) 0)
      else composeInterface (typecode v) (val v))"

definition Value_Interface :: "env \<Rightarrow> memory \<Rightarrow> Value \<Rightarrow> panic + iface" where
  "Value_Interface E m v =
     (if \<not> isExported v then Inl (PanicString ''(reflect.Value).Interface: unexported'')
      else Inr (valueInterfaceUnsafe E m v))"

subsection \<open>Navigation\<close>

definition Value_Elem :: "env \<Rightarrow> memory \<Rightarrow> Value \<Rightarrow> panic + Value" where
  "Value_Elem E m v =
     (case Value_Kind E v of
        Pointer \<Rightarrow>
          (let ptr = Value_pointer E m v in
           if ptr = 0 then Inr zeroValue
           else Inr \<lparr>typecode = rawType_elem E (typecode v), val = ptr,
                     flags = flags v OR valueFlagIndirect\<rparr>)
      | Interface \<Rightarrow>
          (case decomposeInterface (load_iface E m (val v)) of
             (t, x) \<Rightarrow> Inr \<lparr>typecode = t, val = x, flags = flags v AND NOT valueFlagIndirect\<rparr>)
      | k \<Rightarrow> Inl (ValueError ''Elem'' k))"

text \<open>
  \<^verbatim>\<open>loadValue\<close>: \<open>n\<close> counts the iterations that remain, \<open>ptr\<close>, \<open>shift\<close> and
  \<open>loadedValue\<close> are the loop's variables.
\<close>

fun loadValue_loop :: "env \<Rightarrow> memory \<Rightarrow> nat \<Rightarrow> nat \<Rightarrow> nat \<Rightarrow> nat \<Rightarrow> nat" where
  "loadValue_loop E m 0 ptr shift loadedValue = loadedValue"
| "loadValue_loop E m (Suc n) ptr shift loadedValue =
     loadValue_loop E m n (unsafe_Add E ptr 1) (uadd E shift 8)
       (loadedValue OR ushl E (unat (m ptr)) shift)"

definition loadValue :: "env \<Rightarrow> memory \<Rightarrow> nat \<Rightarrow> nat \<Rightarrow> nat" where
  "loadValue E m ptr sz = loadValue_loop E m sz ptr 0 0"

definition maskAndShift :: "env \<Rightarrow> nat \<Rightarrow> nat \<Rightarrow> nat \<Rightarrow> nat" where
  "maskAndShift E x off sz =
     (let mask = ushr E (2 ^ pbits E - 1) (umul E (usub E (ptrSize E) sz) 8)
      in ushr E x (umul E off 8) AND mask)"

definition Value_NumField :: "env \<Rightarrow> Value \<Rightarrow> nat" where
  "Value_NumField E v = rawType_NumField E (typecode v)"

definition Value_Field :: "env \<Rightarrow> memory \<Rightarrow> Value \<Rightarrow> int \<Rightarrow> panic + Value" where
  "Value_Field E m v i =
     (if Value_Kind E v \<noteq> Struct then Inl (ValueError ''Field'' (Value_Kind E v))
      else case rawType_rawField E (typecode v) i of
        Inl e \<Rightarrow> Inl e
      | Inr structField \<Rightarrow>
          (let flags0 = (if PkgPath structField \<noteq> []
                         then flags v AND NOT valueFlagExported else flags v);
               sz = rawType_Size E (typecode v);
               fieldType = Type structField;
               fieldSize = rawType_Size E fieldType
           in if isIndirect v \<or> fieldSize > ptrSize E
              then Inr \<lparr>typecode = fieldType,
                        val = unsafe_Add E (val v) (Offset structField), flags = flags0\<rparr>
              else if fieldSize = 0
              then Inr \<lparr>typecode = fieldType, val = 0, flags = flags0\<rparr>
              else if sz > ptrSize E
              then Inr \<lparr>typecode = fieldType,
                        val = loadValue E m (unsafe_Add E (val v) (Offset structField)) fieldSize,
                        flags = flags0 AND NOT valueFlagIndirect\<rparr>
              else Inr \<lparr>typecode = fieldType,
                        val = maskAndShift E (val v) (Offset structField) fieldSize,
                        flags = flags0\<rparr>))"

text \<open>A slice header is data pointer, length, capacity; a string header is data pointer, length.\<close>

record sliceHeader =
  sh_data :: nat
  sh_len :: nat
  sh_cap :: nat

record stringHeader =
  st_data :: nat
  st_len :: nat

definition load_sliceHeader :: "env \<Rightarrow> memory \<Rightarrow> nat \<Rightarrow> sliceHeader" where
  "load_sliceHeader E m p =
     \<lparr>sh_data = load_word E m p,
      sh_len = load_word E m (unsafe_Add E p (ptrSize E)),
      sh_cap = load_word E m (unsafe_Add E p (2 * ptrSize E))\<rparr>"

definition load_stringHeader :: "env \<Rightarrow> memory \<Rightarrow> nat \<Rightarrow> stringHeader" where
  "load_stringHeader E m p =
     \<lparr>st_data = load_word E m p, st_len = load_word E m (unsafe_Add E p (ptrSize E))\<rparr>"

definition store_sliceHeader :: "env \<Rightarrow> memory \<Rightarrow> nat \<Rightarrow> sliceHeader \<Rightarrow> memory" where
  "store_sliceHeader E m p h =
     store_word E
       (store_word E (store_word E m p (sh_data h)) (unsafe_Add E p (ptrSize E)) (sh_len h))
       (unsafe_Add E p (2 * ptrSize E)) (sh_cap h)"

definition store_stringHeader :: "env \<Rightarrow> memory \<Rightarrow> nat \<Rightarrow> stringHeader \<Rightarrow> memory" where
  "store_stringHeader E m p h =
     store_word E (store_word E m p (st_data h)) (unsafe_Add E p (ptrSize E)) (st_len h)"

definition Value_Index :: "env \<Rightarrow> memory \<Rightarrow> Value \<Rightarrow> int \<Rightarrow> panic + Value" where
  "Value_Index E m v i =
     (case Value_Kind E v of
        Slice \<Rightarrow>
          (let slice = load_sliceHeader E m (val v) in
           if int_to_uint E i \<ge> uintptr_to_uint E (sh_len slice)
           then Inl (PanicString ''reflect: slice index out of range'')
           else Inr \<lparr>typecode = rawType_elem E (typecode v),
                     val = unsafe_Add E (sh_data slice)
                             (umul E (rawType_Size E (rawType_elem E (typecode v)))
                                (int_to_uintptr E i)),
                     flags = flags v OR valueFlagIndirect\<rparr>)
      | String \<Rightarrow>
          (let s = load_stringHeader E m (val v) in
           if int_to_uint E i \<ge> uintptr_to_uint E (st_len s)
           then Inl (PanicString ''reflect: string index out of range'')
           else Inr \<lparr>typecode = uint8Type E,
                     val = unat (m (unsafe_Add E (st_data s) (int_to_uintptr E i))),
                     flags = flags v AND valueFlagExported\<rparr>)
      | Array \<Rightarrow>
          (let elemType = rawType_elem E (typecode v);
               elemSize = rawType_Size E elemType;
               sz = rawType_Size E (typecode v)
           in if sz = 0 then Inr \<lparr>typecode = elemType, val = 0, flags = flags v\<rparr>
              else if elemSize > ptrSize E
              then Inr \<lparr>typecode = elemType,
                        val = unsafe_Add E (val v) (umul E elemSize (int_to_uintptr E i)),
                        flags = flags v\<rparr>
              else if sz > ptrSize E \<or> isIndirect v
              then (let addr = unsafe_Add E (val v) (umul E elemSize (int_to_uintptr E i))
                    in Inr \<lparr>typecode = elemType,
                             val = (if \<not> isIndirect v then loadValue E m addr elemSize
                                    else addr),
                             flags = flags v\<rparr>)
              else Inr \<lparr>typecode = elemType,
                        val = maskAndShift E (val v) (umul E elemSize (int_to_uintptr E i))
                                elemSize,
                        flags = flags v\<rparr>)
      | k \<Rightarrow> Inl (ValueError ''Index'' k))"

subsection \<open>The run-time state: memory, the allocator, the map engine\<close>

datatype hkey = StringKey "byte list" | BinaryKey "byte list" | InterfaceKey nat "byte list"

record hashmap =
  keySize :: nat
  valueSize :: nat
  alg :: nat
  entries :: "(hkey \<times> byte list) list"

text \<open>
  \<open>brk\<close> is the first address the allocator has not handed out, \<open>hmaps\<close> the maps of the
  engine by reference, \<open>chans\<close> the length and capacity the channel primitive reports.
\<close>

record state =
  mem :: memory
  brk :: nat
  hmaps :: "nat \<Rightarrow> hashmap option"
  chans :: "nat \<Rightarrow> int \<times> int"

text \<open>
  Modelled from the spec: the allocator (\<^verbatim>\<open>runtime.alloc\<close>),
  \<^verbatim>\<open>allocate(size) -> memory reference\<close>, zero-initialized and never aliasing live data.
  It hands out the addresses from \<open>brk\<close> on and zeroes them; a request of no byte still
  takes an address of its own.
\<close>

definition alloc :: "env \<Rightarrow> state \<Rightarrow> nat \<Rightarrow> nat \<times> state" where
  "alloc E s n =
     (brk s, s\<lparr>mem := store_bytes E (mem s) (brk s) (replicate n 0), brk := brk s + max n 1\<rparr>)"

text \<open>
  A pointer argument is an address in memory, or the address of a local variable of the
  caller that holds a word (\<^verbatim>\<open>&value\<close>, \<^verbatim>\<open>&key.value\<close>, \<^verbatim>\<open>&elem.value\<close>); such a local
  does not outlive the call, so it is given by its content.
\<close>

datatype pointer_arg = Heap nat | Local nat

definition read_arg :: "env \<Rightarrow> memory \<Rightarrow> pointer_arg \<Rightarrow> nat \<Rightarrow> byte list" where
  "read_arg E m a n =
     (case a of Heap p \<Rightarrow> load_bytes E m p n | Local w \<Rightarrow> take n (word_bytes (ptrSize E) w))"

text \<open>Modelled from the spec: \<^verbatim>\<open>runtime.memcpy\<close>, a copy of \<open>n\<close> bytes.\<close>

definition memcpy :: "env \<Rightarrow> memory \<Rightarrow> nat \<Rightarrow> pointer_arg \<Rightarrow> nat \<Rightarrow> memory" where
  "memcpy E m dst src n = store_bytes E m dst (read_arg E m src n)"

text \<open>
  Modelled from the spec: the associative map engine (\<^verbatim>\<open>runtime.hashmap*\<close>),
  \<^verbatim>\<open>create(keySize, valueSize, sizeHint, strategy)\<close>, \<^verbatim>\<open>get/set/delete\<close> per strategy and
  \<^verbatim>\<open>len\<close>. The string strategy compares the bytes of the strings, the binary strategy the
  \<open>keySize\<close> bytes at the key pointer, and the type-erased strategy the descriptor together
  with the payload of the container (the data word when the type fits in a word, the bytes
  behind it otherwise). A lookup copies the stored value to the value pointer and reports
  whether the key was found; a store into a map that does not exist fails, as an
  assignment to an entry of a nil map does.
\<close>

definition hashmapMake :: "env \<Rightarrow> state \<Rightarrow> nat \<Rightarrow> nat \<Rightarrow> nat \<Rightarrow> nat \<Rightarrow> nat \<times> state" where
  "hashmapMake E s ks vs sizeHint a =
     (case alloc E s (ptrSize E) of
        (p, s') \<Rightarrow>
          (p, s'\<lparr>hmaps := (hmaps s')(p \<mapsto> \<lparr>keySize = ks, valueSize = vs, alg = a, entries = []\<rparr>)\<rparr>))"

definition hashmapGet :: "env \<Rightarrow> state \<Rightarrow> nat \<Rightarrow> hkey \<Rightarrow> nat \<Rightarrow> nat \<Rightarrow> bool \<times> state" where
  "hashmapGet E s mp k valuePtr valSize =
     (case hmaps s mp of
        None \<Rightarrow> (False, s)
      | Some h \<Rightarrow>
          (case map_of (entries h) k of
             None \<Rightarrow> (False, s)
           | Some bs \<Rightarrow> (True, s\<lparr>mem := store_bytes E (mem s) valuePtr (take valSize bs)\<rparr>)))"

definition hashmapSet :: "env \<Rightarrow> state \<Rightarrow> nat \<Rightarrow> hkey \<Rightarrow> pointer_arg \<Rightarrow> (panic + unit) \<times> state" where
  "hashmapSet E s mp k valuePtr =
     (case hmaps s mp of
        None \<Rightarrow> (Inl (PanicString ''assignment to entry in nil map''), s)
      | Some h \<Rightarrow>
          (Inr (),
           s\<lparr>hmaps := (hmaps s)(mp \<mapsto>
                h\<lparr>entries := (k, read_arg E (mem s) valuePtr (valueSize h))
                                # filter (\<lambda>e. fst e \<noteq> k) (entries h)\<rparr>)\<rparr>))"

definition hashmapDelete :: "state \<Rightarrow> nat \<Rightarrow> hkey \<Rightarrow> state" where
  "hashmapDelete s mp k =
     (case hmaps s mp of
        None \<Rightarrow> s
      | Some h \<Rightarrow>
          s\<lparr>hmaps := (hmaps s)(mp \<mapsto> h\<lparr>entries := filter (\<lambda>e. fst e \<noteq> k) (entries h)\<rparr>)\<rparr>)"

definition string_key :: "env \<Rightarrow> memory \<Rightarrow> nat \<Rightarrow> hkey" where
  "string_key E m p =
     (let s = load_stringHeader E m p in StringKey (load_bytes E m (st_data s) (st_len s)))"

definition binary_key :: "env \<Rightarrow> state \<Rightarrow> nat \<Rightarrow> pointer_arg \<Rightarrow> hkey" where
  "binary_key E s mp keyPtr =
     BinaryKey (read_arg E (mem s) keyPtr (case hmaps s mp of None \<Rightarrow> 0 | Some h \<Rightarrow> keySize h))"

definition interface_key :: "env \<Rightarrow> memory \<Rightarrow> iface \<Rightarrow> hkey" where
  "interface_key E m i =
     InterfaceKey (fst i)
       (if rawType_Size E (fst i) \<le> ptrSize E then word_bytes (ptrSize E) (snd i)
        else load_bytes E m (snd i) (rawType_Size E (fst i)))"

definition hashmapStringGet :: "env \<Rightarrow> state \<Rightarrow> nat \<Rightarrow> nat \<Rightarrow> nat \<Rightarrow> nat \<Rightarrow> bool \<times> state" where
  "hashmapStringGet E s mp keyStr valuePtr valSize =
     hashmapGet E s mp (string_key E (mem s) keyStr) valuePtr valSize"

definition hashmapBinaryGet ::
  "env \<Rightarrow> state \<Rightarrow> nat \<Rightarrow> pointer_arg \<Rightarrow> nat \<Rightarrow> nat \<Rightarrow> bool \<times> state" where
  "hashmapBinaryGet E s mp keyPtr valuePtr valSize =
     hashmapGet E s mp (binary_key E s mp keyPtr) valuePtr valSize"

definition hashmapInterfaceGet ::
  "env \<Rightarrow> state \<Rightarrow> nat \<Rightarrow> iface \<Rightarrow> nat \<Rightarrow> nat \<Rightarrow> bool \<times> state" where
  "hashmapInterfaceGet E s mp k valuePtr valSize =
     hashmapGet E s mp (interface_key E (mem s) k) valuePtr valSize"

definition maplen :: "state \<Rightarrow> nat \<Rightarrow> int" where
  "maplen s mp = (case hmaps s mp of None \<Rightarrow> 0 | Some h \<Rightarrow> int (length (entries h)))"

text \<open>Modelled from the spec: the channel primitive behind \<^verbatim>\<open>chanlen\<close> and \<^verbatim>\<open>chancap\<close>.\<close>

definition chanlen :: "state \<Rightarrow> nat \<Rightarrow> int" where
  "chanlen s p = fst (chans s p)"

definition chancap :: "state \<Rightarrow> nat \<Rightarrow> int" where
  "chancap s p = snd (chans s p)"

subsection \<open>Length, capacity, re-slicing\<close>

definition Value_Len :: "env \<Rightarrow> state \<Rightarrow> Value \<Rightarrow> panic + int" where
  "Value_Len E s v =
     (case rawType_Kind E (typecode v) of
        Array \<Rightarrow> Inr (int (rawType_Len E (typecode v)))
      | Chan \<Rightarrow> Inr (chanlen s (Value_pointer E (mem s) v))
      | Map \<Rightarrow> Inr (maplen s (Value_pointer E (mem s) v))
      | Slice \<Rightarrow> Inr (uintptr_to_int E (sh_len (load_sliceHeader E (mem s) (val v))))
      | String \<Rightarrow> Inr (uintptr_to_int E (st_len (load_stringHeader E (mem s) (val v))))
      | k \<Rightarrow> Inl (ValueError ''Len'' k))"

definition Value_Cap :: "env \<Rightarrow> state \<Rightarrow> Value \<Rightarrow> panic + int" where
  "Value_Cap E s v =
     (case rawType_Kind E (typecode v) of
        Array \<Rightarrow> Inr (int (rawType_Len E (typecode v)))
      | Chan \<Rightarrow> Inr (chancap s (Value_pointer E (mem s) v))
      | Slice \<Rightarrow> Inr (uintptr_to_int E (sh_cap (load_sliceHeader E (mem s) (val v))))
      | k \<Rightarrow> Inl (ValueError ''Cap'' k))"

text \<open>
  A header held in a local variable whose address the returned handle keeps
  (\<^verbatim>\<open>unsafe.Pointer(&hdr)\<close>) lives on the heap from its declaration on: it is allocated and
  initialised there. In the slice branch of \<^verbatim>\<open>Slice\<close> and \<^verbatim>\<open>Slice3\<close> the declaration
  \<^verbatim>\<open>hdr := *(*sliceHeader)(v.value)\<close> comes before the bounds check and the fields are
  assigned in place after it; in the string branch \<^verbatim>\<open>hdr\<close> is declared after the check.
\<close>

definition new_sliceHeader :: "env \<Rightarrow> state \<Rightarrow> sliceHeader \<Rightarrow> nat \<times> state" where
  "new_sliceHeader E s h =
     (case alloc E s (3 * ptrSize E) of
        (p, s') \<Rightarrow> (p, s'\<lparr>mem := store_sliceHeader E (mem s') p h\<rparr>))"

definition new_stringHeader :: "env \<Rightarrow> state \<Rightarrow> stringHeader \<Rightarrow> nat \<times> state" where
  "new_stringHeader E s h =
     (case alloc E s (2 * ptrSize E) of
        (p, s') \<Rightarrow> (p, s'\<lparr>mem := store_stringHeader E (mem s') p h\<rparr>))"

definition Value_Slice :: "env \<Rightarrow> state \<Rightarrow> Value \<Rightarrow> int \<Rightarrow> int \<Rightarrow> (panic + Value) \<times> state" where
  "Value_Slice E s v i0 j0 =
     (case Value_Kind E v of
        Slice \<Rightarrow>
          (let hdr = load_sliceHeader E (mem s) (val v) in
           case new_sliceHeader E s hdr of
             (p, s1) \<Rightarrow>
               (let i = int_to_uintptr E i0; j = int_to_uintptr E j0
                in if j < i \<or> sh_cap hdr < j then (Inl SlicePanic, s1)
                   else
                     (let elemSize =
                            rawType_Size E (rawType_elem E (rawType_underlying E (typecode v)))
                      in (Inr \<lparr>typecode = typecode v, val = p, flags = flags v\<rparr>,
                          s1\<lparr>mem := store_sliceHeader E (mem s1) p
                                      \<lparr>sh_data = unsafe_Add E (sh_data hdr) (umul E i elemSize),
                                       sh_len = usub E j i,
                                       sh_cap = usub E (sh_cap hdr) i\<rparr>\<rparr>))))
      | String \<Rightarrow>
          (let i = int_to_uintptr E i0; j = int_to_uintptr E j0;
               str = load_stringHeader E (mem s) (val v)
           in if j < i \<or> st_len str < j then (Inl SlicePanic, s)
              else
                (case new_stringHeader E s
                        \<lparr>st_data = unsafe_Add E (st_data str) i, st_len = usub E j i\<rparr> of
                   (p, s') \<Rightarrow> (Inr \<lparr>typecode = typecode v, val = p, flags = flags v\<rparr>, s')))
      | k \<Rightarrow> (Inl (ValueError ''Slice'' k), s))"

definition Value_Slice3 ::
  "env \<Rightarrow> state \<Rightarrow> Value \<Rightarrow> int \<Rightarrow> int \<Rightarrow> int \<Rightarrow> (panic + Value) \<times> state" where
  "Value_Slice3 E s v i0 j0 k0 =
     (case Value_Kind E v of
        Slice \<Rightarrow>
          (let hdr = load_sliceHeader E (mem s) (val v) in
           case new_sliceHeader E s hdr of
             (p, s1) \<Rightarrow>
               (let i = int_to_uintptr E i0; j = int_to_uintptr E j0; k = int_to_uintptr E k0
                in if j < i \<or> k < j \<or> sh_len hdr < k then (Inl SlicePanic, s1)
                   else
                     (let elemSize =
                            rawType_Size E (rawType_elem E (rawType_underlying E (typecode v)))
                      in (Inr \<lparr>typecode = typecode v, val = p, flags = flags v\<rparr>,
                          s1\<lparr>mem := store_sliceHeader E (mem s1) p
                                      \<lparr>sh_data = unsafe_Add E (sh_data hdr) (umul E i elemSize),
                                       sh_len = usub E j i, sh_cap = usub E k i\<rparr>\<rparr>))))
      | _ \<Rightarrow> (Inl (PanicString ''unimplemented: (reflect.Value).Slice3()''), s))"

subsection \<open>Construction\<close>

definition New :: "env \<Rightarrow> state \<Rightarrow> nat \<Rightarrow> Value \<times> state" where
  "New E s typ =
     (case alloc E s (rawType_Size E typ) of
        (p, s') \<Rightarrow> (\<lparr>typecode = pointerTo E typ, val = p, flags = valueFlagExported\<rparr>, s'))"

definition zerobufferLen :: nat where
  "zerobufferLen = 32"

definition Zero :: "env \<Rightarrow> state \<Rightarrow> nat \<Rightarrow> Value \<times> state" where
  "Zero E s typ =
     (if rawType_Size E typ \<le> ptrSize E
      then (\<lparr>typecode = typ, val = 0, flags = valueFlagExported\<rparr>, s)
      else if rawType_Size E typ \<le> zerobufferLen
      then (\<lparr>typecode = typ, val = zerobuffer E, flags = valueFlagExported\<rparr>, s)
      else case alloc E s (rawType_Size E typ) of
             (p, s') \<Rightarrow> (\<lparr>typecode = typ, val = p, flags = valueFlagExported\<rparr>, s'))"

definition MakeSlice :: "env \<Rightarrow> state \<Rightarrow> nat \<Rightarrow> int \<Rightarrow> int \<Rightarrow> (panic + Value) \<times> state" where
  "MakeSlice E s typ len0 cap0 =
     (if rawType_Kind E typ \<noteq> Slice
      then (Inl (PanicString ''reflect.MakeSlice of non-slice type''), s)
      else
        (let ulen = int_to_uint E len0;
             ucap = int_to_uint E cap0;
             maxSize0 = (2 ^ pbits E - 1) div 2;
             elementSize = rawType_Size E (rawType_elem E typ);
             maxSize = (if elementSize > 1 then maxSize0 div elementSize else maxSize0)
         in if ulen > ucap \<or> ucap > uintptr_to_uint E maxSize then (Inl SlicePanic, s)
            else
              (case alloc E s (umul E (to_uintptr E ucap) elementSize) of
                 (d, s1) \<Rightarrow>
                   (case new_sliceHeader E s1
                           \<lparr>sh_data = d, sh_len = to_uintptr E ulen, sh_cap = to_uintptr E ucap\<rparr> of
                      (p, s2) \<Rightarrow>
                        (Inr \<lparr>typecode = typ, val = p, flags = valueFlagExported\<rparr>, s2)))))"

definition hashmapAlgorithmBinary :: nat where
  "hashmapAlgorithmBinary = 0"

definition hashmapAlgorithmString :: nat where
  "hashmapAlgorithmString = 1"

definition hashmapAlgorithmInterface :: nat where
  "hashmapAlgorithmInterface = 2"

definition MakeMapWithSize :: "env \<Rightarrow> state \<Rightarrow> nat \<Rightarrow> int \<Rightarrow> (panic + Value) \<times> state" where
  "MakeMapWithSize E s typ n =
     (if rawType_Kind E typ \<noteq> Map then (Inl (ValueError ''MakeMap'' (rawType_Kind E typ)), s)
      else if n < 0 then (Inl (PanicString ''reflect.MakeMapWithSize: negative size hint''), s)
      else
        (let key = rawType_key E typ;
             elemType = rawType_elem E typ;
             a = (if rawType_Kind E key = String then hashmapAlgorithmString
                  else if rawType_isBinary E key then hashmapAlgorithmBinary
                  else hashmapAlgorithmInterface)
         in case hashmapMake E s (rawType_Size E key) (rawType_Size E elemType)
                   (int_to_uintptr E n) a of
              (mp, s') \<Rightarrow> (Inr \<lparr>typecode = typ, val = mp, flags = valueFlagExported\<rparr>, s')))"

definition MakeMap :: "env \<Rightarrow> state \<Rightarrow> nat \<Rightarrow> (panic + Value) \<times> state" where
  "MakeMap E s typ = MakeMapWithSize E s typ 8"

subsection \<open>Mutators\<close>

definition checkAddressable :: "Value \<Rightarrow> panic + unit" where
  "checkAddressable v =
     (if \<not> isIndirect v then Inl (PanicString ''reflect: value is not addressable'')
      else Inr ())"

definition Value_Set :: "env \<Rightarrow> state \<Rightarrow> Value \<Rightarrow> Value \<Rightarrow> (panic + unit) \<times> state" where
  "Value_Set E s v x =
     (case checkAddressable v of
        Inl e \<Rightarrow> (Inl e, s)
      | Inr _ \<Rightarrow>
          if \<not> rawType_AssignableTo E (typecode v) (typecode x)
          then (Inl (PanicString ''reflect: cannot set''), s)
          else
            (let sz = rawType_Size E (typecode v);
                 xptr = (if sz \<le> ptrSize E \<and> \<not> isIndirect x then Local (val x)
                         else Heap (val x))
             in (Inr (), s\<lparr>mem := memcpy E (mem s) (val v) xptr sz\<rparr>)))"

definition Value_SetBool :: "env \<Rightarrow> state \<Rightarrow> Value \<Rightarrow> bool \<Rightarrow> (panic + unit) \<times> state" where
  "Value_SetBool E s v x =
     (case checkAddressable v of
        Inl e \<Rightarrow> (Inl e, s)
      | Inr _ \<Rightarrow>
          (case Value_Kind E v of
             Bool \<Rightarrow> (Inr (), s\<lparr>mem := (mem s)(val v := (if x then 1 else 0))\<rparr>)
           | k \<Rightarrow> (Inl (ValueError ''SetBool'' k), s)))"

text \<open>The conversion of an \<^verbatim>\<open>int64\<close> to a signed type of \<open>n\<close> bytes keeps the low bits.\<close>

definition low_bytes :: "nat \<Rightarrow> int \<Rightarrow> nat" where
  "low_bytes n x = nat (x mod 2 ^ (8 * n))"

definition Value_SetInt :: "env \<Rightarrow> state \<Rightarrow> Value \<Rightarrow> int \<Rightarrow> (panic + unit) \<times> state" where
  "Value_SetInt E s v x =
     (case checkAddressable v of
        Inl e \<Rightarrow> (Inl e, s)
      | Inr _ \<Rightarrow>
          (case Value_Kind E v of
             IntKind \<Rightarrow>
               (Inr (), s\<lparr>mem := store_le E (mem s) (val v) (intSize E) (low_bytes (intSize E) x)\<rparr>)
           | Int8 \<Rightarrow> (Inr (), s\<lparr>mem := store_le E (mem s) (val v) 1 (low_bytes 1 x)\<rparr>)
           | Int16 \<Rightarrow> (Inr (), s\<lparr>mem := store_le E (mem s) (val v) 2 (low_bytes 2 x)\<rparr>)
           | Int32 \<Rightarrow> (Inr (), s\<lparr>mem := store_le E (mem s) (val v) 4 (low_bytes 4 x)\<rparr>)
           | Int64 \<Rightarrow> (Inr (), s\<lparr>mem := store_le E (mem s) (val v) 8 (low_bytes 8 x)\<rparr>)
           | k \<Rightarrow> (Inl (ValueError ''SetInt'' k), s)))"

definition Value_SetUint :: "env \<Rightarrow> state \<Rightarrow> Value \<Rightarrow> nat \<Rightarrow> (panic + unit) \<times> state" where
  "Value_SetUint E s v x =
     (case checkAddressable v of
        Inl e \<Rightarrow> (Inl e, s)
      | Inr _ \<Rightarrow>
          (case Value_Kind E v of
             Uint \<Rightarrow> (Inr (), s\<lparr>mem := store_le E (mem s) (val v) (intSize E) x\<rparr>)
           | Uint8 \<Rightarrow> (Inr (), s\<lparr>mem := store_le E (mem s) (val v) 1 x\<rparr>)
           | Uint16 \<Rightarrow> (Inr (), s\<lparr>mem := store_le E (mem s) (val v) 2 x\<rparr>)
           | Uint32 \<Rightarrow> (Inr (), s\<lparr>mem := store_le E (mem s) (val v) 4 x\<rparr>)
           | Uint64 \<Rightarrow> (Inr (), s\<lparr>mem := store_le E (mem s) (val v) 8 x\<rparr>)
           | Uintptr \<Rightarrow> (Inr (), s\<lparr>mem := store_le E (mem s) (val v) (ptrSize E) x\<rparr>)
           | k \<Rightarrow> (Inl (ValueError ''SetUint'' k), s)))"

definition Value_SetFloat :: "env \<Rightarrow> state \<Rightarrow> Value \<Rightarrow> nat \<Rightarrow> (panic + unit) \<times> state" where
  "Value_SetFloat E s v x =
     (case checkAddressable v of
        Inl e \<Rightarrow> (Inl e, s)
      | Inr _ \<Rightarrow>
          (case Value_Kind E v of
             Float32 \<Rightarrow> (Inr (), s\<lparr>mem := store_le E (mem s) (val v) 4 (float64to32 E x)\<rparr>)
           | Float64 \<Rightarrow> (Inr (), s\<lparr>mem := store_le E (mem s) (val v) 8 x\<rparr>)
           | k \<Rightarrow> (Inl (ValueError ''SetFloat'' k), s)))"

definition Value_SetComplex ::
  "env \<Rightarrow> state \<Rightarrow> Value \<Rightarrow> nat \<times> nat \<Rightarrow> (panic + unit) \<times> state" where
  "Value_SetComplex E s v x =
     (case checkAddressable v of
        Inl e \<Rightarrow> (Inl e, s)
      | Inr _ \<Rightarrow>
          (case Value_Kind E v of
             Complex64 \<Rightarrow>
               (Inr (),
                s\<lparr>mem := store_le E (store_le E (mem s) (val v) 4 (float64to32 E (fst x)))
                            (unsafe_Add E (val v) 4) 4 (float64to32 E (snd x))\<rparr>)
           | Complex128 \<Rightarrow>
               (Inr (),
                s\<lparr>mem := store_le E (store_le E (mem s) (val v) 8 (fst x))
                            (unsafe_Add E (val v) 8) 8 (snd x)\<rparr>)
           | k \<Rightarrow> (Inl (ValueError ''SetComplex'' k), s)))"

text \<open>The argument of \<^verbatim>\<open>SetString\<close> is a string, that is, its header.\<close>

definition Value_SetString ::
  "env \<Rightarrow> state \<Rightarrow> Value \<Rightarrow> stringHeader \<Rightarrow> (panic + unit) \<times> state" where
  "Value_SetString E s v x =
     (case checkAddressable v of
        Inl e \<Rightarrow> (Inl e, s)
      | Inr _ \<Rightarrow>
          (case Value_Kind E v of
             String \<Rightarrow> (Inr (), s\<lparr>mem := store_stringHeader E (mem s) (val v) x\<rparr>)
           | k \<Rightarrow> (Inl (ValueError ''SetString'' k), s)))"

text \<open>\<^verbatim>\<open>SetBytes\<close> is given the slice \<open>x\<close> by its header and copies the header over.\<close>

definition Value_SetBytes ::
  "env \<Rightarrow> state \<Rightarrow> Value \<Rightarrow> sliceHeader \<Rightarrow> (panic + unit) \<times> state" where
  "Value_SetBytes E s v x =
     (case checkAddressable v of
        Inl e \<Rightarrow> (Inl e, s)
      | Inr _ \<Rightarrow>
          if rawType_Kind E (typecode v) \<noteq> Slice
             \<or> rawType_Kind E (rawType_elem E (typecode v)) \<noteq> Uint8
          then (Inl (PanicString ''reflect.Value.SetBytes called on not []byte''), s)
          else (Inr (), s\<lparr>mem := store_sliceHeader E (mem s) (val v) x\<rparr>))"

definition Value_SetCap :: "env \<Rightarrow> state \<Rightarrow> Value \<Rightarrow> int \<Rightarrow> (panic + unit) \<times> state" where
  "Value_SetCap E s v n = (Inl (PanicString ''unimplemented: (reflect.Value).SetCap()''), s)"

text \<open>
  \<^verbatim>\<open>SetLen\<close> writes the length field of the header in place, the second word of
  \<^verbatim>\<open>sliceHeader\<close>.
\<close>

definition Value_SetLen :: "env \<Rightarrow> state \<Rightarrow> Value \<Rightarrow> int \<Rightarrow> (panic + unit) \<times> state" where
  "Value_SetLen E s v n =
     (if rawType_Kind E (typecode v) \<noteq> Slice
      then (Inl (ValueError ''reflect.Value.SetLen'' (Value_Kind E v)), s)
      else
        (let hdr = load_sliceHeader E (mem s) (val v) in
         if uintptr_to_int E (int_to_uintptr E n) \<noteq> n \<or> int_to_uintptr E n > sh_cap hdr
         then (Inl (PanicString ''reflect.Value.SetLen: slice length out of range''), s)
         else (Inr (),
               s\<lparr>mem := store_word E (mem s) (unsafe_Add E (val v) (ptrSize E))
                            (int_to_uintptr E n)\<rparr>)))"

subsection \<open>Maps\<close>

text \<open>The pointer handed to the engine for a key or an element held by a handle.\<close>

definition handle_arg :: "env \<Rightarrow> Value \<Rightarrow> pointer_arg" where
  "handle_arg E x =
     (if isIndirect x \<or> rawType_Size E (typecode x) > ptrSize E then Heap (val x)
      else Local (val x))"

definition Value_MapIndex :: "env \<Rightarrow> state \<Rightarrow> Value \<Rightarrow> Value \<Rightarrow> (panic + Value) \<times> state" where
  "Value_MapIndex E s v key =
     (if Value_Kind E v \<noteq> Map then (Inl (ValueError ''MapIndex'' (Value_Kind E v)), s)
      else if typecode key \<noteq> rawType_key E (typecode v)
      then (Inl (PanicString ''reflect.Value.MapIndex: incompatible types for key''), s)
      else
        (let elemType = rawType_elem E (typecode v) in
         case New E s elemType of
           (elem, s1) \<Rightarrow>
             if Value_Kind E key = String
             then (case hashmapStringGet E s1 (Value_pointer E (mem s1) v) (val key) (val elem)
                          (rawType_Size E elemType) of
                     (ok, s2) \<Rightarrow>
                       if \<not> ok then (Inr zeroValue, s2) else (Value_Elem E (mem s2) elem, s2))
             else if rawType_isBinary E (typecode key)
             then (case hashmapBinaryGet E s1 (Value_pointer E (mem s1) v) (handle_arg E key)
                          (val elem) (rawType_Size E elemType) of
                     (ok, s2) \<Rightarrow>
                       if \<not> ok then (Inr zeroValue, s2) else (Value_Elem E (mem s2) elem, s2))
             else (case Value_Interface E (mem s1) key of
                     Inl e \<Rightarrow> (Inl e, s1)
                   | Inr k \<Rightarrow>
                       (case hashmapInterfaceGet E s1 (Value_pointer E (mem s1) v) k (val elem)
                               (rawType_Size E elemType) of
                          (ok, s2) \<Rightarrow>
                            if \<not> ok then (Inr zeroValue, s2)
                            else (Value_Elem E (mem s2) elem, s2)))))"

definition Value_SetMapIndex ::
  "env \<Rightarrow> state \<Rightarrow> Value \<Rightarrow> Value \<Rightarrow> Value \<Rightarrow> (panic + unit) \<times> state" where
  "Value_SetMapIndex E s v key elem =
     (if Value_Kind E v \<noteq> Map then (Inl (ValueError ''SetMapIndex'' (Value_Kind E v)), s)
      else if typecode key \<noteq> rawType_key E (typecode v)
      then (Inl (PanicString ''reflect.Value.SetMapIndex: incompatible types for key''), s)
      else
        (let del = (elem = zeroValue) in
         if \<not> del \<and> typecode elem \<noteq> rawType_elem E (typecode v)
         then (Inl (PanicString ''reflect.Value.SetMapIndex: incompatible types for value''), s)
         else if Value_Kind E key = String
         then (if del
               then (Inr (),
                     hashmapDelete s (Value_pointer E (mem s) v) (string_key E (mem s) (val key)))
               else hashmapSet E s (Value_pointer E (mem s) v) (string_key E (mem s) (val key))
                      (handle_arg E elem))
         else if rawType_isBinary E (typecode key)
         then (let mp = Value_pointer E (mem s) v; keyptr = handle_arg E key in
               if del then (Inr (), hashmapDelete s mp (binary_key E s mp keyptr))
               else hashmapSet E s mp (binary_key E s mp keyptr) (handle_arg E elem))
         else (case Value_Interface E (mem s) key of
                 Inl e \<Rightarrow> (Inl e, s)
               | Inr k \<Rightarrow>
                   if del
                   then (Inr (),
                         hashmapDelete s (Value_pointer E (mem s) v) (interface_key E (mem s) k))
                   else hashmapSet E s (Value_pointer E (mem s) v) (interface_key E (mem s) k)
                          (handle_arg E elem))))"

subsection \<open>Growing a slice\<close>

text \<open>
  Modelled from the spec: \<^verbatim>\<open>runtime.sliceGrow\<close>. Growing allocates a fresh buffer and
  copies the old elements forward when the requested capacity exceeds the old one, and
  returns the old buffer otherwise.
\<close>

definition sliceGrow ::
  "env \<Rightarrow> state \<Rightarrow> nat \<Rightarrow> nat \<Rightarrow> nat \<Rightarrow> nat \<Rightarrow> nat \<Rightarrow> (nat \<times> nat \<times> nat) \<times> state" where
  "sliceGrow E s buf oldLen oldCap newCap elemSize =
     (if newCap \<le> oldCap then ((buf, oldLen, oldCap), s)
      else case alloc E s (umul E newCap elemSize) of
             (p, s') \<Rightarrow>
               ((p, oldLen, newCap),
                s'\<lparr>mem := memcpy E (mem s') p (Heap buf) (umul E oldLen elemSize)\<rparr>))"

definition extendSlice :: "env \<Rightarrow> state \<Rightarrow> Value \<Rightarrow> int \<Rightarrow> (panic + Value) \<times> state" where
  "extendSlice E s v n =
     (if Value_Kind E v \<noteq> Slice then (Inl (ValueError ''extendSlice'' (Value_Kind E v)), s)
      else
        (let old = (if val v \<noteq> 0 then load_sliceHeader E (mem s) (val v)
                    else \<lparr>sh_data = 0, sh_len = 0, sh_cap = 0\<rparr>);
             un = int_to_uintptr E n
         in case (if uadd E (sh_len old) un > sh_cap old
                  then sliceGrow E s (sh_data old) (sh_len old) (sh_cap old)
                         (uadd E (sh_cap old) un)
                         (rawType_Size E (rawType_elem E (typecode v)))
                  else ((sh_data old, sh_len old, sh_cap old), s)) of
              ((nbuf, nlen, ncap), s1) \<Rightarrow>
                (case new_sliceHeader E s1
                        \<lparr>sh_data = nbuf, sh_len = uadd E nlen un, sh_cap = ncap\<rparr> of
                   (p, s2) \<Rightarrow> (Inr (v\<lparr>val := p\<rparr>), s2))))"

text \<open>The loop of \<^verbatim>\<open>Append\<close>: \<^verbatim>\<open>for i, xx := range x { v.Index(oldLen + i).Set(xx) }\<close>.\<close>

fun Append_loop ::
  "env \<Rightarrow> state \<Rightarrow> Value \<Rightarrow> int \<Rightarrow> int \<Rightarrow> Value list \<Rightarrow> (panic + unit) \<times> state" where
  "Append_loop E s v oldLen i [] = (Inr (), s)"
| "Append_loop E s v oldLen i (xx # xs) =
     (case Value_Index E (mem s) v (oldLen + i) of
        Inl e \<Rightarrow> (Inl e, s)
      | Inr el \<Rightarrow>
          (case Value_Set E s el xx of
             (Inl e, s') \<Rightarrow> (Inl e, s')
           | (Inr _, s') \<Rightarrow> Append_loop E s' v oldLen (i + 1) xs))"

definition Append :: "env \<Rightarrow> state \<Rightarrow> Value \<Rightarrow> Value list \<Rightarrow> (panic + Value) \<times> state" where
  "Append E s v x =
     (if Value_Kind E v \<noteq> Slice then (Inl (ValueError ''Append'' (Value_Kind E v)), s)
      else case Value_Len E s v of
        Inl e \<Rightarrow> (Inl e, s)
      | Inr oldLen \<Rightarrow>
          (case extendSlice E s v (int (length x)) of
             (Inl e, s1) \<Rightarrow> (Inl e, s1)
           | (Inr v1, s1) \<Rightarrow>
               (case Append_loop E s1 v1 oldLen 0 x of
                  (Inl e, s2) \<Rightarrow> (Inl e, s2)
                | (Inr _, s2) \<Rightarrow> (Inr v1, s2))))"

subsection \<open>Copying and appending slices\<close>

text \<open>
  Modelled from the spec: \<^verbatim>\<open>runtime.sliceCopy\<close> copies \<open>min(dstLen, srcLen)\<close> elements and
  returns that count; the source bytes are read before the destination is written, so
  overlapping ranges are tolerated.
\<close>

definition sliceCopy ::
  "env \<Rightarrow> state \<Rightarrow> nat \<Rightarrow> nat \<Rightarrow> nat \<Rightarrow> nat \<Rightarrow> nat \<Rightarrow> int \<times> state" where
  "sliceCopy E s dst src dstLen srcLen elemSize =
     (let n = min dstLen srcLen in
      (uintptr_to_int E n, s\<lparr>mem := memcpy E (mem s) dst (Heap src) (umul E n elemSize)\<rparr>))"

definition buflen :: "env \<Rightarrow> state \<Rightarrow> Value \<Rightarrow> panic + nat \<times> nat" where
  "buflen E s v =
     (case rawType_Kind E (typecode v) of
        Slice \<Rightarrow>
          (let hdr = load_sliceHeader E (mem s) (val v) in Inr (sh_data hdr, sh_len hdr))
      | Array \<Rightarrow>
          (if isIndirect v
           then (case Value_Len E s v of
                   Inl e \<Rightarrow> Inl e
                 | Inr n \<Rightarrow> Inr (val v, int_to_uintptr E n))
           else Inl (PanicString ''reflect.Copy: unaddressable array value''))
      | String \<Rightarrow>
          (let hdr = load_stringHeader E (mem s) (val v) in Inr (st_data hdr, st_len hdr))
      | _ \<Rightarrow> Inl (PanicString ''reflect.Copy: not slice or array or string''))"

definition Copy :: "env \<Rightarrow> state \<Rightarrow> Value \<Rightarrow> Value \<Rightarrow> (panic + int) \<times> state" where
  "Copy E s dst src =
     (let dk = rawType_Kind E (typecode dst); sk = rawType_Kind E (typecode src);
          compatibleTypes =
            (((dk = Slice \<or> dk = Array) \<and> (sk = Slice \<or> sk = Array)
               \<and> rawType_elem E (typecode dst) = rawType_elem E (typecode src))
             \<or> ((dk = Slice \<or> dk = Array)
                  \<and> rawType_Kind E (rawType_elem E (typecode dst)) = Uint8 \<and> sk = String))
      in if \<not> compatibleTypes
         then (Inl (PanicString (''Copy: type mismatch: '' @ rawType_String E (typecode dst)
                                  @ ''/'' @ rawType_String E (typecode src))), s)
         else
           (case buflen E s dst of
              Inl e \<Rightarrow> (Inl e, s)
            | Inr (dstbuf, dstlen) \<Rightarrow>
                (case buflen E s src of
                   Inl e \<Rightarrow> (Inl e, s)
                 | Inr (srcbuf, srclen) \<Rightarrow>
                     (case sliceCopy E s dstbuf srcbuf dstlen srclen
                             (rawType_Size E (rawType_elem E (typecode dst))) of
                        (n, s') \<Rightarrow> (Inr n, s')))))"

text \<open>
  Modelled from the spec: \<^verbatim>\<open>runtime.sliceAppend\<close> grows the buffer as \<^verbatim>\<open>sliceGrow\<close> does
  when the new length exceeds the capacity, copies the new elements behind the old ones,
  and returns buffer, new length and capacity.
\<close>

definition sliceAppend ::
  "env \<Rightarrow> state \<Rightarrow> nat \<Rightarrow> nat \<Rightarrow> nat \<Rightarrow> nat \<Rightarrow> nat \<Rightarrow> nat \<Rightarrow> (nat \<times> nat \<times> nat) \<times> state" where
  "sliceAppend E s srcBuf elemsBuf srcLen srcCap elemsLen elemSize =
     (let newLen = uadd E srcLen elemsLen in
      case sliceGrow E s srcBuf srcLen srcCap newLen elemSize of
        ((buf, l, c), s1) \<Rightarrow>
          ((buf, newLen, c),
           s1\<lparr>mem := memcpy E (mem s1) (unsafe_Add E buf (umul E srcLen elemSize))
                         (Heap elemsBuf) (umul E elemsLen elemSize)\<rparr>))"

definition AppendSlice :: "env \<Rightarrow> state \<Rightarrow> Value \<Rightarrow> Value \<Rightarrow> (panic + Value) \<times> state" where
  "AppendSlice E s sv tv =
     (if rawType_Kind E (typecode sv) \<noteq> Slice \<or> rawType_Kind E (typecode tv) \<noteq> Slice
         \<or> typecode sv \<noteq> typecode tv
      then (Inl (PanicString ''reflect.AppendSlice: invalid types''), s)
      else if \<not> isExported sv \<or> \<not> isExported tv
      then (Inl (PanicString ''reflect.AppendSlice: unexported''), s)
      else
        (let sSlice = load_sliceHeader E (mem s) (val sv);
             tSlice = load_sliceHeader E (mem s) (val tv);
             elemSize = rawType_Size E (rawType_elem E (typecode sv))
         in case sliceAppend E s (sh_data sSlice) (sh_data tSlice) (sh_len sSlice)
                   (sh_cap sSlice) (sh_len tSlice) elemSize of
              ((ptr, l, c), s1) \<Rightarrow>
                (case new_sliceHeader E s1 \<lparr>sh_data = ptr, sh_len = l, sh_cap = c\<rparr> of
                   (p, s2) \<Rightarrow>
                     (Inr \<lparr>typecode = typecode sv, val = p, flags = valueFlagExported\<rparr>, s2))))"

subsection \<open>Operations that are not implemented\<close>

text \<open>Each of them panics at once, whatever it is given.\<close>

definition Value_CanConvert :: "state \<Rightarrow> Value \<Rightarrow> nat \<Rightarrow> (panic + bool) \<times> state" where
  "Value_CanConvert s v t = (Inl (PanicString ''unimplemented: (reflect.Value).CanConvert()''), s)"

definition Value_Convert :: "state \<Rightarrow> Value \<Rightarrow> nat \<Rightarrow> (panic + Value) \<times> state" where
  "Value_Convert s v t = (Inl (PanicString ''unimplemented: (reflect.Value).Convert()''), s)"

definition Value_FieldByIndex :: "state \<Rightarrow> Value \<Rightarrow> int list \<Rightarrow> (panic + Value) \<times> state" where
  "Value_FieldByIndex s v index =
     (Inl (PanicString ''unimplemented: (reflect.Value).FieldByIndex()''), s)"

definition Value_FieldByName :: "state \<Rightarrow> Value \<Rightarrow> string \<Rightarrow> (panic + Value) \<times> state" where
  "Value_FieldByName s v name =
     (Inl (PanicString ''unimplemented: (reflect.Value).FieldByName()''), s)"

definition Value_Call :: "state \<Rightarrow> Value \<Rightarrow> Value list \<Rightarrow> (panic + Value list) \<times> state" where
  "Value_Call s v args = (Inl (PanicString ''unimplemented: (reflect.Value).Call()''), s)"

definition Value_Method :: "state \<Rightarrow> Value \<Rightarrow> int \<Rightarrow> (panic + Value) \<times> state" where
  "Value_Method s v i = (Inl (PanicString ''unimplemented: (reflect.Value).Method()''), s)"

definition Value_MethodByName :: "state \<Rightarrow> Value \<Rightarrow> string \<Rightarrow> (panic + Value) \<times> state" where
  "Value_MethodByName s v name =
     (Inl (PanicString ''unimplemented: (reflect.Value).MethodByName()''), s)"

definition Value_Recv :: "state \<Rightarrow> Value \<Rightarrow> (panic + Value \<times> bool) \<times> state" where
  "Value_Recv s v = (Inl (PanicString ''unimplemented: (reflect.Value).Recv()''), s)"

definition NewAt :: "state \<Rightarrow> nat \<Rightarrow> nat \<Rightarrow> (panic + Value) \<times> state" where
  "NewAt s typ p = (Inl (PanicString ''unimplemented: reflect.New()''), s)"

section \<open>Scalar kinds\<close>

text \<open>
  Modelled from the spec: the scalar kinds and the byte size the compiler gives a type of
  each (the size field of its descriptor): the fixed widths, the width of \<^verbatim>\<open>int\<close> for
  \<^verbatim>\<open>int\<close> and \<^verbatim>\<open>uint\<close>, the width of a pointer for \<^verbatim>\<open>uintptr\<close>, and the two words of a
  string header.
\<close>

definition scalar_kinds :: "Kind set" where
  "scalar_kinds =
     {Bool, IntKind, Int8, Int16, Int32, Int64, Uint, Uint8, Uint16, Uint32, Uint64, Uintptr,
      Float32, Float64, Complex64, Complex128, String}"

definition scalarSize :: "env \<Rightarrow> Kind \<Rightarrow> nat" where
  "scalarSize E k =
     (case k of
        Bool \<Rightarrow> 1 | IntKind \<Rightarrow> intSize E | Int8 \<Rightarrow> 1 | Int16 \<Rightarrow> 2 | Int32 \<Rightarrow> 4 | Int64 \<Rightarrow> 8
      | Uint \<Rightarrow> intSize E | Uint8 \<Rightarrow> 1 | Uint16 \<Rightarrow> 2 | Uint32 \<Rightarrow> 4 | Uint64 \<Rightarrow> 8
      | Uintptr \<Rightarrow> ptrSize E | Float32 \<Rightarrow> 4 | Float64 \<Rightarrow> 8 | Complex64 \<Rightarrow> 8
      | Complex128 \<Rightarrow> 16 | String \<Rightarrow> 2 * ptrSize E | _ \<Rightarrow> 0)"

text \<open>
  The bytes of the value a handle stands for, as a little-endian number. The comment on
  \<^verbatim>\<open>isIndirect\<close> says where they are: ``the value pointer in this Value is always a pointer
  to the value'' when the flag is set, and ``if it is false, it is only a pointer to the
  value if the value is bigger than a pointer''; otherwise the data word is the value.
\<close>

definition valueBits :: "env \<Rightarrow> memory \<Rightarrow> Value \<Rightarrow> nat" where
  "valueBits E m v =
     (if isIndirect v \<or> rawType_Size E (typecode v) > ptrSize E
      then load_le E m (val v) (rawType_Size E (typecode v))
      else val v)"

text \<open>The two's complement of an integer in \<open>n\<close> bytes.\<close>

definition int_bits :: "nat \<Rightarrow> int \<Rightarrow> nat" where
  "int_bits n x = nat (x mod 2 ^ (8 * n))"

section \<open>A concrete target for the examples\<close>

text \<open>
  A 64-bit target with a handful of types: \<^verbatim>\<open>int\<close> (15), \<^verbatim>\<open>*int\<close> (2), \<^verbatim>\<open>uint8\<close> (3),
  \<^verbatim>\<open>*uint8\<close> (4), \<^verbatim>\<open>string\<close> (5), \<^verbatim>\<open>*string\<close> (6), \<^verbatim>\<open>[]int\<close> (7),
  \<^verbatim>\<open>struct { x int; Y int }\<close> (8) and its pointer type (9), \<^verbatim>\<open>map[string]int\<close> (10),
  \<^verbatim>\<open>float64\<close> (11), \<^verbatim>\<open>*float64\<close> (12), \<^verbatim>\<open>map[float64]int\<close> (13),
  \<^verbatim>\<open>map[int]int\<close> (14), \<^verbatim>\<open>bool\<close> (16), \<^verbatim>\<open>int8\<close> (17), \<^verbatim>\<open>float32\<close> (18),
  \<^verbatim>\<open>complex64\<close> (19) and \<^verbatim>\<open>complex128\<close> (20).
\<close>

definition ex_desc :: "Kind \<Rightarrow> nat \<Rightarrow> string \<Rightarrow> nat \<Rightarrow> nat \<Rightarrow> bool \<Rightarrow> nat \<Rightarrow> nat \<Rightarrow> rawType" where
  "ex_desc k sz nm el ky bin self ptr =
     \<lparr>tkind = k, tsize = sz, tname = nm, telem = el, tkey = ky, tfields = [], tlen = 0,
      tbinary = bin, tunderlying = self, tptrTo = ptr\<rparr>"

definition ex_types :: "nat \<Rightarrow> rawType" where
  "ex_types t =
     (if t = 15 then ex_desc IntKind 8 ''int'' 0 0 True 15 2
      else if t = 2 then ex_desc Pointer 8 ''*int'' 15 0 True 2 0
      else if t = 3 then ex_desc Uint8 1 ''uint8'' 0 0 True 3 4
      else if t = 4 then ex_desc Pointer 8 ''*uint8'' 3 0 True 4 0
      else if t = 5 then ex_desc String 16 ''string'' 0 0 False 5 6
      else if t = 6 then ex_desc Pointer 8 ''*string'' 5 0 True 6 0
      else if t = 7 then ex_desc Slice 24 ''[]int'' 15 0 False 7 0
      else if t = 8 then
        (ex_desc Struct 16 ''main.T'' 0 0 True 8 9)
          \<lparr>tfields := [\<lparr>Name = ''x'', PkgPath = ''main'', Type = 15, Offset = 0\<rparr>,
                       \<lparr>Name = ''Y'', PkgPath = [], Type = 15, Offset = 8\<rparr>]\<rparr>
      else if t = 9 then ex_desc Pointer 8 ''*main.T'' 8 0 True 9 0
      else if t = 10 then ex_desc Map 8 ''map[string]int'' 15 5 False 10 0
      else if t = 11 then ex_desc Float64 8 ''float64'' 0 0 False 11 12
      else if t = 12 then ex_desc Pointer 8 ''*float64'' 11 0 True 12 0
      else if t = 13 then ex_desc Map 8 ''map[float64]int'' 15 11 False 13 0
      else if t = 14 then ex_desc Map 8 ''map[int]int'' 15 15 False 14 0
      else if t = 16 then ex_desc Bool 1 ''bool'' 0 0 True 16 0
      else if t = 17 then ex_desc Int8 1 ''int8'' 0 0 True 17 0
      else if t = 18 then ex_desc Float32 4 ''float32'' 0 0 False 18 0
      else if t = 19 then ex_desc Complex64 8 ''complex64'' 0 0 False 19 0
      else if t = 20 then ex_desc Complex128 16 ''complex128'' 0 0 False 20 0
      else ex_desc Invalid 0 [] 0 0 False t 0)"

definition ex_env :: env where
  "ex_env =
     \<lparr>ptrSize = 8, intSize = 8, types = ex_types, assignableTo = (\<lambda>t u. t = u),
      uint8Type = 3, zerobuffer = 64, float32to64 = (\<lambda>x. x), float64to32 = (\<lambda>x. x)\<rparr>"

text \<open>An empty heap whose allocator starts at address 4096.\<close>

definition ex_state :: state where
  "ex_state = \<lparr>mem = (\<lambda>a. 0), brk = 4096, hmaps = (\<lambda>p. None), chans = (\<lambda>p. (0, 0))\<rparr>"

text \<open>
  The string \<^verbatim>\<open>"hi"\<close>: its header at 4096 (data pointer 8192 = 32 * 256, length 2) and
  its bytes at 8192.
\<close>

definition ex_string_state :: state where
  "ex_string_state =
     \<lparr>mem = (\<lambda>a. 0)(4097 := 32, 4104 := 2, 8192 := 104, 8193 := 105),
      brk = 8200, hmaps = (\<lambda>p. None), chans = (\<lambda>p. (0, 0))\<rparr>"

text \<open>
  A slice of \<^verbatim>\<open>int\<close>: its header at 4096 (data pointer 8192, length 2, capacity 4); the
  elements 7 and 9 at 8192 and 8200, two spare elements behind them.
\<close>

definition ex_slice_state :: state where
  "ex_slice_state =
     \<lparr>mem = (\<lambda>a. 0)(4097 := 32, 4104 := 2, 4112 := 4, 8192 := 7, 8200 := 9),
      brk = 8224, hmaps = (\<lambda>p. None), chans = (\<lambda>p. (0, 0))\<rparr>"

text \<open>
  A value of the struct type 8 at address 4096: the non-exported field \<^verbatim>\<open>x\<close> is 3, the
  exported field \<^verbatim>\<open>Y\<close> is 4.
\<close>

definition ex_struct_state :: state where
  "ex_struct_state =
     \<lparr>mem = (\<lambda>a. 0)(4096 := 3, 4104 := 4),
      brk = 8192, hmaps = (\<lambda>p. None), chans = (\<lambda>p. (0, 0))\<rparr>"

text \<open>
  Three maps of the engine on the memory of the string \<^verbatim>\<open>"hi"\<close>: at 6000 a
  \<^verbatim>\<open>map[string]int\<close> that holds \<^verbatim>\<open>"hi"\<close> \<open>\<mapsto>\<close> 42, at 6008 an empty \<^verbatim>\<open>map[int]int\<close>, at
  6016 an empty \<^verbatim>\<open>map[float64]int\<close>.
\<close>

definition ex_map_state :: state where
  "ex_map_state =
     \<lparr>mem = (\<lambda>a. 0)(4097 := 32, 4104 := 2, 8192 := 104, 8193 := 105),
      brk = 8200,
      hmaps = (\<lambda>p. if p = 6000
                    then Some \<lparr>keySize = 16, valueSize = 8, alg = 1,
                               entries = [(StringKey [104, 105], [42, 0, 0, 0, 0, 0, 0, 0])]\<rparr>
                    else if p = 6008
                    then Some \<lparr>keySize = 8, valueSize = 8, alg = 0, entries = []\<rparr>
                    else if p = 6016
                    then Some \<lparr>keySize = 8, valueSize = 8, alg = 2, entries = []\<rparr>
                    else None),
      chans = (\<lambda>p. (0, 0))\<rparr>"


text \<open>
  A \<^verbatim>\<open>map[int]int\<close> made by \<^verbatim>\<open>MakeMap\<close> on the empty heap, the same map after
  \<^verbatim>\<open>SetMapIndex(5, 7)\<close>, and after \<^verbatim>\<open>SetMapIndex(5, Value{})\<close> on top of that.
\<close>

definition ex_int_map :: state where
  "ex_int_map = snd (MakeMap ex_env ex_state 14)"

definition ex_int_map_set :: state where
  "ex_int_map_set =
     snd (Value_SetMapIndex ex_env ex_int_map \<lparr>typecode = 14, val = 4096, flags = 2\<rparr>
            \<lparr>typecode = 15, val = 5, flags = 2\<rparr> \<lparr>typecode = 15, val = 7, flags = 2\<rparr>)"

definition ex_int_map_del :: state where
  "ex_int_map_del =
     snd (Value_SetMapIndex ex_env ex_int_map_set \<lparr>typecode = 14, val = 4096, flags = 2\<rparr>
            \<lparr>typecode = 15, val = 5, flags = 2\<rparr> zeroValue)"

text \<open>
  What an operation that has at most allocated leaves behind: every map and every channel
  as it was, and every byte below the allocator's mark of the state it was called in.
\<close>

definition untouched :: "state \<Rightarrow> state \<Rightarrow> bool" where
  "untouched s s' =
     (hmaps s' = hmaps s \<and> chans s' = chans s \<and> (\<forall>a < brk s. mem s' a = mem s a))"

text \<open>
  The example slice (length 2, capacity 4) after \<^verbatim>\<open>extendSlice\<close> by two elements, which
  builds a new header of length 4 on the old backing store, and after the \<^verbatim>\<open>int\<close> 5 has been
  set into the slot at index 2 (address 8208).
\<close>

definition ex_append_extended :: state where
  "ex_append_extended
     = snd (new_sliceHeader ex_env ex_slice_state \<lparr>sh_data = 8192, sh_len = 4, sh_cap = 4\<rparr>)"

definition ex_append_written :: state where
  "ex_append_written
     = ex_append_extended\<lparr>mem := memcpy ex_env (mem ex_append_extended) 8208 (Local 5) 8\<rparr>"

section \<open>Properties\<close>

subsection \<open>Arithmetic of the conversions\<close>

lemma neg_int_to_uint:
  assumes "0 < intSize E" "- (2 ^ (ibits E - 1)) \<le> x" "x < 0"
  shows "int_to_uint E x \<ge> 2 ^ (ibits E - 1)"
proof -
  have pos: "0 < ibits E" using assms(1) by (simp add: ibits_def)
  then have two: "(2::int) ^ ibits E = 2 * 2 ^ (ibits E - 1)"
    by (cases "ibits E") simp_all
  have "x mod 2 ^ ibits E = (x + 2 ^ ibits E) mod 2 ^ ibits E" by simp
  also have "\<dots> = x + 2 ^ ibits E"
    using assms(2,3) two by (intro mod_pos_pos_trivial) simp_all
  finally have "x mod 2 ^ ibits E = x + 2 ^ ibits E" .
  then have "x mod 2 ^ ibits E \<ge> 2 ^ (ibits E - 1)"
    using assms(2) two by simp
  then have "int (nat (x mod 2 ^ ibits E)) \<ge> int (2 ^ (ibits E - 1))" by simp
  then show ?thesis unfolding int_to_uint_def by linarith
qed

lemma nonneg_int_to_uint:
  assumes "0 \<le> x" "x < 2 ^ (ibits E - 1)" "0 < intSize E"
  shows "int_to_uint E x = nat x" "int_to_uint E x < 2 ^ (ibits E - 1)"
proof -
  have pos: "0 < ibits E" using assms(3) by (simp add: ibits_def)
  then have two: "(2::int) ^ ibits E = 2 * 2 ^ (ibits E - 1)"
    by (cases "ibits E") simp_all
  have "x mod 2 ^ ibits E = x" using assms two by simp
  then show "int_to_uint E x = nat x" by (simp add: int_to_uint_def)
  then show "int_to_uint E x < 2 ^ (ibits E - 1)"
    using assms by (simp add: nat_less_iff)
qed

lemma maxSize_small:
  assumes "ptrSize E \<le> intSize E" "0 < intSize E"
  shows "uintptr_to_uint E ((2 ^ pbits E - 1) div 2 div k) < 2 ^ (ibits E - 1)"
        "uintptr_to_uint E ((2 ^ pbits E - 1) div 2) < 2 ^ (ibits E - 1)"
proof -
  have le: "pbits E \<le> ibits E" using assms by (simp add: pbits_def ibits_def)
  have pos: "0 < ibits E" using assms by (simp add: ibits_def)
  have "(2::nat) ^ pbits E \<le> 2 ^ ibits E" using le by simp
  also have "(2::nat) ^ ibits E = 2 * 2 ^ (ibits E - 1)" using pos by (cases "ibits E") simp_all
  finally have "(2::nat) ^ pbits E \<le> 2 * 2 ^ (ibits E - 1)" .
  then have a: "((2::nat) ^ pbits E - 1) div 2 < 2 ^ (ibits E - 1)"
    using one_le_power[of "2::nat" "pbits E"] by linarith
  have b: "((2::nat) ^ pbits E - 1) div 2 div k < 2 ^ (ibits E - 1)"
    by (rule le_less_trans[OF div_le_dividend a])
  have m: "\<And>n. uintptr_to_uint E n \<le> n" by (simp add: uintptr_to_uint_def)
  show "uintptr_to_uint E ((2 ^ pbits E - 1) div 2 div k) < 2 ^ (ibits E - 1)"
    using b m[of "(2 ^ pbits E - 1) div 2 div k"] by simp
  show "uintptr_to_uint E ((2 ^ pbits E - 1) div 2) < 2 ^ (ibits E - 1)"
    using a m[of "(2 ^ pbits E - 1) div 2"] by simp
qed

subsection \<open>Scalar readers and the kind of the handle\<close>

text \<open>
  C3, as the code has it. \<^verbatim>\<open>Bool\<close>, \<^verbatim>\<open>Int\<close>, \<^verbatim>\<open>Uint\<close>, \<^verbatim>\<open>Float\<close> and \<^verbatim>\<open>Complex\<close> called on
  a handle whose kind is outside the reader's accepted set fail with the
  \<^verbatim>\<open>ValueError\<close> that carries the reader's name and the handle's kind. \<^verbatim>\<open>String\<close> does
  not fail on another kind: it returns the text \<^verbatim>\<open><T Value>\<close>, \<^verbatim>\<open>T\<close> the name of the
  handle's type.
\<close>

theorem reader_kind_mismatch:
  "(Value_Kind E v \<noteq> Bool \<longrightarrow> Value_Bool E m v = Inl (ValueError ''Bool'' (Value_Kind E v)))
 \<and> (Value_Kind E v \<notin> {IntKind, Int8, Int16, Int32, Int64} \<longrightarrow>
      Value_Int E m v = Inl (ValueError ''Int'' (Value_Kind E v)))
 \<and> (Value_Kind E v \<notin> {Uint, Uint8, Uint16, Uint32, Uint64, Uintptr} \<longrightarrow>
      Value_Uint E m v = Inl (ValueError ''Uint'' (Value_Kind E v)))
 \<and> (Value_Kind E v \<notin> {Float32, Float64} \<longrightarrow>
      Value_Float E m v = Inl (ValueError ''Float'' (Value_Kind E v)))
 \<and> (Value_Kind E v \<notin> {Complex64, Complex128} \<longrightarrow>
      Value_Complex E m v = Inl (ValueError ''Complex'' (Value_Kind E v)))
 \<and> (Value_Kind E v \<noteq> String \<longrightarrow>
      Value_String E m v = Inr (''<'' @ rawType_String E (typecode v) @ '' Value>''))"
  by (cases "Value_Kind E v")
     (simp_all add: Value_Bool_def Value_Int_def Value_Uint_def Value_Float_def
        Value_Complex_def Value_String_def)

text \<open>The readers on a handle of the struct type 8 of the example target.\<close>

theorem reader_kind_mismatch_witness:
  "Value_Kind ex_env \<lparr>typecode = 8, val = 4096, flags = 3\<rparr> = Struct
 \<and> Value_Bool ex_env (\<lambda>a. 0) \<lparr>typecode = 8, val = 4096, flags = 3\<rparr>
      = Inl (ValueError ''Bool'' Struct)
 \<and> Value_Int ex_env (\<lambda>a. 0) \<lparr>typecode = 8, val = 4096, flags = 3\<rparr>
      = Inl (ValueError ''Int'' Struct)
 \<and> Value_Uint ex_env (\<lambda>a. 0) \<lparr>typecode = 8, val = 4096, flags = 3\<rparr>
      = Inl (ValueError ''Uint'' Struct)
 \<and> Value_Float ex_env (\<lambda>a. 0) \<lparr>typecode = 8, val = 4096, flags = 3\<rparr>
      = Inl (ValueError ''Float'' Struct)
 \<and> Value_Complex ex_env (\<lambda>a. 0) \<lparr>typecode = 8, val = 4096, flags = 3\<rparr>
      = Inl (ValueError ''Complex'' Struct)
 \<and> Value_String ex_env (\<lambda>a. 0) \<lparr>typecode = 8, val = 4096, flags = 3\<rparr>
      = Inr ''<main.T Value>''"
proof -
  have k: "Value_Kind ex_env \<lparr>typecode = 8, val = 4096, flags = 3\<rparr> = Struct"
    by (simp add: Value_Kind_def rawType_Kind_def ex_env_def ex_types_def ex_desc_def)
  have n: "rawType_String ex_env 8 = ''main.T''"
    by (simp add: rawType_String_def ex_env_def ex_types_def ex_desc_def)
  show ?thesis
    using reader_kind_mismatch
            [of ex_env "\<lparr>typecode = 8, val = 4096, flags = 3\<rparr>" "\<lambda>a. 0"]
    by (simp add: k n)
qed

text \<open>
  C3 as stated fails for \<^verbatim>\<open>String\<close>: on a handle of kind \<^verbatim>\<open>int\<close> it returns a string and
  raises nothing.
\<close>

theorem String_on_int_counterexample:
  "Value_Kind ex_env \<lparr>typecode = 15, val = 5, flags = 2\<rparr> = IntKind \<and>
   Value_String ex_env (\<lambda>a. 0) \<lparr>typecode = 15, val = 5, flags = 2\<rparr> = Inr ''<int Value>''"
  by (simp add: Value_String_def Value_Kind_def rawType_Kind_def rawType_String_def
        ex_env_def ex_types_def ex_desc_def)

subsection \<open>MakeSlice and negative arguments\<close>

text \<open>
  C10. For a slice type and \<^verbatim>\<open>int\<close> arguments of which one is negative, \<^verbatim>\<open>MakeSlice\<close>
  fails with the slice-bounds panic and leaves the state as it was, so nothing is
  allocated: after the conversion to \<^verbatim>\<open>uint\<close> a negative capacity exceeds the maximal
  size, and a negative length exceeds a capacity that is not negative. The width of
  \<^verbatim>\<open>int\<close> is at least the width of \<^verbatim>\<open>uintptr\<close>, as on every target of the compiler.
\<close>

theorem MakeSlice_negative:
  assumes "rawType_Kind E typ = Slice"
      and "ptrSize E \<le> intSize E" and "0 < intSize E"
      and "- (2 ^ (ibits E - 1)) \<le> len0" and "len0 < 2 ^ (ibits E - 1)"
      and "- (2 ^ (ibits E - 1)) \<le> cap0" and "cap0 < 2 ^ (ibits E - 1)"
      and "len0 < 0 \<or> cap0 < 0"
  shows "MakeSlice E s typ len0 cap0 = (Inl SlicePanic, s)"
proof -
  let ?ms = "(if rawType_Size E (rawType_elem E typ) > 1
              then (2 ^ pbits E - 1) div 2 div rawType_Size E (rawType_elem E typ)
              else (2 ^ pbits E - 1) div 2)"
  have ms: "uintptr_to_uint E ?ms < 2 ^ (ibits E - 1)"
    using maxSize_small[OF assms(2,3)] by simp
  have "int_to_uint E len0 > int_to_uint E cap0 \<or> int_to_uint E cap0 > uintptr_to_uint E ?ms"
  proof (cases "cap0 < 0")
    case True
    then show ?thesis using neg_int_to_uint[OF assms(3) assms(6)] ms by linarith
  next
    case False
    then have "len0 < 0" "0 \<le> cap0" using assms(8) by auto
    then show ?thesis
      using neg_int_to_uint[OF assms(3) assms(4)] nonneg_int_to_uint(2)[OF _ assms(7) assms(3)]
      by fastforce
  qed
  then show ?thesis
    using assms(1) unfolding MakeSlice_def Let_def by (simp only: if_True if_False simp_thms)
qed

theorem MakeSlice_negative_witness:
  "rawType_Kind ex_env 7 = Slice \<and> ptrSize ex_env \<le> intSize ex_env \<and> 0 < intSize ex_env
 \<and> - (2 ^ (ibits ex_env - 1)) \<le> (-1::int) \<and> (-1::int) < 2 ^ (ibits ex_env - 1)
 \<and> - (2 ^ (ibits ex_env - 1)) \<le> (4::int) \<and> (4::int) < 2 ^ (ibits ex_env - 1)
 \<and> MakeSlice ex_env ex_state 7 (-1) 4 = (Inl SlicePanic, ex_state)"
proof -
  have k: "rawType_Kind ex_env 7 = Slice"
    by (simp add: rawType_Kind_def ex_env_def ex_types_def ex_desc_def)
  have a: "ptrSize ex_env \<le> intSize ex_env" "0 < intSize ex_env"
    by (simp_all add: ex_env_def)
  have r: "- (2 ^ (ibits ex_env - 1)) \<le> (-1::int)" "(-1::int) < 2 ^ (ibits ex_env - 1)"
          "- (2 ^ (ibits ex_env - 1)) \<le> (4::int)" "(4::int) < 2 ^ (ibits ex_env - 1)"
    by (simp_all add: ibits_def ex_env_def)
  have "MakeSlice ex_env ex_state 7 (-1) 4 = (Inl SlicePanic, ex_state)"
    using MakeSlice_negative[OF k a r, of ex_state] by simp
  with k a r show ?thesis by simp
qed

subsection \<open>Evaluation on numerals, and the two flags\<close>

lemma load_le_numeral [simp]:
  "load_le E m p (numeral k) = unat (m p) + 256 * load_le E m (unsafe_Add E p 1) (pred_numeral k)"
proof -
  have "numeral k = Suc (pred_numeral k)" by (rule numeral_eq_Suc)
  then show ?thesis by (simp only: load_le.simps)
qed

lemma ex_env_sel [simp]:
  "ptrSize ex_env = 8" "intSize ex_env = 8" "types ex_env = ex_types"
  "assignableTo ex_env = (\<lambda>t u. t = u)" "uint8Type ex_env = 3" "zerobuffer ex_env = 64"
  "float32to64 ex_env = (\<lambda>x. x)" "float64to32 ex_env = (\<lambda>x. x)"
  by (simp_all add: ex_env_def)

lemmas ex_simps =
  ex_types_def ex_desc_def rawType_Kind_def rawType_Size_def rawType_elem_def
  rawType_key_def rawType_underlying_def rawType_String_def rawType_isBinary_def
  rawType_NumField_def rawType_rawField_def pointerTo_def Value_Kind_def
  load_word_def unsafe_Add_def uadd_def umul_def usub_def pbits_def ibits_def
  int_to_uint_def int_to_uintptr_def uintptr_to_uint_def uintptr_to_int_def to_uintptr_def
  signed_def valueFlagExported_def valueFlagIndirect_def isIndirect_def isExported_def

lemma flag_simps:
  "(f AND NOT valueFlagExported) AND valueFlagExported = 0"
  "(f OR valueFlagIndirect) AND valueFlagExported = f AND valueFlagExported"
  "(f AND NOT valueFlagIndirect) AND valueFlagExported = f AND valueFlagExported"
  "(f XOR valueFlagIndirect) AND valueFlagExported = f AND valueFlagExported"
  "(f AND valueFlagExported) AND valueFlagExported = f AND valueFlagExported"
  "(f AND NOT valueFlagExported AND NOT valueFlagIndirect) AND valueFlagExported = 0"
  "(f AND valueFlagExported) AND valueFlagIndirect = 0"
  "(f OR valueFlagIndirect) AND valueFlagIndirect = valueFlagIndirect"
  for f :: valueFlags
  unfolding valueFlagExported_def valueFlagIndirect_def
  by (rule bit_word_eqI; auto simp: bit_simps)+

lemma flag_nonzero: "valueFlagIndirect \<noteq> 0" "valueFlagExported \<noteq> 0"
  by (simp_all add: valueFlagIndirect_def valueFlagExported_def)

lemma signed_nonneg:
  assumes "0 < k" "0 \<le> signed k x"
  shows "signed k x = int (x mod 2 ^ (8 * k))" "signed k x < 2 ^ (8 * k - 1)"
proof -
  obtain n where n: "8 * k = Suc n" using assms(1) by (cases "8 * k") auto
  have nb: "\<not> bit (int x) n" using assms(2) by (simp add: signed_def n)
  have "signed k x = take_bit n (int x)"
    using nb by (simp add: signed_def n signed_take_bit_eq_if_positive)
  also have "\<dots> = take_bit (Suc n) (int x)" using nb by (simp add: take_bit_Suc_from_most)
  also have "\<dots> = int (x mod 2 ^ (8 * k))" by (simp add: n take_bit_eq_mod zmod_int)
  finally show "signed k x = int (x mod 2 ^ (8 * k))" .
  show "signed k x < 2 ^ (8 * k - 1)" by (simp add: signed_def)
qed

lemma int_to_uint_uintptr_to_int:
  assumes "0 < intSize E"
  shows "int_to_uint E (uintptr_to_int E n) = uintptr_to_uint E n"
proof -
  obtain k where k: "8 * intSize E = Suc k" using assms by (cases "8 * intSize E") auto
  have "take_bit (Suc k) (signed_take_bit k (int n)) = take_bit (Suc k) (int n)"
    by (simp add: take_bit_signed_take_bit)
  then have "signed_take_bit k (int n) mod 2 ^ Suc k = int n mod 2 ^ Suc k"
    by (simp only: take_bit_eq_mod)
  also have "\<dots> = int (n mod 2 ^ Suc k)" by (simp add: zmod_int)
  finally have "nat (signed_take_bit k (int n) mod 2 ^ Suc k) = n mod 2 ^ Suc k"
    by (simp only: nat_int)
  then show ?thesis
    by (simp add: int_to_uint_def uintptr_to_int_def uintptr_to_uint_def signed_def ibits_def k)
qed

subsection \<open>The Accessible flag only narrows\<close>

lemma Field_not_exported:
  "\<not> isExported v \<Longrightarrow> Value_Field E m v i = Inr w \<Longrightarrow> \<not> isExported w"
  by (auto simp: Value_Field_def isExported_def Let_def flag_simps
           split: if_splits sum.splits)

lemma Index_not_exported:
  "\<not> isExported v \<Longrightarrow> Value_Index E m v i = Inr w \<Longrightarrow> \<not> isExported w"
  by (cases "Value_Kind E v")
     (auto simp: Value_Index_def isExported_def Let_def flag_simps split: if_splits)

lemma Elem_not_exported:
  "\<not> isExported v \<Longrightarrow> Value_Elem E m v = Inr w \<Longrightarrow> \<not> isExported w"
  by (cases "Value_Kind E v")
     (auto simp: Value_Elem_def isExported_def Let_def flag_simps zeroValue_def
              decomposeInterface_def split: if_splits prod.splits)

lemma Slice_not_exported:
  "\<not> isExported v \<Longrightarrow> Value_Slice E s v i j = (Inr w, s') \<Longrightarrow> \<not> isExported w"
  by (cases "Value_Kind E v")
     (auto simp: Value_Slice_def isExported_def Let_def split: if_splits prod.splits)

lemma Slice3_not_exported:
  "\<not> isExported v \<Longrightarrow> Value_Slice3 E s v i j k = (Inr w, s') \<Longrightarrow> \<not> isExported w"
  by (cases "Value_Kind E v")
     (auto simp: Value_Slice3_def isExported_def Let_def split: if_splits prod.splits)

lemma Addr_not_exported:
  "\<not> isExported v \<Longrightarrow> Value_Addr E v = Inr w \<Longrightarrow> \<not> isExported w"
  by (auto simp: Value_Addr_def isExported_def flag_simps split: if_splits)

lemma Field_unexported_field:
  assumes "Value_Kind E v = Struct" "0 \<le> i" "i < int (Value_NumField E v)"
      and "PkgPath (tfields (types E (typecode v)) ! nat i) \<noteq> []"
  shows "\<exists>w. Value_Field E m v i = Inr w \<and> \<not> isExported w"
  using assms
  by (auto simp: Value_Field_def Value_NumField_def rawType_rawField_def isExported_def
        Let_def flag_simps)

text \<open>
  C5. \<^verbatim>\<open>Field(i)\<close> of a struct handle, for \<open>i\<close> in \<open>[0, NumField)\<close> and a field declared
  non-exported (its \<^verbatim>\<open>PkgPath\<close> is not empty), returns a handle whose Accessible flag is
  clear, whatever the flags of the struct handle. From a handle \<open>u\<close> whose Accessible flag
  is clear, \<^verbatim>\<open>Field\<close>, \<^verbatim>\<open>Index\<close>, \<^verbatim>\<open>Elem\<close>, \<^verbatim>\<open>Slice\<close>, \<^verbatim>\<open>Slice3\<close> and \<^verbatim>\<open>Addr\<close> only
  return handles whose Accessible flag is clear, \<^verbatim>\<open>CanInterface\<close> is false and
  \<^verbatim>\<open>Interface\<close> fails with the "unexported" panic.
\<close>

theorem Accessible_only_narrows:
  "(Value_Kind E v = Struct \<and> 0 \<le> i \<and> i < int (Value_NumField E v)
      \<and> PkgPath (tfields (types E (typecode v)) ! nat i) \<noteq> []
     \<longrightarrow> (\<exists>w. Value_Field E m v i = Inr w \<and> \<not> isExported w))
 \<and> (\<not> isExported u \<longrightarrow>
       (Value_Field E m u i1 = Inr w1 \<longrightarrow> \<not> isExported w1)
     \<and> (Value_Index E m u i2 = Inr w2 \<longrightarrow> \<not> isExported w2)
     \<and> (Value_Elem E m u = Inr w3 \<longrightarrow> \<not> isExported w3)
     \<and> (Value_Slice E s u i4 j4 = (Inr w4, s4) \<longrightarrow> \<not> isExported w4)
     \<and> (Value_Slice3 E s u i5 j5 k5 = (Inr w5, s5) \<longrightarrow> \<not> isExported w5)
     \<and> (Value_Addr E u = Inr w6 \<longrightarrow> \<not> isExported w6)
     \<and> \<not> Value_CanInterface u
     \<and> Value_Interface E m u = Inl (PanicString ''(reflect.Value).Interface: unexported''))"
proof (intro conjI impI)
  assume "Value_Kind E v = Struct \<and> 0 \<le> i \<and> i < int (Value_NumField E v)
            \<and> PkgPath (tfields (types E (typecode v)) ! nat i) \<noteq> []"
  then show "\<exists>w. Value_Field E m v i = Inr w \<and> \<not> isExported w"
    using Field_unexported_field by blast
qed (auto simp: Value_Interface_def Value_CanInterface_def
       dest: Field_not_exported Index_not_exported Elem_not_exported Slice_not_exported
             Slice3_not_exported Addr_not_exported)

text \<open>
  An addressable, exported handle of the struct type 8 at address 4096; its field 0 is the
  non-exported \<^verbatim>\<open>x\<close>, and the handle of that field leads to \<^verbatim>\<open>*int\<close> by \<^verbatim>\<open>Addr\<close>.
\<close>

theorem Accessible_only_narrows_witness:
  "Value_Kind ex_env \<lparr>typecode = 8, val = 4096, flags = 3\<rparr> = Struct
 \<and> (0::int) < int (Value_NumField ex_env \<lparr>typecode = 8, val = 4096, flags = 3\<rparr>)
 \<and> PkgPath (tfields (types ex_env (typecode \<lparr>typecode = 8, val = 4096, flags = 3\<rparr>)) ! nat 0) \<noteq> []
 \<and> Value_Field ex_env (\<lambda>a. 0) \<lparr>typecode = 8, val = 4096, flags = 3\<rparr> 0
      = Inr \<lparr>typecode = 15, val = 4096, flags = 1\<rparr>
 \<and> \<not> isExported \<lparr>typecode = 15, val = 4096, flags = 1\<rparr>
 \<and> Value_Addr ex_env \<lparr>typecode = 15, val = 4096, flags = 1\<rparr>
      = Inr \<lparr>typecode = 2, val = 4096, flags = 0\<rparr>
 \<and> \<not> isExported \<lparr>typecode = 2, val = 4096, flags = 0\<rparr>
 \<and> Value_Interface ex_env (\<lambda>a. 0) \<lparr>typecode = 15, val = 4096, flags = 1\<rparr>
      = Inl (PanicString ''(reflect.Value).Interface: unexported'')"
  using Accessible_only_narrows
          [of ex_env "\<lparr>typecode = 8, val = 4096, flags = 3\<rparr>" 0 "\<lambda>a. 0"
              "\<lparr>typecode = 15, val = 4096, flags = 1\<rparr>" 0 "\<lparr>typecode = 15, val = 4096, flags = 1\<rparr>"
              0 "\<lparr>typecode = 15, val = 4096, flags = 1\<rparr>" "\<lparr>typecode = 15, val = 4096, flags = 1\<rparr>"
              ex_state 0 0 "\<lparr>typecode = 15, val = 4096, flags = 1\<rparr>" ex_state
              0 0 0 "\<lparr>typecode = 15, val = 4096, flags = 1\<rparr>" ex_state
              "\<lparr>typecode = 2, val = 4096, flags = 0\<rparr>"]
  by (simp add: ex_simps Value_Field_def Value_NumField_def Value_Addr_def Value_CanAddr_def
        Value_Interface_def Let_def)

subsection \<open>Indexing a string\<close>

lemma checkAddressable_fails:
  "\<not> isIndirect b \<Longrightarrow>
     checkAddressable b = Inl (PanicString ''reflect: value is not addressable'')"
  by (simp add: checkAddressable_def)

lemma writers_not_addressable:
  assumes "\<not> isIndirect b"
  shows "Value_Set E s b x = (Inl (PanicString ''reflect: value is not addressable''), s)"
    and "Value_SetBool E s b xb = (Inl (PanicString ''reflect: value is not addressable''), s)"
    and "Value_SetInt E s b xi = (Inl (PanicString ''reflect: value is not addressable''), s)"
    and "Value_SetUint E s b xu = (Inl (PanicString ''reflect: value is not addressable''), s)"
    and "Value_SetFloat E s b xf = (Inl (PanicString ''reflect: value is not addressable''), s)"
    and "Value_SetComplex E s b xc = (Inl (PanicString ''reflect: value is not addressable''), s)"
    and "Value_SetString E s b xs = (Inl (PanicString ''reflect: value is not addressable''), s)"
  using checkAddressable_fails[OF assms]
  by (simp_all add: Value_Set_def Value_SetBool_def Value_SetInt_def Value_SetUint_def
        Value_SetFloat_def Value_SetComplex_def Value_SetString_def)

lemma CanSet_needs_Indirect: "\<not> isIndirect b \<Longrightarrow> \<not> Value_CanSet b"
proof
  assume a: "\<not> isIndirect b" and c: "Value_CanSet b"
  have "(flags b AND (valueFlagExported OR valueFlagIndirect)) AND valueFlagIndirect
          = flags b AND valueFlagIndirect"
    unfolding valueFlagExported_def valueFlagIndirect_def
    by (rule bit_word_eqI) (auto simp: bit_simps)
  moreover have "(valueFlagExported OR valueFlagIndirect) AND valueFlagIndirect = valueFlagIndirect"
    unfolding valueFlagExported_def valueFlagIndirect_def by simp
  ultimately have "flags b AND valueFlagIndirect = valueFlagIndirect"
    using c by (simp add: Value_CanSet_def)
  then show False using a flag_nonzero by (simp add: isIndirect_def)
qed

lemma String_Index_in_range:
  assumes kind: "Value_Kind E v = String" and ip: "0 < intSize E"
      and len: "Value_Len E s v = Inr n" and i: "0 \<le> i" "i < n"
  shows "Value_Index E (mem s) v i =
           Inr \<lparr>typecode = uint8Type E,
                val = unat (mem s (unsafe_Add E (st_data (load_stringHeader E (mem s) (val v)))
                                     (int_to_uintptr E i))),
                flags = flags v AND valueFlagExported\<rparr>"
proof -
  let ?l = "st_len (load_stringHeader E (mem s) (val v))"
  have n: "n = uintptr_to_int E ?l"
    using len kind by (simp add: Value_Len_def Value_Kind_def)
  have nn: "0 \<le> signed (intSize E) ?l" using n i by (simp add: uintptr_to_int_def)
  have n2: "n = int (?l mod 2 ^ ibits E)" "n < 2 ^ (ibits E - 1)"
    using signed_nonneg[OF ip nn] n by (simp_all add: uintptr_to_int_def ibits_def)
  have "int_to_uint E i = nat i"
    using nonneg_int_to_uint(1)[OF i(1) _ ip] i(2) n2(2) by simp
  moreover have "uintptr_to_uint E ?l = nat n"
    using n2(1) by (simp add: uintptr_to_uint_def)
  ultimately have "int_to_uint E i < uintptr_to_uint E ?l" using i by simp
  then show ?thesis using kind by (simp add: Value_Index_def Let_def)
qed

lemma String_Index_at_Len:
  assumes kind: "Value_Kind E v = String" and ip: "0 < intSize E"
      and len: "Value_Len E s v = Inr n"
  shows "Value_Index E (mem s) v n = Inl (PanicString ''reflect: string index out of range'')"
proof -
  let ?l = "st_len (load_stringHeader E (mem s) (val v))"
  have n: "n = uintptr_to_int E ?l"
    using len kind by (simp add: Value_Len_def Value_Kind_def)
  have "int_to_uint E n = uintptr_to_uint E ?l"
    unfolding n by (rule int_to_uint_uintptr_to_int[OF ip])
  then show ?thesis using kind by (simp add: Value_Index_def Let_def)
qed

lemma Slice_Index_indirect:
  "Value_Kind E sl = Slice \<Longrightarrow> Value_Index E m sl j = Inr e \<Longrightarrow> isIndirect e"
  by (auto simp: Value_Index_def Let_def isIndirect_def flag_simps flag_nonzero split: if_splits)

text \<open>
  C7. Let \<open>v\<close> be a string handle and \<open>n\<close> its \<^verbatim>\<open>Len\<close>. For \<open>0 \<le> i < n\<close>, \<^verbatim>\<open>Index(i)\<close>
  returns a handle of kind \<^verbatim>\<open>uint8\<close> whose Accessible flag is the parent's and whose
  Indirect flag is clear; \<^verbatim>\<open>CanSet\<close> is false for it and \<^verbatim>\<open>Set\<close> and every scalar writer
  fail on it (not addressable) and leave the state as it was. \<^verbatim>\<open>Index(n)\<close> fails with the
  index-out-of-range panic. \<^verbatim>\<open>Index\<close> on a slice, when it returns, returns an Indirect
  handle.
\<close>

theorem String_Index_read_only:
  assumes "Value_Kind E v = String" and "0 < intSize E"
      and "rawType_Kind E (uint8Type E) = Uint8"
      and "Value_Len E s v = Inr n"
  shows "(0 \<le> i \<and> i < n \<longrightarrow>
           (\<exists>b. Value_Index E (mem s) v i = Inr b \<and> Value_Kind E b = Uint8
               \<and> (isExported b \<longleftrightarrow> isExported v) \<and> \<not> isIndirect b \<and> \<not> Value_CanSet b
               \<and> Value_Set E t b x = (Inl (PanicString ''reflect: value is not addressable''), t)
               \<and> Value_SetBool E t b xb = (Inl (PanicString ''reflect: value is not addressable''), t)
               \<and> Value_SetInt E t b xi = (Inl (PanicString ''reflect: value is not addressable''), t)
               \<and> Value_SetUint E t b xu = (Inl (PanicString ''reflect: value is not addressable''), t)
               \<and> Value_SetFloat E t b xf = (Inl (PanicString ''reflect: value is not addressable''), t)
               \<and> Value_SetComplex E t b xc = (Inl (PanicString ''reflect: value is not addressable''), t)
               \<and> Value_SetString E t b xs = (Inl (PanicString ''reflect: value is not addressable''), t)))
       \<and> Value_Index E (mem s) v n = Inl (PanicString ''reflect: string index out of range'')
       \<and> (Value_Kind E sl = Slice \<and> Value_Index E m sl j = Inr e \<longrightarrow> isIndirect e)"
proof (intro conjI impI)
  assume r: "0 \<le> i \<and> i < n"
  let ?b = "\<lparr>typecode = uint8Type E,
             val = unat (mem s (unsafe_Add E (st_data (load_stringHeader E (mem s) (val v)))
                                  (int_to_uintptr E i))),
             flags = flags v AND valueFlagExported\<rparr>"
  have ix: "Value_Index E (mem s) v i = Inr ?b"
    using String_Index_in_range[OF assms(1,2,4)] r by simp
  have ni: "\<not> isIndirect ?b" by (simp add: isIndirect_def flag_simps)
  have ex: "isExported ?b \<longleftrightarrow> isExported v" by (simp add: isExported_def flag_simps)
  have k: "Value_Kind E ?b = Uint8" using assms(3) by (simp add: Value_Kind_def)
  show "\<exists>b. Value_Index E (mem s) v i = Inr b \<and> Value_Kind E b = Uint8
               \<and> (isExported b \<longleftrightarrow> isExported v) \<and> \<not> isIndirect b \<and> \<not> Value_CanSet b
               \<and> Value_Set E t b x = (Inl (PanicString ''reflect: value is not addressable''), t)
               \<and> Value_SetBool E t b xb = (Inl (PanicString ''reflect: value is not addressable''), t)
               \<and> Value_SetInt E t b xi = (Inl (PanicString ''reflect: value is not addressable''), t)
               \<and> Value_SetUint E t b xu = (Inl (PanicString ''reflect: value is not addressable''), t)
               \<and> Value_SetFloat E t b xf = (Inl (PanicString ''reflect: value is not addressable''), t)
               \<and> Value_SetComplex E t b xc = (Inl (PanicString ''reflect: value is not addressable''), t)
               \<and> Value_SetString E t b xs = (Inl (PanicString ''reflect: value is not addressable''), t)"
    using ix k ex ni CanSet_needs_Indirect[OF ni] writers_not_addressable[OF ni]
    by (intro exI[of _ ?b]) simp
next
  show "Value_Index E (mem s) v n = Inl (PanicString ''reflect: string index out of range'')"
    by (rule String_Index_at_Len[OF assms(1,2,4)])
next
  assume "Value_Kind E sl = Slice \<and> Value_Index E m sl j = Inr e"
  then show "isIndirect e" using Slice_Index_indirect by blast
qed

text \<open>
  The string \<^verbatim>\<open>"hi"\<close> of the example: \<^verbatim>\<open>Index(1)\<close> is the byte 105, not settable;
  \<^verbatim>\<open>Index(2)\<close> fails; the element 1 of the example slice is addressable.
\<close>

theorem String_Index_read_only_witness:
  "Value_Kind ex_env \<lparr>typecode = 5, val = 4096, flags = 2\<rparr> = String
 \<and> 0 < intSize ex_env
 \<and> rawType_Kind ex_env (uint8Type ex_env) = Uint8
 \<and> Value_Len ex_env ex_string_state \<lparr>typecode = 5, val = 4096, flags = 2\<rparr> = Inr 2
 \<and> Value_Index ex_env (mem ex_string_state) \<lparr>typecode = 5, val = 4096, flags = 2\<rparr> 1
      = Inr \<lparr>typecode = 3, val = 105, flags = 2\<rparr>
 \<and> \<not> Value_CanSet \<lparr>typecode = 3, val = 105, flags = 2\<rparr>
 \<and> Value_SetUint ex_env ex_string_state \<lparr>typecode = 3, val = 105, flags = 2\<rparr> 72
      = (Inl (PanicString ''reflect: value is not addressable''), ex_string_state)
 \<and> Value_Index ex_env (mem ex_string_state) \<lparr>typecode = 5, val = 4096, flags = 2\<rparr> 2
      = Inl (PanicString ''reflect: string index out of range'')
 \<and> Value_Kind ex_env \<lparr>typecode = 7, val = 4096, flags = 2\<rparr> = Slice
 \<and> Value_Index ex_env (mem ex_slice_state) \<lparr>typecode = 7, val = 4096, flags = 2\<rparr> 1
      = Inr \<lparr>typecode = 15, val = 8200, flags = 3\<rparr>
 \<and> isIndirect \<lparr>typecode = 15, val = 8200, flags = 3\<rparr>"
proof -
  have k: "Value_Kind ex_env \<lparr>typecode = 5, val = 4096, flags = 2\<rparr> = String"
    by (simp add: ex_simps)
  have ip: "0 < intSize ex_env" by (simp add: ex_env_def)
  have u8: "rawType_Kind ex_env (uint8Type ex_env) = Uint8" by (simp add: ex_simps)
  have len: "Value_Len ex_env ex_string_state \<lparr>typecode = 5, val = 4096, flags = 2\<rparr> = Inr 2"
    by (simp add: Value_Len_def ex_simps load_stringHeader_def ex_string_state_def)
  have ix: "Value_Index ex_env (mem ex_string_state) \<lparr>typecode = 5, val = 4096, flags = 2\<rparr> 1
              = Inr \<lparr>typecode = 3, val = 105, flags = 2\<rparr>"
    by (simp add: Value_Index_def ex_simps load_stringHeader_def ex_string_state_def)
  have sk: "Value_Kind ex_env \<lparr>typecode = 7, val = 4096, flags = 2\<rparr> = Slice"
    by (simp add: ex_simps)
  have six: "Value_Index ex_env (mem ex_slice_state) \<lparr>typecode = 7, val = 4096, flags = 2\<rparr> 1
      = Inr \<lparr>typecode = 15, val = 8200, flags = 3\<rparr>"
    by (simp add: Value_Index_def ex_simps load_sliceHeader_def ex_slice_state_def Let_def)
  show ?thesis
    using String_Index_read_only[OF k ip u8 len,
            where i = 1 and t = ex_string_state and xu = 72
              and sl = "\<lparr>typecode = 7, val = 4096, flags = 2\<rparr>" and m = "mem ex_slice_state"
              and j = 1 and e = "\<lparr>typecode = 15, val = 8200, flags = 3\<rparr>"]
    by (simp add: k len ix sk six) (simp add: ex_simps)
qed

subsection \<open>Re-slicing\<close>

lemma store_le_numeral [simp]:
  "store_le E m p (numeral k) x =
     store_le E (m(p := of_nat x)) (unsafe_Add E p 1) (pred_numeral k) (x div 256)"
proof -
  have "numeral k = Suc (pred_numeral k)" by (rule numeral_eq_Suc)
  then show ?thesis by (simp only: store_le.simps)
qed

lemma load_bytes_numeral [simp]:
  "load_bytes E m p (numeral k) = m p # load_bytes E m (unsafe_Add E p 1) (pred_numeral k)"
proof -
  have "numeral k = Suc (pred_numeral k)" by (rule numeral_eq_Suc)
  then show ?thesis by (simp only: load_bytes.simps)
qed

lemma word_bytes_numeral [simp]:
  "word_bytes (numeral k) w = of_nat w # word_bytes (pred_numeral k) (w div 256)"
proof -
  have "numeral k = Suc (pred_numeral k)" by (rule numeral_eq_Suc)
  then show ?thesis by (simp only: word_bytes.simps)
qed

lemma unbox_numeral [simp]:
  "unbox E m p (numeral k) x =
     unbox E m p (pred_numeral k) (ushl E x 8 OR unat (m (unsafe_Add E p (pred_numeral k))))"
proof -
  have "numeral k = Suc (pred_numeral k)" by (rule numeral_eq_Suc)
  then show ?thesis by (simp only: unbox.simps)
qed

text \<open>
  When \<^verbatim>\<open>Slice\<close> and \<^verbatim>\<open>Slice3\<close> raise the slice-bounds panic on a slice handle: the first
  compares \<open>j\<close> with the capacity of the header, the second compares \<open>k\<close> with its length.
\<close>

lemma Slice_fails_iff:
  assumes "Value_Kind E v = Slice"
  shows "fst (Value_Slice E s v i j) = Inl SlicePanic \<longleftrightarrow>
           int_to_uintptr E j < int_to_uintptr E i
         \<or> sh_cap (load_sliceHeader E (mem s) (val v)) < int_to_uintptr E j"
  using assms by (simp add: Value_Slice_def Let_def split: prod.splits)

lemma Slice3_fails_iff:
  assumes "Value_Kind E v = Slice"
  shows "fst (Value_Slice3 E s v i j k) = Inl SlicePanic \<longleftrightarrow>
           int_to_uintptr E j < int_to_uintptr E i
         \<or> int_to_uintptr E k < int_to_uintptr E j
         \<or> sh_len (load_sliceHeader E (mem s) (val v)) < int_to_uintptr E k"
  using assms by (simp add: Value_Slice3_def Let_def split: prod.splits)

text \<open>
  C6, where the code leaves it. On a slice handle \<^verbatim>\<open>Slice3(i, j, k)\<close> raises the
  slice-bounds panic whenever \<open>k\<close> exceeds the length of the header, also when \<open>k\<close>
  is within the capacity.
\<close>

theorem Slice3_compares_with_length:
  assumes "Value_Kind E v = Slice"
      and "sh_len (load_sliceHeader E (mem s) (val v)) < int_to_uintptr E k"
  shows "Value_Slice3 E s v i j k
           = (Inl SlicePanic,
              snd (new_sliceHeader E s (load_sliceHeader E (mem s) (val v))))"
  using assms by (simp add: Value_Slice3_def Let_def split_beta)

text \<open>
  The example slice has length 2 and capacity 4: \<^verbatim>\<open>Slice3(0, 2, 4)\<close> panics although
  \<open>0 \<le> 2 \<le> 4\<close> does not exceed the capacity, and \<^verbatim>\<open>Slice(0, 4)\<close> accepts the same
  upper bound.
\<close>

theorem Slice3_compares_with_length_witness:
  "Value_Kind ex_env \<lparr>typecode = 7, val = 4096, flags = 2\<rparr> = Slice
 \<and> sh_len (load_sliceHeader ex_env (mem ex_slice_state) 4096) = 2
 \<and> sh_cap (load_sliceHeader ex_env (mem ex_slice_state) 4096) = 4
 \<and> int_to_uintptr ex_env 4 = 4
 \<and> Value_Slice3 ex_env ex_slice_state \<lparr>typecode = 7, val = 4096, flags = 2\<rparr> 0 2 4
      = (Inl SlicePanic,
         snd (new_sliceHeader ex_env ex_slice_state \<lparr>sh_data = 8192, sh_len = 2, sh_cap = 4\<rparr>))
 \<and> fst (Value_Slice ex_env ex_slice_state \<lparr>typecode = 7, val = 4096, flags = 2\<rparr> 0 4)
      = Inr \<lparr>typecode = 7, val = 8224, flags = 2\<rparr>"
proof -
  let ?v = "\<lparr>typecode = 7, val = 4096, flags = 2\<rparr>"
  have k: "Value_Kind ex_env ?v = Slice" by (simp add: ex_simps)
  have h: "load_sliceHeader ex_env (mem ex_slice_state) 4096
             = \<lparr>sh_data = 8192, sh_len = 2, sh_cap = 4\<rparr>"
    by (simp add: load_sliceHeader_def ex_simps ex_slice_state_def)
  have c: "int_to_uintptr ex_env 4 = 4" by (simp add: ex_simps)
  have l: "sh_len (load_sliceHeader ex_env (mem ex_slice_state) (val ?v)) < int_to_uintptr ex_env 4"
    by (simp add: h c)
  have sl: "fst (Value_Slice ex_env ex_slice_state ?v 0 4) = Inr \<lparr>typecode = 7, val = 8224, flags = 2\<rparr>"
    by (simp add: Value_Slice_def k h Let_def new_sliceHeader_def alloc_def split_beta)
       (simp add: ex_simps ex_slice_state_def)
  show ?thesis
    using Slice3_compares_with_length[OF k l, of 0 2] k h c sl by simp
qed

subsection \<open>Scalar writers\<close>

text \<open>
  What a scalar writer checks, shown for \<^verbatim>\<open>SetInt\<close> and \<^verbatim>\<open>SetString\<close> (the others are
  alike): not addressable when the Indirect flag is clear, otherwise the \<^verbatim>\<open>ValueError\<close>
  when the kind is outside the accepted set, otherwise the write. The Accessible flag
  plays no part.
\<close>

lemma SetInt_checks:
  "(\<not> isIndirect v \<longrightarrow>
      Value_SetInt E s v x = (Inl (PanicString ''reflect: value is not addressable''), s))
 \<and> (isIndirect v \<and> Value_Kind E v \<notin> {IntKind, Int8, Int16, Int32, Int64} \<longrightarrow>
      Value_SetInt E s v x = (Inl (ValueError ''SetInt'' (Value_Kind E v)), s))
 \<and> (isIndirect v \<and> Value_Kind E v \<in> {IntKind, Int8, Int16, Int32, Int64} \<longrightarrow>
      fst (Value_SetInt E s v x) = Inr ())"
  by (cases "Value_Kind E v") (simp_all add: Value_SetInt_def checkAddressable_def)

lemma SetString_checks:
  "(\<not> isIndirect v \<longrightarrow>
      Value_SetString E s v x = (Inl (PanicString ''reflect: value is not addressable''), s))
 \<and> (isIndirect v \<and> Value_Kind E v \<noteq> String \<longrightarrow>
      Value_SetString E s v x = (Inl (ValueError ''SetString'' (Value_Kind E v)), s))
 \<and> (isIndirect v \<and> Value_Kind E v = String \<longrightarrow>
      Value_SetString E s v x
        = (Inr (), s\<lparr>mem := store_stringHeader E (mem s) (val v) x\<rparr>))"
  by (cases "Value_Kind E v") (simp_all add: Value_SetString_def checkAddressable_def)

lemma CanSet_needs_Exported: "\<not> isExported b \<Longrightarrow> \<not> Value_CanSet b"
proof
  assume a: "\<not> isExported b" and c: "Value_CanSet b"
  have "(flags b AND (valueFlagExported OR valueFlagIndirect)) AND valueFlagExported
          = flags b AND valueFlagExported"
    unfolding valueFlagExported_def valueFlagIndirect_def
    by (rule bit_word_eqI) (auto simp: bit_simps)
  moreover have "(valueFlagExported OR valueFlagIndirect) AND valueFlagExported = valueFlagExported"
    unfolding valueFlagExported_def valueFlagIndirect_def by simp
  ultimately have "flags b AND valueFlagExported = valueFlagExported"
    using c by (simp add: Value_CanSet_def)
  then show False using a flag_nonzero by (simp add: isExported_def)
qed

text \<open>
  C4, where the code leaves it. On a handle of kind \<^verbatim>\<open>int\<close> whose Indirect flag is set
  and whose Accessible flag is clear, \<^verbatim>\<open>CanSet\<close> is false and \<^verbatim>\<open>SetInt\<close> writes all the
  same: the Indirect flag alone admits the write.
\<close>

theorem writer_ignores_Accessible:
  assumes "isIndirect v" and "\<not> isExported v" and "Value_Kind E v = IntKind"
  shows "\<not> Value_CanSet v
       \<and> Value_SetInt E s v x
           = (Inr (), s\<lparr>mem := store_le E (mem s) (val v) (intSize E) (low_bytes (intSize E) x)\<rparr>)"
  using assms CanSet_needs_Exported[of v]
  by (simp add: Value_SetInt_def checkAddressable_def)

text \<open>
  Such a handle is reached through the API: \<^verbatim>\<open>ValueOf(&t).Elem().Field(0)\<close>, for \<^verbatim>\<open>t\<close> of
  the struct type 8, is the handle of the non-exported field \<^verbatim>\<open>x\<close>. \<^verbatim>\<open>SetInt(7)\<close> on it
  overwrites the field, which held 3.
\<close>

theorem writer_ignores_Accessible_witness:
  "Value_Elem ex_env (mem ex_struct_state) (ValueOf (9, 4096))
      = Inr \<lparr>typecode = 8, val = 4096, flags = 3\<rparr>
 \<and> Value_Field ex_env (mem ex_struct_state) \<lparr>typecode = 8, val = 4096, flags = 3\<rparr> 0
      = Inr \<lparr>typecode = 15, val = 4096, flags = 1\<rparr>
 \<and> isIndirect \<lparr>typecode = 15, val = 4096, flags = 1\<rparr>
 \<and> \<not> isExported \<lparr>typecode = 15, val = 4096, flags = 1\<rparr>
 \<and> Value_Kind ex_env \<lparr>typecode = 15, val = 4096, flags = 1\<rparr> = IntKind
 \<and> \<not> Value_CanSet \<lparr>typecode = 15, val = 4096, flags = 1\<rparr>
 \<and> Value_Int ex_env (mem ex_struct_state) \<lparr>typecode = 15, val = 4096, flags = 1\<rparr> = Inr 3
 \<and> fst (Value_SetInt ex_env ex_struct_state \<lparr>typecode = 15, val = 4096, flags = 1\<rparr> 7) = Inr ()
 \<and> Value_Int ex_env
       (mem (snd (Value_SetInt ex_env ex_struct_state \<lparr>typecode = 15, val = 4096, flags = 1\<rparr> 7)))
       \<lparr>typecode = 15, val = 4096, flags = 1\<rparr> = Inr 7"
proof -
  let ?f = "\<lparr>typecode = 15, val = 4096, flags = 1\<rparr>"
  have i: "isIndirect ?f" and e: "\<not> isExported ?f" and k: "Value_Kind ex_env ?f = IntKind"
    by (simp_all add: ex_simps)
  have p: "Value_Elem ex_env (mem ex_struct_state) (ValueOf (9, 4096))
             = Inr \<lparr>typecode = 8, val = 4096, flags = 3\<rparr>"
          "Value_Field ex_env (mem ex_struct_state) \<lparr>typecode = 8, val = 4096, flags = 3\<rparr> 0
             = Inr ?f"
          "Value_Int ex_env (mem ex_struct_state) ?f = Inr 3"
    by (simp_all add: Value_Elem_def ValueOf_def decomposeInterface_def Value_pointer_def
          Value_Field_def Value_Int_def ex_simps ex_struct_state_def Let_def)
  have w: "Value_Int ex_env
             (store_le ex_env (mem ex_struct_state) 4096 8 (low_bytes 8 7)) ?f = Inr 7"
    by (simp add: Value_Int_def low_bytes_def ex_simps ex_struct_state_def)
  show ?thesis
    using writer_ignores_Accessible[OF i e k, of ex_struct_state 7] i e k p w
    by simp
qed

subsection \<open>Memory: frames and reading back what was written\<close>

text \<open>
  A store of \<open>n\<close> bytes at \<open>p\<close> that does not run over the end of the address space
  changes the addresses from \<open>p\<close> up to \<open>p + n\<close> only, and a load depends on those
  addresses only.
\<close>

lemma unsafe_Add_no_wrap: "p + n < 2 ^ pbits E \<Longrightarrow> unsafe_Add E p n = p + n"
  by (simp add: unsafe_Add_def uadd_def)

lemma load_le_bound: "load_le E m p n < 256 ^ n"
proof (induction n arbitrary: p)
  case 0
  then show ?case by simp
next
  case (Suc n)
  have "unat (m p) < 2 ^ LENGTH(8)" by (rule unsigned_less)
  then have "unat (m p) < 256" by simp
  moreover have "load_le E m (unsafe_Add E p 1) n < 256 ^ n" by (rule Suc.IH)
  ultimately have "unat (m p) + 256 * load_le E m (unsafe_Add E p 1) n < 256 * 256 ^ n"
    by linarith
  then show ?case by simp
qed

lemma store_le_frame:
  "p + n \<le> 2 ^ pbits E \<Longrightarrow> a < p \<or> p + n \<le> a \<Longrightarrow> store_le E m p n x a = m a"
proof (induction n arbitrary: p m x)
  case 0
  then show ?case by simp
next
  case (Suc n)
  show ?case
  proof (cases n)
    case 0
    then show ?thesis using Suc.prems by auto
  next
    case (Suc k)
    then have u: "unsafe_Add E p 1 = p + 1" using Suc.prems by (intro unsafe_Add_no_wrap) simp
    have "store_le E (m(p := of_nat x)) (p + 1) n (x div 256) a = (m(p := of_nat x)) a"
      using Suc.prems by (intro Suc.IH) auto
    also have "\<dots> = m a" using Suc.prems by auto
    finally show ?thesis using u by simp
  qed
qed

lemma store_bytes_frame:
  "p + length bs \<le> 2 ^ pbits E \<Longrightarrow> a < p \<or> p + length bs \<le> a \<Longrightarrow>
     store_bytes E m p bs a = m a"
proof (induction bs arbitrary: p m)
  case Nil
  then show ?case by simp
next
  case (Cons b bs)
  show ?case
  proof (cases bs)
    case Nil
    then show ?thesis using Cons.prems by auto
  next
    case (Cons c cs)
    then have u: "unsafe_Add E p 1 = p + 1" using Cons.prems by (intro unsafe_Add_no_wrap) simp
    have "store_bytes E (m(p := b)) (p + 1) bs a = (m(p := b)) a"
      using Cons.prems by (intro Cons.IH) auto
    also have "\<dots> = m a" using Cons.prems by auto
    finally show ?thesis using u by simp
  qed
qed

lemma load_le_cong:
  "p + n \<le> 2 ^ pbits E \<Longrightarrow> (\<And>a. p \<le> a \<Longrightarrow> a < p + n \<Longrightarrow> m a = m' a) \<Longrightarrow>
     load_le E m p n = load_le E m' p n"
proof (induction n arbitrary: p)
  case 0
  then show ?case by simp
next
  case (Suc n)
  show ?case
  proof (cases n)
    case 0
    then show ?thesis using Suc.prems by simp
  next
    case (Suc k)
    then have u: "unsafe_Add E p 1 = p + 1" using Suc.prems by (intro unsafe_Add_no_wrap) simp
    have "load_le E m (p + 1) n = load_le E m' (p + 1) n"
      using Suc.prems by (intro Suc.IH) auto
    then show ?thesis using u Suc.prems(2)[of p] by simp
  qed
qed

lemma load_bytes_cong:
  "p + n \<le> 2 ^ pbits E \<Longrightarrow> (\<And>a. p \<le> a \<Longrightarrow> a < p + n \<Longrightarrow> m a = m' a) \<Longrightarrow>
     load_bytes E m p n = load_bytes E m' p n"
proof (induction n arbitrary: p)
  case 0
  then show ?case by simp
next
  case (Suc n)
  show ?case
  proof (cases n)
    case 0
    then show ?thesis using Suc.prems by simp
  next
    case (Suc k)
    then have u: "unsafe_Add E p 1 = p + 1" using Suc.prems by (intro unsafe_Add_no_wrap) simp
    have "load_bytes E m (p + 1) n = load_bytes E m' (p + 1) n"
      using Suc.prems by (intro Suc.IH) auto
    then show ?thesis using u Suc.prems(2)[of p] by simp
  qed
qed

lemma load_le_store_le:
  "p + n \<le> 2 ^ pbits E \<Longrightarrow> load_le E (store_le E m p n x) p n = x mod 256 ^ n"
proof (induction n arbitrary: p m x)
  case 0
  then show ?case by simp
next
  case (Suc n)
  have first: "store_le E m p (Suc n) x p = of_nat x"
  proof (cases n)
    case 0
    then show ?thesis by simp
  next
    case (Suc k)
    then have u: "unsafe_Add E p 1 = p + 1" using Suc.prems by (intro unsafe_Add_no_wrap) simp
    have "store_le E (m(p := of_nat x)) (p + 1) n (x div 256) p = (m(p := of_nat x)) p"
      using Suc.prems by (intro store_le_frame) auto
    then show ?thesis using u by simp
  qed
  have b: "unat (of_nat x :: byte) = x mod 256" by (simp add: unat_of_nat)
  show ?case
  proof (cases n)
    case 0
    then show ?thesis using b by simp
  next
    case (Suc k)
    then have u: "unsafe_Add E p 1 = p + 1" using Suc.prems by (intro unsafe_Add_no_wrap) simp
    have "load_le E (store_le E (m(p := of_nat x)) (p + 1) n (x div 256)) (p + 1) n
            = (x div 256) mod 256 ^ n"
      using Suc.prems by (intro Suc.IH) simp
    then have "load_le E (store_le E m p (Suc n) x) p (Suc n)
                 = x mod 256 + 256 * ((x div 256) mod 256 ^ n)"
      using first b u by simp
    also have "\<dots> = x mod 256 ^ Suc n"
      by (simp add: mod_mult2_eq)
    finally show ?thesis .
  qed
qed


lemma pow256: "(256::nat) ^ n = 2 ^ (8 * n)"
  by (simp add: power_mult)

lemma load_word_store_word:
  "p + ptrSize E \<le> 2 ^ pbits E \<Longrightarrow> x < 2 ^ pbits E \<Longrightarrow>
     load_word E (store_word E m p x) p = x"
  by (simp add: load_word_def store_word_def load_le_store_le pow256 pbits_def)

lemma load_word_cong:
  "p + ptrSize E \<le> 2 ^ pbits E \<Longrightarrow>
     (\<And>a. p \<le> a \<Longrightarrow> a < p + ptrSize E \<Longrightarrow> m a = m' a) \<Longrightarrow>
     load_word E m p = load_word E m' p"
  unfolding load_word_def by (rule load_le_cong)

lemma store_word_frame:
  "p + ptrSize E \<le> 2 ^ pbits E \<Longrightarrow> a < p \<or> p + ptrSize E \<le> a \<Longrightarrow>
     store_word E m p x a = m a"
  unfolding store_word_def by (rule store_le_frame)

lemma store_sliceHeader_frame:
  assumes "p + 3 * ptrSize E \<le> 2 ^ pbits E" "0 < ptrSize E"
      and "a < p \<or> p + 3 * ptrSize E \<le> a"
  shows "store_sliceHeader E m p h a = m a"
proof -
  have u1: "unsafe_Add E p (ptrSize E) = p + ptrSize E"
    using assms by (intro unsafe_Add_no_wrap) simp
  have u2: "unsafe_Add E p (2 * ptrSize E) = p + 2 * ptrSize E"
    using assms by (intro unsafe_Add_no_wrap) simp
  let ?m1 = "store_word E m p (sh_data h)"
  let ?m2 = "store_word E ?m1 (p + ptrSize E) (sh_len h)"
  have "store_word E ?m2 (p + 2 * ptrSize E) (sh_cap h) a = ?m2 a"
    using assms by (intro store_word_frame) auto
  also have "\<dots> = ?m1 a" using assms by (intro store_word_frame) auto
  also have "\<dots> = m a" using assms by (intro store_word_frame) auto
  finally show ?thesis unfolding store_sliceHeader_def u1 u2 .
qed

lemma load_sliceHeader_cong:
  assumes "p + 3 * ptrSize E \<le> 2 ^ pbits E" "0 < ptrSize E"
      and "\<And>a. p \<le> a \<Longrightarrow> a < p + 3 * ptrSize E \<Longrightarrow> m a = m' a"
  shows "load_sliceHeader E m p = load_sliceHeader E m' p"
proof -
  have u1: "unsafe_Add E p (ptrSize E) = p + ptrSize E"
    using assms by (intro unsafe_Add_no_wrap) simp
  have u2: "unsafe_Add E p (2 * ptrSize E) = p + 2 * ptrSize E"
    using assms by (intro unsafe_Add_no_wrap) simp
  have "load_word E m p = load_word E m' p"
    using assms by (intro load_word_cong) auto
  moreover have "load_word E m (p + ptrSize E) = load_word E m' (p + ptrSize E)"
    using assms by (intro load_word_cong) auto
  moreover have "load_word E m (p + 2 * ptrSize E) = load_word E m' (p + 2 * ptrSize E)"
    using assms by (intro load_word_cong) auto
  ultimately show ?thesis by (simp add: load_sliceHeader_def u1 u2)
qed

lemma load_store_sliceHeader:
  assumes "p + 3 * ptrSize E \<le> 2 ^ pbits E" "0 < ptrSize E"
      and "sh_data h < 2 ^ pbits E" "sh_len h < 2 ^ pbits E" "sh_cap h < 2 ^ pbits E"
  shows "load_sliceHeader E (store_sliceHeader E m p h) p = h"
proof -
  let ?W = "ptrSize E"
  have u1: "unsafe_Add E p ?W = p + ?W"
    using assms by (intro unsafe_Add_no_wrap) simp
  have u2: "unsafe_Add E p (2 * ?W) = p + 2 * ?W"
    using assms by (intro unsafe_Add_no_wrap) simp
  let ?m1 = "store_word E m p (sh_data h)"
  let ?m2 = "store_word E ?m1 (p + ?W) (sh_len h)"
  let ?m3 = "store_word E ?m2 (p + 2 * ?W) (sh_cap h)"
  have c: "load_word E ?m3 (p + 2 * ?W) = sh_cap h"
    using assms by (intro load_word_store_word) auto
  have "load_word E ?m3 (p + ?W) = load_word E ?m2 (p + ?W)"
    using assms by (intro load_word_cong) (auto simp: store_word_frame)
  also have "\<dots> = sh_len h" using assms by (intro load_word_store_word) auto
  finally have l: "load_word E ?m3 (p + ?W) = sh_len h" .
  have "load_word E ?m3 p = load_word E ?m1 p"
    using assms by (intro load_word_cong) (auto simp: store_word_frame)
  also have "\<dots> = sh_data h" using assms by (intro load_word_store_word) auto
  finally have d: "load_word E ?m3 p = sh_data h" .
  show ?thesis
    by (simp add: load_sliceHeader_def store_sliceHeader_def u1 u2 c l d)
qed

lemma length_replicate_zero_store:
  "p + n \<le> 2 ^ pbits E \<Longrightarrow> a < p \<or> p + n \<le> a \<Longrightarrow>
     store_bytes E m p (replicate n 0) a = m a"
  using store_bytes_frame[of p "replicate n 0" E a m] by simp

lemma new_sliceHeader_props:
  assumes "brk s + 3 * ptrSize E \<le> 2 ^ pbits E" "0 < ptrSize E"
      and "sh_data h < 2 ^ pbits E" "sh_len h < 2 ^ pbits E" "sh_cap h < 2 ^ pbits E"
  shows "fst (new_sliceHeader E s h) = brk s"
    and "load_sliceHeader E (mem (snd (new_sliceHeader E s h))) (brk s) = h"
    and "a < brk s \<Longrightarrow> mem (snd (new_sliceHeader E s h)) a = mem s a"
    and "brk (snd (new_sliceHeader E s h)) = brk s + 3 * ptrSize E"
    and "hmaps (snd (new_sliceHeader E s h)) = hmaps s"
proof -
  show "fst (new_sliceHeader E s h) = brk s"
    by (simp add: new_sliceHeader_def alloc_def)
  show "load_sliceHeader E (mem (snd (new_sliceHeader E s h))) (brk s) = h"
    using assms by (simp add: new_sliceHeader_def alloc_def load_store_sliceHeader)
  show "a < brk s \<Longrightarrow> mem (snd (new_sliceHeader E s h)) a = mem s a"
    using assms
    by (simp add: new_sliceHeader_def alloc_def store_sliceHeader_frame
          length_replicate_zero_store)
  show "brk (snd (new_sliceHeader E s h)) = brk s + 3 * ptrSize E"
    using assms by (simp add: new_sliceHeader_def alloc_def max_def)
  show "hmaps (snd (new_sliceHeader E s h)) = hmaps s"
    by (simp add: new_sliceHeader_def alloc_def)
qed

subsection \<open>Unboxing a small value\<close>

lemma or_byte: "b < 256 \<Longrightarrow> (x * 256) OR b = x * 256 + (b::nat)"
proof -
  assume "b < 256"
  then have b: "take_bit 8 b = b" by (simp add: take_bit_nat_eq_self)
  have "push_bit 8 x AND take_bit 8 b = 0"
    by (rule bit_eqI) (auto simp: bit_simps)
  then have "push_bit 8 x + take_bit 8 b = push_bit 8 x OR take_bit 8 b"
    by (rule disjunctive_add_eq_or)
  then show ?thesis by (simp add: b push_bit_eq_mult)
qed

lemma unat_byte_less: "unat (w :: byte) < 256"
proof -
  have "unat w < 2 ^ LENGTH(8)" by (rule unsigned_less)
  then show ?thesis by simp
qed

lemma unsafe_Add_less: "unsafe_Add E p n < 2 ^ pbits E"
  by (simp add: unsafe_Add_def uadd_def)

lemma unsafe_Add_assoc: "unsafe_Add E (unsafe_Add E p a) b = unsafe_Add E p (a + b)"
  by (simp add: unsafe_Add_def uadd_def mod_add_left_eq add.assoc)

lemma load_le_snoc:
  "p < 2 ^ pbits E \<Longrightarrow>
     load_le E m p (Suc n) = load_le E m p n + 256 ^ n * unat (m (unsafe_Add E p n))"
proof (induction n arbitrary: p)
  case 0
  then show ?case by (simp add: unsafe_Add_def uadd_def)
next
  case (Suc n)
  have "load_le E m (unsafe_Add E p 1) (Suc n)
          = load_le E m (unsafe_Add E p 1) n
            + 256 ^ n * unat (m (unsafe_Add E (unsafe_Add E p 1) n))"
    by (rule Suc.IH) (rule unsafe_Add_less)
  then show ?case by (simp add: unsafe_Add_assoc algebra_simps)
qed

lemma unbox_eq:
  "x < 256 ^ k \<Longrightarrow> k + n \<le> ptrSize E \<Longrightarrow> p < 2 ^ pbits E \<Longrightarrow>
     unbox E m p n x = x * 256 ^ n + load_le E m p n"
proof (induction n arbitrary: x k)
  case 0
  then show ?case by simp
next
  case (Suc n)
  let ?b = "unat (m (unsafe_Add E p n))"
  have "x * 256 < 256 ^ k * 256" using Suc.prems(1) by simp
  also have "\<dots> = 256 ^ Suc k" by simp
  also have "\<dots> \<le> (256::nat) ^ ptrSize E"
    using Suc.prems(2) by (intro power_increasing) simp_all
  also have "\<dots> = 2 ^ pbits E" by (simp add: pbits_def power_mult)
  finally have "x * 256 < 2 ^ pbits E" .
  then have sh: "ushl E x 8 = x * 256"
    by (simp add: ushl_def push_bit_eq_mult take_bit_nat_eq_self)
  have x': "x * 256 + ?b < 256 ^ Suc k"
    using Suc.prems(1) unat_byte_less[of "m (unsafe_Add E p n)"] by simp
  have "unbox E m p (Suc n) x = unbox E m p n (x * 256 + ?b)"
    by (simp add: sh or_byte unat_byte_less)
  also have "\<dots> = (x * 256 + ?b) * 256 ^ n + load_le E m p n"
    using Suc.prems by (intro Suc.IH[OF x']) simp_all
  also have "\<dots> = x * 256 ^ Suc n + load_le E m p (Suc n)"
    by (simp only: load_le_snoc[OF Suc.prems(3)]) (simp add: algebra_simps)
  finally show ?case .
qed

lemma unbox_load_le:
  "n \<le> ptrSize E \<Longrightarrow> p < 2 ^ pbits E \<Longrightarrow> unbox E m p n 0 = load_le E m p n"
  using unbox_eq[of 0 0 n E p m] by simp

lemma load_le_append:
  "p < 2 ^ pbits E \<Longrightarrow>
     load_le E m p (a + b) = load_le E m p a + 256 ^ a * load_le E m (unsafe_Add E p a) b"
proof (induction a arbitrary: p)
  case 0
  then show ?case by (simp add: unsafe_Add_def uadd_def)
next
  case (Suc a)
  have "load_le E m (unsafe_Add E p 1) (a + b)
          = load_le E m (unsafe_Add E p 1) a
            + 256 ^ a * load_le E m (unsafe_Add E (unsafe_Add E p 1) a) b"
    by (rule Suc.IH) (rule unsafe_Add_less)
  then show ?case by (simp add: unsafe_Add_assoc algebra_simps)
qed

lemma split_arith:
  fixes a b :: nat
  assumes "a < 2 ^ 32" "b < 2 ^ 32"
  shows "(a + 2 ^ 32 * b) mod 2 ^ (8 * 4) = a" "((a + 2 ^ 32 * b) div 2 ^ 32) mod 2 ^ (8 * 4) = b"
  using assms by simp_all

lemma load_le_8_split:
  assumes "p < 2 ^ pbits E"
  shows "local_load 4 (load_le E m p 8) = load_le E m p 4"
    and "local_load 4 (load_le E m p 8 div 2 ^ 32) = load_le E m (unsafe_Add E p 4) 4"
proof -
  define A where "A = load_le E m p 4"
  define B where "B = load_le E m (unsafe_Add E p 4) 4"
  have "load_le E m p (4 + 4) = A + 256 ^ 4 * B"
    unfolding A_def B_def by (rule load_le_append[OF assms])
  then have e: "load_le E m p 8 = A + 2 ^ 32 * B" by simp
  have "A < 256 ^ 4" "B < 256 ^ 4" unfolding A_def B_def by (rule load_le_bound)+
  then have b: "A < 2 ^ 32" "B < 2 ^ 32" by simp_all
  show "local_load 4 (load_le E m p 8) = load_le E m p 4"
    unfolding e local_load_def A_def[symmetric] by (rule split_arith(1)[OF b])
  show "local_load 4 (load_le E m p 8 div 2 ^ 32) = load_le E m (unsafe_Add E p 4) 4"
    unfolding e local_load_def B_def[symmetric] by (rule split_arith(2)[OF b])
qed

lemma local_load_small: "x < 256 ^ n \<Longrightarrow> local_load n x = x"
  by (simp add: local_load_def power_mult)

lemma load_le_1: "load_le E m p 1 = unat (m p)"
  by simp

lemmas reader_defs =
  Value_Bool_def Value_Int_def Value_Uint_def Value_Float_def Value_Complex_def Value_String_def

lemma local_load_load_le: "local_load n (load_le E m p n) = load_le E m p n"
  by (rule local_load_small) (rule load_le_bound)

lemma ValueOf_not_indirect: "\<not> isIndirect (ValueOf c)"
  by (simp add: ValueOf_def decomposeInterface_def isIndirect_def valueFlagExported_def
        valueFlagIndirect_def split_beta)

lemma ValueOf_sel: "typecode (ValueOf c) = fst c" "val (ValueOf c) = snd c"
  by (simp_all add: ValueOf_def decomposeInterface_def split_beta)

lemma readers_unboxed:
  assumes arch: "2 \<le> ptrSize E" "ptrSize E < 16"
      and kind: "Value_Kind E v \<in> scalar_kinds"
      and sz: "rawType_Size E (typecode v) = scalarSize E (Value_Kind E v)"
      and pv: "val v < 2 ^ pbits E"
      and ind: "isIndirect v" and small: "rawType_Size E (typecode v) \<le> ptrSize E"
      and c: "c = (typecode v, load_le E m (val v) (rawType_Size E (typecode v)))"
  shows "Value_Bool E m (ValueOf c) = Value_Bool E m v"
    and "Value_Int E m (ValueOf c) = Value_Int E m v"
    and "Value_Uint E m (ValueOf c) = Value_Uint E m v"
    and "Value_Float E m (ValueOf c) = Value_Float E m v"
    and "Value_Complex E m (ValueOf c) = Value_Complex E m v"
    and "Value_String E m (ValueOf c) = Value_String E m v"
proof -
  have k: "Value_Kind E (ValueOf c) = Value_Kind E v"
    by (simp add: Value_Kind_def ValueOf_sel c)
  have vc: "val (ValueOf c) = load_le E m (val v) (scalarSize E (Value_Kind E v))"
    by (simp add: ValueOf_sel c sz)
  have tc: "typecode (ValueOf c) = typecode v" by (simp add: ValueOf_sel c)
  note ni = ValueOf_not_indirect[of c]
  have sm: "scalarSize E (Value_Kind E v) \<le> ptrSize E" using small sz by simp
  have b: "0 < unat (m (val v)) \<longleftrightarrow> m (val v) \<noteq> 0"
    using unsigned_eq_0_iff[of "m (val v)", where ?'a = nat] by auto
  show "Value_Bool E m (ValueOf c) = Value_Bool E m v"
    using kind ind ni sm
    by (cases "Value_Kind E v")
       (simp_all add: Value_Bool_def k vc scalar_kinds_def scalarSize_def b)
  show "Value_Int E m (ValueOf c) = Value_Int E m v"
    using kind ind ni sm
    by (cases "Value_Kind E v")
       (simp_all add: Value_Int_def k vc scalar_kinds_def scalarSize_def)
  show "Value_Uint E m (ValueOf c) = Value_Uint E m v"
    using kind ind ni sm
    by (cases "Value_Kind E v")
       (simp_all add: Value_Uint_def k vc scalar_kinds_def scalarSize_def)
  show "Value_Float E m (ValueOf c) = Value_Float E m v"
    using kind ind ni sm
    by (cases "Value_Kind E v")
       (simp_all add: Value_Float_def k vc scalar_kinds_def scalarSize_def local_load_load_le
          del: load_le_numeral)
  have s2: "local_load 4 (load_le E m (val v) 8 div 4294967296)
              = load_le E m (unsafe_Add E (val v) 4) 4"
    using load_le_8_split(2)[OF pv, of m] by (simp del: load_le_numeral)
  show "Value_Complex E m (ValueOf c) = Value_Complex E m v"
    using kind ind ni sm arch
    by (cases "Value_Kind E v")
       (simp_all add: Value_Complex_def k vc scalar_kinds_def scalarSize_def
          load_le_8_split(1)[OF pv] s2 del: load_le_numeral)
  show "Value_String E m (ValueOf c) = Value_String E m v"
    using kind ind ni sm arch
    by (cases "Value_Kind E v")
       (simp_all add: Value_String_def k vc scalar_kinds_def scalarSize_def tc)
qed

lemma readers_direct:
  assumes arch: "2 \<le> ptrSize E"
      and kind: "Value_Kind E v \<in> scalar_kinds"
      and sz: "rawType_Size E (typecode v) = scalarSize E (Value_Kind E v)"
      and big: "isIndirect v \<longrightarrow> rawType_Size E (typecode v) > ptrSize E"
      and c: "c = (typecode v, val v)"
  shows "Value_Bool E m (ValueOf c) = Value_Bool E m v"
    and "Value_Int E m (ValueOf c) = Value_Int E m v"
    and "Value_Uint E m (ValueOf c) = Value_Uint E m v"
    and "Value_Float E m (ValueOf c) = Value_Float E m v"
    and "Value_Complex E m (ValueOf c) = Value_Complex E m v"
    and "Value_String E m (ValueOf c) = Value_String E m v"
proof -
  have k: "Value_Kind E (ValueOf c) = Value_Kind E v"
    by (simp add: Value_Kind_def ValueOf_sel c)
  have vc: "val (ValueOf c) = val v" by (simp add: ValueOf_sel c)
  have tc: "typecode (ValueOf c) = typecode v" by (simp add: ValueOf_sel c)
  note ni = ValueOf_not_indirect[of c]
  have bg: "isIndirect v \<longrightarrow> scalarSize E (Value_Kind E v) > ptrSize E" using big sz by simp
  show "Value_Bool E m (ValueOf c) = Value_Bool E m v"
    using kind ni bg arch
    by (cases "Value_Kind E v")
       (auto simp: Value_Bool_def k vc scalar_kinds_def scalarSize_def)
  show "Value_Int E m (ValueOf c) = Value_Int E m v"
    using kind ni bg arch
    by (cases "Value_Kind E v")
       (auto simp: Value_Int_def k vc scalar_kinds_def scalarSize_def)
  show "Value_Uint E m (ValueOf c) = Value_Uint E m v"
    using kind ni bg arch
    by (cases "Value_Kind E v")
       (auto simp: Value_Uint_def k vc scalar_kinds_def scalarSize_def)
  show "Value_Float E m (ValueOf c) = Value_Float E m v"
    using kind ni bg arch
    by (cases "Value_Kind E v")
       (auto simp: Value_Float_def k vc scalar_kinds_def scalarSize_def simp del: load_le_numeral)
  show "Value_Complex E m (ValueOf c) = Value_Complex E m v"
    using kind ni bg arch
    by (cases "Value_Kind E v")
       (auto simp: Value_Complex_def k vc scalar_kinds_def scalarSize_def
             simp del: load_le_numeral)
  show "Value_String E m (ValueOf c) = Value_String E m v"
    using kind ni bg arch
    by (cases "Value_Kind E v")
       (auto simp: Value_String_def k vc tc scalar_kinds_def scalarSize_def)
qed

text \<open>
  On a target whose pointers have 2 to 15 bytes, let \<open>v\<close> be an accessible handle of a
  scalar kind (its type has the size of the kind, its data word is a \<^verbatim>\<open>uintptr\<close>) and
  \<open>i\<close> a container whose type is not an interface type. Decomposing \<open>i\<close> with \<^verbatim>\<open>ValueOf\<close>
  and composing it back with \<^verbatim>\<open>Interface\<close> yields \<open>i\<close>. Composing \<open>v\<close> with \<^verbatim>\<open>Interface\<close>
  (which unboxes a small indirect value into a word) and decomposing the container with
  \<^verbatim>\<open>ValueOf\<close> yields a handle on which the six readers return what they return on \<open>v\<close>.
\<close>

lemma readers_round_trip:
  assumes "2 \<le> ptrSize E" and "ptrSize E < 16"
      and "Value_Kind E v \<in> scalar_kinds"
      and "rawType_Size E (typecode v) = scalarSize E (Value_Kind E v)"
      and "isExported v" and "val v < 2 ^ pbits E"
      and "rawType_Kind E (fst i) \<noteq> Interface"
  shows "Value_Interface E m (ValueOf i) = Inr i
       \<and> (\<exists>c. Value_Interface E m v = Inr c
              \<and> Value_Bool E m (ValueOf c) = Value_Bool E m v
              \<and> Value_Int E m (ValueOf c) = Value_Int E m v
              \<and> Value_Uint E m (ValueOf c) = Value_Uint E m v
              \<and> Value_Float E m (ValueOf c) = Value_Float E m v
              \<and> Value_Complex E m (ValueOf c) = Value_Complex E m v
              \<and> Value_String E m (ValueOf c) = Value_String E m v)"
proof
  have "isExported (ValueOf i)"
    by (simp add: ValueOf_def decomposeInterface_def isExported_def valueFlagExported_def
          split_beta)
  then show "Value_Interface E m (ValueOf i) = Inr i"
    using assms(7) ValueOf_not_indirect[of i]
    by (simp add: Value_Interface_def valueInterfaceUnsafe_def ValueOf_sel composeInterface_def)
next
  let ?n = "rawType_Size E (typecode v)"
  have nk: "rawType_Kind E (typecode v) \<noteq> Interface"
    using assms(3) by (auto simp: scalar_kinds_def Value_Kind_def)
  show "\<exists>c. Value_Interface E m v = Inr c
              \<and> Value_Bool E m (ValueOf c) = Value_Bool E m v
              \<and> Value_Int E m (ValueOf c) = Value_Int E m v
              \<and> Value_Uint E m (ValueOf c) = Value_Uint E m v
              \<and> Value_Float E m (ValueOf c) = Value_Float E m v
              \<and> Value_Complex E m (ValueOf c) = Value_Complex E m v
              \<and> Value_String E m (ValueOf c) = Value_String E m v"
  proof (cases "isIndirect v \<and> ?n \<le> ptrSize E")
    case True
    define c where "c = (typecode v, load_le E m (val v) ?n)"
    have "unbox E m (val v) ?n 0 = load_le E m (val v) ?n"
      using True assms(6) by (intro unbox_load_le) simp_all
    then have "Value_Interface E m v = Inr c"
      using True nk assms(5)
      by (simp add: Value_Interface_def valueInterfaceUnsafe_def composeInterface_def c_def)
    then show ?thesis
      using readers_unboxed[OF assms(1,2,3,4,6) _ _ c_def] True by blast
  next
    case False
    define c where "c = (typecode v, val v)"
    have "Value_Interface E m v = Inr c"
      using False nk assms(5)
      by (auto simp: Value_Interface_def valueInterfaceUnsafe_def composeInterface_def c_def)
    moreover have "isIndirect v \<longrightarrow> ?n > ptrSize E" using False by auto
    ultimately show ?thesis
      using readers_direct[OF assms(1,3,4) _ c_def, of m] by blast
  qed
qed

subsection \<open>Map lookup\<close>

lemma store_zeros_id:
  "p + n \<le> 2 ^ pbits E \<Longrightarrow> (\<And>a. p \<le> a \<Longrightarrow> m a = 0) \<Longrightarrow>
     store_bytes E m p (replicate n 0) = m"
proof (induction n arbitrary: p)
  case 0
  then show ?case by simp
next
  case (Suc n)
  have mp: "m(p := 0) = m" using Suc.prems(2)[of p] by (simp add: fun_upd_idem)
  show ?case
  proof (cases n)
    case 0
    then show ?thesis using mp by simp
  next
    case (Suc k)
    then have u: "unsafe_Add E p 1 = p + 1" using Suc.prems by (intro unsafe_Add_no_wrap) simp
    have "store_bytes E m (p + 1) (replicate n 0) = m"
      using Suc.prems by (intro Suc.IH) auto
    then show ?thesis using mp u by simp
  qed
qed

lemma alloc_fresh:
  assumes "brk s + n \<le> 2 ^ pbits E" "\<And>a. brk s \<le> a \<Longrightarrow> mem s a = 0"
  shows "alloc E s n = (brk s, s\<lparr>brk := brk s + max n 1\<rparr>)"
  using store_zeros_id[OF assms(1), of "mem s"] assms(2)
  by (simp add: alloc_def)

lemma Elem_of_New:
  assumes "rawType_Kind E (pointerTo E t) = Pointer" "p \<noteq> 0"
  shows "Value_Elem E m \<lparr>typecode = pointerTo E t, val = p, flags = valueFlagExported\<rparr>
           = Inr \<lparr>typecode = rawType_elem E (pointerTo E t), val = p,
                  flags = valueFlagExported OR valueFlagIndirect\<rparr>"
  using assms
  by (simp add: Value_Elem_def Value_Kind_def Value_pointer_def isIndirect_def Let_def
        valueFlagExported_def valueFlagIndirect_def)

lemma ex_map_state_sel [simp]:
  "brk ex_map_state = 8200"
  "mem ex_map_state = (\<lambda>a. 0)(4097 := 32, 4104 := 2, 8192 := 104, 8193 := 105)"
  "hmaps ex_map_state 6000
     = Some \<lparr>keySize = 16, valueSize = 8, alg = 1,
             entries = [(StringKey [104, 105], [42, 0, 0, 0, 0, 0, 0, 0])]\<rparr>"
  "hmaps ex_map_state 6008 = Some \<lparr>keySize = 8, valueSize = 8, alg = 0, entries = []\<rparr>"
  "hmaps ex_map_state 6016 = Some \<lparr>keySize = 8, valueSize = 8, alg = 2, entries = []\<rparr>"
  by (simp_all add: ex_map_state_def)

lemma New_ex_map_state:
  "New ex_env ex_map_state 15
     = (\<lparr>typecode = 2, val = 8200, flags = 2\<rparr>, ex_map_state\<lparr>brk := 8208\<rparr>)"
proof -
  have "alloc ex_env ex_map_state 8 = (brk ex_map_state, ex_map_state\<lparr>brk := brk ex_map_state + max 8 1\<rparr>)"
    by (rule alloc_fresh) (simp_all add: pbits_def)
  thus ?thesis by (simp add: New_def ex_simps)
qed

text \<open>
  C8, where the code leaves it. On a map handle \<open>v\<close>, \<^verbatim>\<open>MapIndex\<close> compares the key's
  type descriptor with the key type of the map by identity and panics with ``incompatible
  types for key'' when they differ, leaving the state as it was. When they are the same it
  allocates the element with \<^verbatim>\<open>New\<close> and then: a key of kind string goes to
  \<^verbatim>\<open>hashmapStringGet\<close>; any other key of a binary type goes to \<^verbatim>\<open>hashmapBinaryGet\<close>; any
  other key goes through \<^verbatim>\<open>key.Interface()\<close>, so it reaches \<^verbatim>\<open>hashmapInterfaceGet\<close> when its
  exported flag is set and panics with ``unexported'' before any lookup when the flag is
  clear. In each of the three lookups a miss returns the zero \<^verbatim>\<open>Value\<close> and a hit returns
  \<^verbatim>\<open>elem.Elem()\<close>, an addressable handle on the freshly allocated element.
\<close>

theorem MapIndex_dispatch:
  assumes "Value_Kind E v = Map"
      and "New E s (rawType_elem E (typecode v)) = (el, s1)"
  shows
   "(typecode key1 \<noteq> rawType_key E (typecode v) \<longrightarrow>
       Value_MapIndex E s v key1
         = (Inl (PanicString ''reflect.Value.MapIndex: incompatible types for key''), s))
  \<and> (typecode key2 = rawType_key E (typecode v) \<and> Value_Kind E key2 = String \<longrightarrow>
       Value_MapIndex E s v key2
         = (case hashmapStringGet E s1 (Value_pointer E (mem s1) v) (val key2) (val el)
                   (rawType_Size E (rawType_elem E (typecode v))) of
              (ok, s2) \<Rightarrow>
                if \<not> ok then (Inr zeroValue, s2) else (Value_Elem E (mem s2) el, s2)))
  \<and> (typecode key3 = rawType_key E (typecode v) \<and> Value_Kind E key3 \<noteq> String
        \<and> rawType_isBinary E (typecode key3) \<longrightarrow>
       Value_MapIndex E s v key3
         = (case hashmapBinaryGet E s1 (Value_pointer E (mem s1) v) (handle_arg E key3) (val el)
                   (rawType_Size E (rawType_elem E (typecode v))) of
              (ok, s2) \<Rightarrow>
                if \<not> ok then (Inr zeroValue, s2) else (Value_Elem E (mem s2) el, s2)))
  \<and> (typecode key4 = rawType_key E (typecode v) \<and> Value_Kind E key4 \<noteq> String
        \<and> \<not> rawType_isBinary E (typecode key4) \<and> isExported key4 \<longrightarrow>
       Value_MapIndex E s v key4
         = (case hashmapInterfaceGet E s1 (Value_pointer E (mem s1) v)
                   (valueInterfaceUnsafe E (mem s1) key4) (val el)
                   (rawType_Size E (rawType_elem E (typecode v))) of
              (ok, s2) \<Rightarrow>
                if \<not> ok then (Inr zeroValue, s2) else (Value_Elem E (mem s2) el, s2)))
  \<and> (typecode key5 = rawType_key E (typecode v) \<and> Value_Kind E key5 \<noteq> String
        \<and> \<not> rawType_isBinary E (typecode key5) \<and> \<not> isExported key5 \<longrightarrow>
       Value_MapIndex E s v key5
         = (Inl (PanicString ''(reflect.Value).Interface: unexported''), s1))
  \<and> (rawType_Kind E (pointerTo E (rawType_elem E (typecode v))) = Pointer \<and> brk s \<noteq> 0 \<longrightarrow>
       Value_Elem E m2 el
         = Inr \<lparr>typecode = rawType_elem E (pointerTo E (rawType_elem E (typecode v))),
                val = brk s, flags = valueFlagExported OR valueFlagIndirect\<rparr>)"
proof -
  have el: "el = \<lparr>typecode = pointerTo E (rawType_elem E (typecode v)), val = brk s,
                  flags = valueFlagExported\<rparr>"
    using assms(2) by (auto simp: New_def alloc_def)
  have last: "rawType_Kind E (pointerTo E (rawType_elem E (typecode v))) = Pointer
                \<and> brk s \<noteq> 0 \<longrightarrow>
       Value_Elem E m2 el
         = Inr \<lparr>typecode = rawType_elem E (pointerTo E (rawType_elem E (typecode v))),
                val = brk s, flags = valueFlagExported OR valueFlagIndirect\<rparr>"
    unfolding el by (simp add: Elem_of_New)
  note d = Value_MapIndex_def Let_def Value_Interface_def assms
  have c1: "typecode k \<noteq> rawType_key E (typecode v) \<Longrightarrow>
       Value_MapIndex E s v k
         = (Inl (PanicString ''reflect.Value.MapIndex: incompatible types for key''), s)" for k
    by (simp add: d)
  have c2: "typecode k = rawType_key E (typecode v) \<Longrightarrow> Value_Kind E k = String \<Longrightarrow>
       Value_MapIndex E s v k
         = (case hashmapStringGet E s1 (Value_pointer E (mem s1) v) (val k) (val el)
                   (rawType_Size E (rawType_elem E (typecode v))) of
              (ok, s2) \<Rightarrow>
                if \<not> ok then (Inr zeroValue, s2) else (Value_Elem E (mem s2) el, s2))" for k
    by (simp add: d)
  have c3: "typecode k = rawType_key E (typecode v) \<Longrightarrow> Value_Kind E k \<noteq> String \<Longrightarrow>
        rawType_isBinary E (typecode k) \<Longrightarrow>
       Value_MapIndex E s v k
         = (case hashmapBinaryGet E s1 (Value_pointer E (mem s1) v) (handle_arg E k) (val el)
                   (rawType_Size E (rawType_elem E (typecode v))) of
              (ok, s2) \<Rightarrow>
                if \<not> ok then (Inr zeroValue, s2) else (Value_Elem E (mem s2) el, s2))" for k
    by (simp add: d)
  have c4: "typecode k = rawType_key E (typecode v) \<Longrightarrow> Value_Kind E k \<noteq> String \<Longrightarrow>
        \<not> rawType_isBinary E (typecode k) \<Longrightarrow> isExported k \<Longrightarrow>
       Value_MapIndex E s v k
         = (case hashmapInterfaceGet E s1 (Value_pointer E (mem s1) v)
                   (valueInterfaceUnsafe E (mem s1) k) (val el)
                   (rawType_Size E (rawType_elem E (typecode v))) of
              (ok, s2) \<Rightarrow>
                if \<not> ok then (Inr zeroValue, s2) else (Value_Elem E (mem s2) el, s2))" for k
    by (simp add: d)
  have c5: "typecode k = rawType_key E (typecode v) \<Longrightarrow> Value_Kind E k \<noteq> String \<Longrightarrow>
        \<not> rawType_isBinary E (typecode k) \<Longrightarrow> \<not> isExported k \<Longrightarrow>
       Value_MapIndex E s v k
         = (Inl (PanicString ''(reflect.Value).Interface: unexported''), s1)" for k
    by (simp add: d)
  show ?thesis
    using c1[of key1] c2[of key2] c3[of key3] c4[of key4] c5[of key5] last by blast
qed

theorem MapIndex_dispatch_witness:
  "Value_Kind ex_env \<lparr>typecode = 10, val = 6000, flags = 2\<rparr> = Map
 \<and> Value_MapIndex ex_env ex_map_state \<lparr>typecode = 10, val = 6000, flags = 2\<rparr>
      \<lparr>typecode = 15, val = 7, flags = 2\<rparr>
      = (Inl (PanicString ''reflect.Value.MapIndex: incompatible types for key''), ex_map_state)
 \<and> fst (Value_MapIndex ex_env ex_map_state \<lparr>typecode = 10, val = 6000, flags = 2\<rparr>
           \<lparr>typecode = 5, val = 4096, flags = 3\<rparr>)
      = Inr \<lparr>typecode = 15, val = 8200, flags = 3\<rparr>
 \<and> mem (snd (Value_MapIndex ex_env ex_map_state \<lparr>typecode = 10, val = 6000, flags = 2\<rparr>
                \<lparr>typecode = 5, val = 4096, flags = 3\<rparr>)) 8200 = 42
 \<and> fst (Value_MapIndex ex_env ex_map_state \<lparr>typecode = 14, val = 6008, flags = 2\<rparr>
           \<lparr>typecode = 15, val = 7, flags = 2\<rparr>)
      = Inr zeroValue
 \<and> fst (Value_MapIndex ex_env ex_map_state \<lparr>typecode = 13, val = 6016, flags = 2\<rparr>
           \<lparr>typecode = 11, val = 0, flags = 2\<rparr>)
      = Inr zeroValue
 \<and> Value_MapIndex ex_env ex_map_state \<lparr>typecode = 13, val = 6016, flags = 2\<rparr>
      \<lparr>typecode = 11, val = 0, flags = 0\<rparr>
      = (Inl (PanicString ''(reflect.Value).Interface: unexported''),
         ex_map_state\<lparr>brk := 8208\<rparr>)"
proof -
  let ?sm = "\<lparr>typecode = 10, val = 6000, flags = 2\<rparr>"
  let ?im = "\<lparr>typecode = 14, val = 6008, flags = 2\<rparr>"
  let ?fm = "\<lparr>typecode = 13, val = 6016, flags = 2\<rparr>"
  let ?el = "\<lparr>typecode = 2, val = 8200, flags = 2\<rparr>"
  let ?s1 = "ex_map_state\<lparr>brk := 8208\<rparr>"
  let ?ik = "\<lparr>typecode = 15, val = 7, flags = 2\<rparr>"
  let ?sk = "\<lparr>typecode = 5, val = 4096, flags = 3\<rparr>"
  let ?fk = "\<lparr>typecode = 11, val = 0, flags = 2\<rparr>"
  let ?uk = "\<lparr>typecode = 11, val = 0, flags = 0\<rparr>"
  have k: "Value_Kind ex_env ?sm = Map" "Value_Kind ex_env ?im = Map"
          "Value_Kind ex_env ?fm = Map"
    by (simp_all add: ex_simps)
  have n: "New ex_env ex_map_state (rawType_elem ex_env (typecode ?sm)) = (?el, ?s1)"
          "New ex_env ex_map_state (rawType_elem ex_env (typecode ?im)) = (?el, ?s1)"
          "New ex_env ex_map_state (rawType_elem ex_env (typecode ?fm)) = (?el, ?s1)"
    using New_ex_map_state by (simp_all add: ex_simps)
  let ?m2 = "store_bytes ex_env (mem ?s1) 8200 [42, 0, 0, 0, 0, 0, 0, 0]"
  have sk: "string_key ex_env (mem ?s1) 4096 = StringKey [104, 105]"
    by (simp add: string_key_def load_stringHeader_def Let_def ex_simps)
  have a: "Value_MapIndex ex_env ex_map_state ?sm ?ik
      = (Inl (PanicString ''reflect.Value.MapIndex: incompatible types for key''), ex_map_state)"
    using MapIndex_dispatch[where ?key1.0 = "?ik", OF k(1) n(1), THEN conjunct1]
    by (simp add: ex_simps)
  have b1: "Value_MapIndex ex_env ex_map_state ?sm ?sk
      = (Value_Elem ex_env ?m2 ?el, ?s1\<lparr>mem := ?m2\<rparr>)"
    using MapIndex_dispatch[where ?key2.0 = "?sk", OF k(1) n(1), THEN conjunct2, THEN conjunct1]
    by (simp add: hashmapStringGet_def hashmapGet_def sk[simplified] Value_pointer_def ex_simps)
  have b2: "Value_Elem ex_env ?m2 ?el = Inr \<lparr>typecode = 15, val = 8200, flags = 3\<rparr>"
    using MapIndex_dispatch[where ?m2.0 = "?m2", OF k(1) n(1), THEN conjunct2, THEN conjunct2,
            THEN conjunct2, THEN conjunct2, THEN conjunct2]
    by (simp add: ex_simps)
  have b3: "?m2 8200 = 42"
    by (simp add: pbits_def unsafe_Add_def uadd_def)
  have c: "fst (Value_MapIndex ex_env ex_map_state ?im ?ik) = Inr zeroValue"
    using MapIndex_dispatch[where ?key3.0 = "?ik", OF k(2) n(2), THEN conjunct2, THEN conjunct2,
            THEN conjunct1]
    by (simp add: hashmapBinaryGet_def hashmapGet_def binary_key_def Value_pointer_def ex_simps)
  have d: "fst (Value_MapIndex ex_env ex_map_state ?fm ?fk) = Inr zeroValue"
    using MapIndex_dispatch[where ?key4.0 = "?fk", OF k(3) n(3), THEN conjunct2, THEN conjunct2,
            THEN conjunct2, THEN conjunct1]
    by (simp add: hashmapInterfaceGet_def hashmapGet_def interface_key_def Value_pointer_def
          ex_simps)
  have e: "Value_MapIndex ex_env ex_map_state ?fm ?uk
      = (Inl (PanicString ''(reflect.Value).Interface: unexported''), ?s1)"
    using MapIndex_dispatch[where ?key5.0 = "?uk", OF k(3) n(3), THEN conjunct2, THEN conjunct2,
            THEN conjunct2, THEN conjunct2, THEN conjunct1]
    by (simp add: ex_simps)
  show ?thesis
    unfolding a b1 c d e using k(1) b2 b3 by (simp add: pbits_def unsafe_Add_def uadd_def)
qed

text \<open>
  A \<^verbatim>\<open>float64\<close> key read from a non-exported struct field (exported flag clear) on a
  \<^verbatim>\<open>map[float64]int\<close>: the types are identical, yet \<^verbatim>\<open>MapIndex\<close> panics instead of
  reaching a lookup.
\<close>

theorem MapIndex_unexported_key_counterexample:
  "Value_Kind ex_env \<lparr>typecode = 13, val = 6016, flags = 2\<rparr> = Map
 \<and> typecode \<lparr>typecode = 11, val = 0, flags = 0\<rparr>
      = rawType_key ex_env (typecode \<lparr>typecode = 13, val = 6016, flags = 2\<rparr>)
 \<and> fst (Value_MapIndex ex_env ex_map_state \<lparr>typecode = 13, val = 6016, flags = 2\<rparr>
           \<lparr>typecode = 11, val = 0, flags = 0\<rparr>)
      = Inl (PanicString ''(reflect.Value).Interface: unexported'')"
  by (simp add: Value_MapIndex_def Value_Interface_def New_ex_map_state Let_def ex_simps)

subsection \<open>Storing into a map and reading back\<close>



lemma length_load_bytes [simp]: "length (load_bytes E m p n) = n"
  by (induction n arbitrary: p) simp_all

lemma length_word_bytes [simp]: "length (word_bytes n w) = n"
  by (induction n arbitrary: w) simp_all









lemma SetMapIndex_ex_int_map_set:
  "Value_SetMapIndex ex_env ex_int_map_set \<lparr>typecode = 14, val = 4096, flags = 2\<rparr>
     \<lparr>typecode = 15, val = 5, flags = 2\<rparr> zeroValue
     = (Inr (), ex_int_map_del)"
  by (simp add: ex_int_map_del_def Value_SetMapIndex_def Let_def ex_simps)





subsection \<open>Reading back the value a container holds\<close>

text \<open>
  Each reader decodes the bytes of the value the handle stands for: \<^verbatim>\<open>Bool\<close> tests them
  against zero, \<^verbatim>\<open>Int\<close> sign-extends them from the width of the kind, \<^verbatim>\<open>Uint\<close> and
  \<^verbatim>\<open>Float\<close> return them (\<^verbatim>\<open>Float\<close> widens a \<^verbatim>\<open>float32\<close>), \<^verbatim>\<open>Complex\<close> splits them in two
  halves, \<^verbatim>\<open>String\<close> follows the header to the bytes of the string.
\<close>

lemma signed_int_bits:
  assumes "0 < n" "- (2 ^ (8 * n - 1)) \<le> x" "x < 2 ^ (8 * n - 1)"
  shows "signed n (int_bits n x) = x"
proof -
  have "int (int_bits n x) = take_bit (8 * n) x"
    by (simp add: int_bits_def take_bit_eq_mod)
  then have "signed n (int_bits n x) = signed_take_bit (8 * n - 1) (take_bit (8 * n) x)"
    by (simp add: signed_def)
  also have "\<dots> = signed_take_bit (8 * n - 1) x"
  proof -
    have "\<not> 8 * n \<le> 8 * n - 1" using assms(1) by simp
    then show ?thesis by (simp only: signed_take_bit_take_bit if_False)
  qed
  also have "\<dots> = x"
    using assms(2,3) by (simp add: signed_take_bit_int_eq_self)
  finally show ?thesis .
qed

lemma Bool_decode:
  assumes "2 \<le> ptrSize E" "Value_Kind E w = Bool" "rawType_Size E (typecode w) = 1"
      and "valueBits E m w = (if b then 1 else 0)"
  shows "Value_Bool E m w = Inr b"
proof -
  have z: "unat (m (val w)) = 0 \<longleftrightarrow> m (val w) = 0"
    using unsigned_eq_0_iff[of "m (val w)", where ?'a = nat] by auto
  show ?thesis
    using assms z by (auto simp: Value_Bool_def valueBits_def split: if_splits)
qed

lemma Int_decode:
  assumes "2 \<le> ptrSize E" "0 < intSize E"
      and "Value_Kind E w \<in> {IntKind, Int8, Int16, Int32, Int64}"
      and "rawType_Size E (typecode w) = scalarSize E (Value_Kind E w)"
      and "- (2 ^ (8 * scalarSize E (Value_Kind E w) - 1)) \<le> x"
      and "x < 2 ^ (8 * scalarSize E (Value_Kind E w) - 1)"
      and "valueBits E m w = int_bits (scalarSize E (Value_Kind E w)) x"
  shows "Value_Int E m w = Inr x"
proof -
  have n: "0 < scalarSize E (Value_Kind E w)"
    using assms(2,3) by (auto simp: scalarSize_def)
  note s = signed_int_bits[OF n assms(5,6)]
  show ?thesis
    using assms(1,3,4,7) s
    by (auto simp: Value_Int_def valueBits_def scalarSize_def split: if_splits
             simp del: load_le_numeral)
qed

lemma Uint_decode:
  assumes "2 \<le> ptrSize E" "ptrSize E \<le> 8" "intSize E \<le> 8"
      and "Value_Kind E w \<in> {Uint, Uint8, Uint16, Uint32, Uint64, Uintptr}"
      and "rawType_Size E (typecode w) = scalarSize E (Value_Kind E w)"
      and "u < 2 ^ (8 * scalarSize E (Value_Kind E w))"
      and "valueBits E m w = u"
  shows "Value_Uint E m w = Inr u"
proof -
  have "scalarSize E (Value_Kind E w) \<le> 8"
    using assms(2,3,4) by (auto simp: scalarSize_def)
  then have "(2::nat) ^ (8 * scalarSize E (Value_Kind E w)) \<le> 2 ^ 64"
    by (intro power_increasing) simp_all
  then have "u < 2 ^ 64" using assms(6) by linarith
  then have t: "to_uint64 u = u" by (simp add: to_uint64_def)
  show ?thesis
    using assms(1,4,5,7) t
    by (auto simp: Value_Uint_def valueBits_def scalarSize_def split: if_splits
             simp del: load_le_numeral)
qed

lemma Float_decode:
  assumes "Value_Kind E w \<in> {Float32, Float64}"
      and "rawType_Size E (typecode w) = scalarSize E (Value_Kind E w)"
      and "f < 2 ^ (8 * scalarSize E (Value_Kind E w))"
      and "valueBits E m w = f"
  shows "Value_Float E m w
           = Inr (if Value_Kind E w = Float32 then float32to64 E f else f)"
  using assms
  by (auto simp: Value_Float_def valueBits_def scalarSize_def local_load_def
           split: if_splits simp del: load_le_numeral)

lemma split_unique:
  fixes a b c d k :: nat
  assumes "a < k" "c < k" "a + k * b = c + k * d"
  shows "a = c" "b = d"
proof -
  have "(a + k * b) mod k = (c + k * d) mod k" using assms(3) by simp
  then show ac: "a = c" using assms(1,2) by simp
  have "k * b = k * d" using assms(3) ac by simp
  moreover have "0 < k" using assms(1) by simp
  ultimately show "b = d" by simp
qed

lemma load_le_halves:
  assumes "p < 2 ^ pbits E" "re < 256 ^ h" "load_le E m p (h + h) = re + 256 ^ h * im"
  shows "load_le E m p h = re" "load_le E m (unsafe_Add E p h) h = im"
proof -
  have e: "load_le E m p h + 256 ^ h * load_le E m (unsafe_Add E p h) h = re + 256 ^ h * im"
    using load_le_append[OF assms(1), of m h h] assms(3) by simp
  have b: "load_le E m p h < 256 ^ h" by (rule load_le_bound)
  show "load_le E m p h = re" by (rule split_unique(1)[OF b assms(2) e])
  show "load_le E m (unsafe_Add E p h) h = im" by (rule split_unique(2)[OF b assms(2) e])
qed

lemma Complex_decode:
  assumes "ptrSize E \<le> 8" "val w < 2 ^ pbits E"
      and "Value_Kind E w \<in> {Complex64, Complex128}"
      and "rawType_Size E (typecode w) = scalarSize E (Value_Kind E w)"
      and "re < 2 ^ (4 * scalarSize E (Value_Kind E w))"
      and "im < 2 ^ (4 * scalarSize E (Value_Kind E w))"
      and "valueBits E m w = re + 2 ^ (4 * scalarSize E (Value_Kind E w)) * im"
  shows "Value_Complex E m w
           = Inr (if Value_Kind E w = Complex64
                  then (float32to64 E re, float32to64 E im) else (re, im))"
proof (cases "Value_Kind E w = Complex64")
  case True
  then have sz: "rawType_Size E (typecode w) = 8" and b: "re < 2 ^ 32" "im < 2 ^ 32"
    and vb: "valueBits E m w = re + 2 ^ 32 * im"
    using assms(4,5,6,7) by (simp_all add: scalarSize_def)
  show ?thesis
  proof (cases "isIndirect w \<or> 8 > ptrSize E")
    case ind: True
    then have "load_le E m (val w) (4 + 4) = re + 256 ^ 4 * im"
      using vb sz by (auto simp: valueBits_def simp del: load_le_numeral)
    from load_le_halves[OF assms(2) _ this] b(1)
    have "load_le E m (val w) 4 = re" "load_le E m (unsafe_Add E (val w) 4) 4 = im"
      by (simp_all del: load_le_numeral)
    then show ?thesis
      using True ind by (simp add: Value_Complex_def del: load_le_numeral)
  next
    case dir: False
    then have v: "val w = re + 2 ^ 32 * im"
      using vb sz by (simp add: valueBits_def)
    have "local_load 4 (val w) = re" "local_load 4 (val w div 2 ^ 32) = im"
      unfolding v local_load_def by (rule split_arith[OF b])+
    then show ?thesis
      using True dir by (simp add: Value_Complex_def del: load_le_numeral)
  qed
next
  case False
  then have k: "Value_Kind E w = Complex128" using assms(3) by simp
  then have sz: "rawType_Size E (typecode w) = 16" and b: "re < 2 ^ 64" "im < 2 ^ 64"
    and vb: "valueBits E m w = re + 2 ^ 64 * im"
    using assms(4,5,6,7) by (simp_all add: scalarSize_def)
  have "load_le E m (val w) (8 + 8) = re + 256 ^ 8 * im"
    using vb sz assms(1) by (simp add: valueBits_def del: load_le_numeral)
  from load_le_halves[OF assms(2) _ this] b(1)
  have "load_le E m (val w) 8 = re" "load_le E m (unsafe_Add E (val w) 8) 8 = im"
    by (simp_all del: load_le_numeral)
  then show ?thesis
    using k by (simp add: Value_Complex_def del: load_le_numeral)
qed

lemma char_of_byte: "char_of (unat (of_nat (of_char ch) :: byte)) = ch"
proof -
  have "(of_char ch :: nat) mod 256 = of_char ch" by (rule of_char_mod_256)
  moreover have "(of_char ch :: nat) mod 256 < 256" by simp
  ultimately have "(of_char ch :: nat) < 256" by simp
  then have "take_bit 8 (of_char ch :: nat) = of_char ch"
    by (simp add: take_bit_nat_eq_self)
  then have "unat (of_nat (of_char ch) :: byte) = of_char ch"
    by (simp add: unsigned_of_nat)
  then show ?thesis by simp
qed

lemma String_decode:
  assumes "0 < ptrSize E" "val w < 2 ^ pbits E"
      and "Value_Kind E w = String"
      and "rawType_Size E (typecode w) = 2 * ptrSize E"
      and "d < 2 ^ pbits E"
      and "valueBits E m w = d + 2 ^ pbits E * length s"
      and "load_bytes E m d (length s) = map (\<lambda>ch. of_nat (of_char ch)) s"
  shows "Value_String E m w = Inr s"
proof -
  have "load_le E m (val w) (ptrSize E + ptrSize E) = d + 256 ^ ptrSize E * length s"
    using assms(1,4,6) by (simp add: valueBits_def pbits_def pow256 mult_2)
  from load_le_halves[OF assms(2) _ this] assms(5)
  have "load_word E m (val w) = d" "load_word E m (unsafe_Add E (val w) (ptrSize E)) = length s"
    by (simp_all add: load_word_def pbits_def pow256)
  then have "load_string E m (val w)
               = map (\<lambda>b. char_of (unat b)) (map (\<lambda>ch. of_nat (of_char ch) :: byte) s)"
    using assms(7) by (simp add: load_string_def)
  also have "\<dots> = s" by (simp add: char_of_byte o_def)
  finally show ?thesis using assms(3) by (simp add: Value_String_def)
qed

lemma valueBits_round_trip:
  assumes "rawType_Kind E (typecode v) \<noteq> Interface" "val v < 2 ^ pbits E"
      and "c = valueInterfaceUnsafe E m v"
  shows "fst c = typecode v" "snd c < 2 ^ pbits E"
    and "valueBits E m (ValueOf c) = valueBits E m v"
proof -
  let ?n = "rawType_Size E (typecode v)"
  note ni = ValueOf_not_indirect[of c]
  show "fst c = typecode v"
    using assms(1,3) by (simp add: valueInterfaceUnsafe_def composeInterface_def)
  show "snd c < 2 ^ pbits E" "valueBits E m (ValueOf c) = valueBits E m v"
  proof (atomize (full), cases "isIndirect v \<and> ?n \<le> ptrSize E")
    case True
    have u: "unbox E m (val v) ?n 0 = load_le E m (val v) ?n"
      using True assms(2) by (intro unbox_load_le) simp_all
    have c: "c = (typecode v, load_le E m (val v) ?n)"
      using True assms(1,3) u
      by (simp add: valueInterfaceUnsafe_def composeInterface_def)
    have "load_le E m (val v) ?n < 256 ^ ?n" by (rule load_le_bound)
    also have "\<dots> \<le> 256 ^ ptrSize E" using True by (intro power_increasing) simp_all
    finally have "snd c < 2 ^ pbits E" by (simp add: c pbits_def pow256)
    moreover have "valueBits E m (ValueOf c) = valueBits E m v"
      using True ni by (simp add: valueBits_def ValueOf_sel c)
    ultimately show "snd c < 2 ^ pbits E \<and> valueBits E m (ValueOf c) = valueBits E m v"
      by simp
  next
    case False
    have c: "c = (typecode v, val v)"
      using False assms(1,3)
      by (auto simp: valueInterfaceUnsafe_def composeInterface_def)
    show "snd c < 2 ^ pbits E \<and> valueBits E m (ValueOf c) = valueBits E m v"
      using False ni assms(2) by (auto simp: valueBits_def ValueOf_sel c)
  qed
qed

text \<open>
  C1. On a target whose pointers have 2 to 8 bytes and whose \<^verbatim>\<open>int\<close> has 1 to 8 bytes, let
  \<open>v\<close> be an accessible handle of a scalar kind \<open>K\<close> (its type has the size of the kind,
  its data word is a \<^verbatim>\<open>uintptr\<close>), and \<open>c\<close> the container \<^verbatim>\<open>valueInterfaceUnsafe\<close> builds from
  it, unboxing a small indirect value into the data word. Then \<^verbatim>\<open>Interface\<close> returns \<open>c\<close>
  on \<open>v\<close> and on \<^verbatim>\<open>ValueOf(c)\<close>, the handle \<^verbatim>\<open>ValueOf(c)\<close> stands for the same bytes as \<open>v\<close>,
  and the matching reader returns the value that is encoded in those bytes, on \<open>v\<close> and on
  \<^verbatim>\<open>ValueOf(c)\<close> alike:
  \<^verbatim>\<open>Bool\<close> returns \<open>b\<close> when the byte is 1 for true and 0 for false;
  \<^verbatim>\<open>Int\<close> returns \<open>x\<close> when the bytes are the two's complement of \<open>x\<close> in the width of \<open>K\<close>;
  \<^verbatim>\<open>Uint\<close> returns \<open>u\<close> when the bytes are \<open>u\<close>;
  \<^verbatim>\<open>Float\<close> returns the bit pattern \<open>f\<close> of a \<^verbatim>\<open>float64\<close>, and the \<^verbatim>\<open>float64\<close> of the
  \<^verbatim>\<open>float32\<close> with bit pattern \<open>f\<close>;
  \<^verbatim>\<open>Complex\<close> returns the real part in the low half and the imaginary part in the high
  half (each widened for a \<^verbatim>\<open>complex64\<close>);
  \<^verbatim>\<open>String\<close> returns \<open>s\<close> when the bytes are a header with data pointer \<open>d\<close> and length
  \<open>length s\<close> and the bytes of \<open>s\<close> are at \<open>d\<close>.
  With \<open>v = ValueOf(i)\<close> this is the round trip of a container \<open>i\<close> of a scalar type:
  \<open>c = i\<close>, and the reader returns the value \<open>i\<close> holds.
\<close>

theorem scalar_round_trip:
  assumes "2 \<le> ptrSize E" and "ptrSize E \<le> 8" and "0 < intSize E" and "intSize E \<le> 8"
      and "Value_Kind E v = K" and "K \<in> scalar_kinds"
      and "rawType_Size E (typecode v) = scalarSize E K"
      and "isExported v" and "val v < 2 ^ pbits E"
      and "c = valueInterfaceUnsafe E m v"
  shows
   "Value_Interface E m v = Inr c
  \<and> Value_Interface E m (ValueOf c) = Inr c
  \<and> valueBits E m (ValueOf c) = valueBits E m v
  \<and> (K = Bool \<and> valueBits E m v = (if b then 1 else 0) \<longrightarrow>
       Value_Bool E m v = Inr b \<and> Value_Bool E m (ValueOf c) = Inr b)
  \<and> (K \<in> {IntKind, Int8, Int16, Int32, Int64}
        \<and> - (2 ^ (8 * scalarSize E K - 1)) \<le> x \<and> x < 2 ^ (8 * scalarSize E K - 1)
        \<and> valueBits E m v = int_bits (scalarSize E K) x \<longrightarrow>
       Value_Int E m v = Inr x \<and> Value_Int E m (ValueOf c) = Inr x)
  \<and> (K \<in> {Uint, Uint8, Uint16, Uint32, Uint64, Uintptr}
        \<and> u < 2 ^ (8 * scalarSize E K) \<and> valueBits E m v = u \<longrightarrow>
       Value_Uint E m v = Inr u \<and> Value_Uint E m (ValueOf c) = Inr u)
  \<and> (K \<in> {Float32, Float64} \<and> f < 2 ^ (8 * scalarSize E K) \<and> valueBits E m v = f \<longrightarrow>
       Value_Float E m v = Inr (if K = Float32 then float32to64 E f else f)
     \<and> Value_Float E m (ValueOf c) = Inr (if K = Float32 then float32to64 E f else f))
  \<and> (K \<in> {Complex64, Complex128}
        \<and> re < 2 ^ (4 * scalarSize E K) \<and> im < 2 ^ (4 * scalarSize E K)
        \<and> valueBits E m v = re + 2 ^ (4 * scalarSize E K) * im \<longrightarrow>
       Value_Complex E m v
         = Inr (if K = Complex64 then (float32to64 E re, float32to64 E im) else (re, im))
     \<and> Value_Complex E m (ValueOf c)
         = Inr (if K = Complex64 then (float32to64 E re, float32to64 E im) else (re, im)))
  \<and> (K = String \<and> d < 2 ^ pbits E \<and> valueBits E m v = d + 2 ^ pbits E * length s
        \<and> load_bytes E m d (length s) = map (\<lambda>ch. of_nat (of_char ch)) s \<longrightarrow>
       Value_String E m v = Inr s \<and> Value_String E m (ValueOf c) = Inr s)"
proof -
  let ?w = "ValueOf c"
  have nk: "rawType_Kind E (typecode v) \<noteq> Interface"
    using assms(5,6) by (auto simp: scalar_kinds_def Value_Kind_def)
  note rt = valueBits_round_trip[OF nk assms(9,10)]
  have kw: "Value_Kind E ?w = K" using rt(1) assms(5) by (simp add: Value_Kind_def ValueOf_sel)
  have sw: "rawType_Size E (typecode ?w) = scalarSize E K"
    using rt(1) assms(7) by (simp add: ValueOf_sel)
  have vw: "val ?w < 2 ^ pbits E" using rt(2) by (simp add: ValueOf_sel)
  have p0: "0 < ptrSize E" using assms(1) by simp
  have i1: "Value_Interface E m v = Inr c"
    using assms(8,10) by (simp add: Value_Interface_def)
  have ew: "isExported ?w"
    by (simp add: ValueOf_def decomposeInterface_def isExported_def valueFlagExported_def
          split_beta)
  have "valueInterfaceUnsafe E m ?w = c"
    using nk rt(1) ValueOf_not_indirect[of c] prod.collapse[of c]
    by (simp add: valueInterfaceUnsafe_def ValueOf_sel composeInterface_def
          del: prod.collapse)
  then have i2: "Value_Interface E m ?w = Inr c"
    using ew by (simp add: Value_Interface_def)
  have B: "K = Bool \<Longrightarrow> valueBits E m v = (if b then 1 else 0) \<Longrightarrow>
             Value_Bool E m v = Inr b \<and> Value_Bool E m ?w = Inr b"
    using Bool_decode[of E v m b] Bool_decode[of E ?w m b] assms(1,5,7) kw sw rt(3)
    by (simp add: scalarSize_def)
  have I: "K \<in> {IntKind, Int8, Int16, Int32, Int64} \<Longrightarrow>
             - (2 ^ (8 * scalarSize E K - 1)) \<le> x \<Longrightarrow> x < 2 ^ (8 * scalarSize E K - 1) \<Longrightarrow>
             valueBits E m v = int_bits (scalarSize E K) x \<Longrightarrow>
             Value_Int E m v = Inr x \<and> Value_Int E m ?w = Inr x"
    using Int_decode[of E v x m] Int_decode[of E ?w x m] assms(1,3,5,7) kw sw rt(3)
    by simp
  have U: "K \<in> {Uint, Uint8, Uint16, Uint32, Uint64, Uintptr} \<Longrightarrow>
             u < 2 ^ (8 * scalarSize E K) \<Longrightarrow> valueBits E m v = u \<Longrightarrow>
             Value_Uint E m v = Inr u \<and> Value_Uint E m ?w = Inr u"
    using Uint_decode[of E v u m] Uint_decode[of E ?w u m] assms(1,2,4,5,7) kw sw rt(3)
    by simp
  have F: "K \<in> {Float32, Float64} \<Longrightarrow> f < 2 ^ (8 * scalarSize E K) \<Longrightarrow>
             valueBits E m v = f \<Longrightarrow>
             Value_Float E m v = Inr (if K = Float32 then float32to64 E f else f)
           \<and> Value_Float E m ?w = Inr (if K = Float32 then float32to64 E f else f)"
    using Float_decode[of E v f m] Float_decode[of E ?w f m] assms(5,7) kw sw rt(3)
    by simp
  have C: "K \<in> {Complex64, Complex128} \<Longrightarrow>
             re < 2 ^ (4 * scalarSize E K) \<Longrightarrow> im < 2 ^ (4 * scalarSize E K) \<Longrightarrow>
             valueBits E m v = re + 2 ^ (4 * scalarSize E K) * im \<Longrightarrow>
             Value_Complex E m v
               = Inr (if K = Complex64 then (float32to64 E re, float32to64 E im) else (re, im))
           \<and> Value_Complex E m ?w
               = Inr (if K = Complex64 then (float32to64 E re, float32to64 E im) else (re, im))"
    using Complex_decode[of E v re im m] Complex_decode[of E ?w re im m]
          assms(2,5,7,9) kw sw vw rt(3)
    by simp
  have S: "K = String \<Longrightarrow> d < 2 ^ pbits E \<Longrightarrow>
             valueBits E m v = d + 2 ^ pbits E * length s \<Longrightarrow>
             load_bytes E m d (length s) = map (\<lambda>ch. of_nat (of_char ch)) s \<Longrightarrow>
             Value_String E m v = Inr s \<and> Value_String E m ?w = Inr s"
    using String_decode[of E v d m s] String_decode[of E ?w d m s]
          p0 assms(5,7,9) kw sw vw rt(3)
    by (simp add: scalarSize_def)
  show ?thesis
    using i1 i2 rt(3) B I U F C S by blast
qed

text \<open>
  On the 64-bit target: containers that hold \<^verbatim>\<open>true\<close>, the \<^verbatim>\<open>int8\<close> \<open>-3\<close> (as 253), the
  \<^verbatim>\<open>uint8\<close> 200, a \<^verbatim>\<open>float64\<close> and a \<^verbatim>\<open>float32\<close> bit pattern, the \<^verbatim>\<open>complex64\<close> with parts
  5 and 7 in one word, a \<^verbatim>\<open>complex128\<close> with parts 3 and 4 behind a pointer, and the
  string \<^verbatim>\<open>"hi"\<close>; and the field \<^verbatim>\<open>x\<close> of the example struct through an addressable handle
  of kind \<^verbatim>\<open>int\<close>, which \<^verbatim>\<open>Interface\<close> unboxes to the container \<open>(int, 3)\<close>.
\<close>

theorem scalar_round_trip_witness:
  "Value_Bool ex_env (\<lambda>a. 0) (ValueOf (16, 1)) = Inr True
 \<and> Value_Int ex_env (\<lambda>a. 0) (ValueOf (17, 253)) = Inr (- 3)
 \<and> Value_Uint ex_env (\<lambda>a. 0) (ValueOf (3, 200)) = Inr 200
 \<and> Value_Float ex_env (\<lambda>a. 0) (ValueOf (11, 4614253070214989087)) = Inr 4614253070214989087
 \<and> Value_Float ex_env (\<lambda>a. 0) (ValueOf (18, 1078523331)) = Inr 1078523331
 \<and> Value_Complex ex_env (\<lambda>a. 0) (ValueOf (19, 5 + 2 ^ 32 * 7)) = Inr (5, 7)
 \<and> Value_Complex ex_env (mem ex_struct_state) (ValueOf (20, 4096)) = Inr (3, 4)
 \<and> Value_String ex_env (mem ex_string_state) (ValueOf (5, 4096)) = Inr ''hi''
 \<and> Value_Interface ex_env (mem ex_string_state) (ValueOf (5, 4096)) = Inr (5, 4096)
 \<and> Value_Interface ex_env (mem ex_struct_state) \<lparr>typecode = 15, val = 4096, flags = 3\<rparr>
      = Inr (15, 3)
 \<and> Value_Int ex_env (mem ex_struct_state) \<lparr>typecode = 15, val = 4096, flags = 3\<rparr> = Inr 3
 \<and> Value_Int ex_env (mem ex_struct_state) (ValueOf (15, 3)) = Inr 3"
proof -
  note a = ex_env_sel(1,2)
  have a1: "2 \<le> ptrSize ex_env" "ptrSize ex_env \<le> 8" "0 < intSize ex_env" "intSize ex_env \<le> 8"
    by simp_all
  note T = scalar_round_trip[OF a1]
  have vo: "ValueOf (t, w) = \<lparr>typecode = t, val = w, flags = 2\<rparr>" for t w
    by (simp add: ValueOf_def decomposeInterface_def valueFlagExported_def)
  have ci: "valueInterfaceUnsafe ex_env m \<lparr>typecode = t, val = w, flags = 2\<rparr> = (t, w)"
    if "rawType_Kind ex_env t \<noteq> Interface" for m t w
    using that by (simp add: valueInterfaceUnsafe_def composeInterface_def isIndirect_def
                     valueFlagIndirect_def)
  have ex: "isExported \<lparr>typecode = t, val = w, flags = 2\<rparr>" for t w
    by (simp add: isExported_def valueFlagExported_def)
  have sk: "Bool \<in> scalar_kinds" "Int8 \<in> scalar_kinds" "Uint8 \<in> scalar_kinds"
           "Float64 \<in> scalar_kinds" "Float32 \<in> scalar_kinds" "Complex64 \<in> scalar_kinds"
           "Complex128 \<in> scalar_kinds" "String \<in> scalar_kinds" "IntKind \<in> scalar_kinds"
    by (simp_all add: scalar_kinds_def)
  have b: "Value_Bool ex_env (\<lambda>a. 0) (ValueOf (16, 1)) = Inr True"
    using T[of "\<lparr>typecode = 16, val = 1, flags = 2\<rparr>" Bool "(16, 1)" "\<lambda>a. 0" True, OF _ sk(1) _ ex _]
    by (simp add: vo ci valueBits_def scalarSize_def ex_simps)
  have i: "Value_Int ex_env (\<lambda>a. 0) (ValueOf (17, 253)) = Inr (- 3)"
    using T[of "\<lparr>typecode = 17, val = 253, flags = 2\<rparr>" Int8 "(17, 253)" "\<lambda>a. 0" _ "- 3",
            OF _ sk(2) _ ex _]
    by (simp add: vo ci valueBits_def scalarSize_def int_bits_def ex_simps)
  have u: "Value_Uint ex_env (\<lambda>a. 0) (ValueOf (3, 200)) = Inr 200"
    using T[of "\<lparr>typecode = 3, val = 200, flags = 2\<rparr>" Uint8 "(3, 200)" "\<lambda>a. 0" _ _ 200,
            OF _ sk(3) _ ex _]
    by (simp add: vo ci valueBits_def scalarSize_def ex_simps)
  have f: "Value_Float ex_env (\<lambda>a. 0) (ValueOf (11, 4614253070214989087))
             = Inr 4614253070214989087"
    using T[of "\<lparr>typecode = 11, val = 4614253070214989087, flags = 2\<rparr>" Float64
               "(11, 4614253070214989087)" "\<lambda>a. 0" _ _ _ 4614253070214989087,
            OF _ sk(4) _ ex _]
    by (simp add: vo ci valueBits_def scalarSize_def ex_simps)
  have g: "Value_Float ex_env (\<lambda>a. 0) (ValueOf (18, 1078523331)) = Inr 1078523331"
    using T[of "\<lparr>typecode = 18, val = 1078523331, flags = 2\<rparr>" Float32
               "(18, 1078523331)" "\<lambda>a. 0" _ _ _ 1078523331,
            OF _ sk(5) _ ex _]
    by (simp add: vo ci valueBits_def scalarSize_def ex_simps)
  have c: "Value_Complex ex_env (\<lambda>a. 0) (ValueOf (19, 5 + 2 ^ 32 * 7)) = Inr (5, 7)"
    using T[of "\<lparr>typecode = 19, val = 5 + 2 ^ 32 * 7, flags = 2\<rparr>" Complex64
               "(19, 5 + 2 ^ 32 * 7)" "\<lambda>a. 0" _ _ _ _ 5 7,
            OF _ sk(6) _ ex _]
    by (simp add: vo ci valueBits_def scalarSize_def ex_simps)
  have c2: "Value_Complex ex_env (mem ex_struct_state) (ValueOf (20, 4096)) = Inr (3, 4)"
    using T[of "\<lparr>typecode = 20, val = 4096, flags = 2\<rparr>" Complex128
               "(20, 4096)" "mem ex_struct_state" _ _ _ _ 3 4,
            OF _ sk(7) _ ex _]
    by (simp add: vo ci valueBits_def scalarSize_def ex_simps ex_struct_state_def)
  have s: "Value_String ex_env (mem ex_string_state) (ValueOf (5, 4096)) = Inr ''hi''
         \<and> Value_Interface ex_env (mem ex_string_state) (ValueOf (5, 4096)) = Inr (5, 4096)"
    using T[of "\<lparr>typecode = 5, val = 4096, flags = 2\<rparr>" String
               "(5, 4096)" "mem ex_string_state" _ _ _ _ _ _ 8192 "''hi''",
            OF _ sk(8) _ ex _]
    by (simp add: vo ci valueBits_def scalarSize_def ex_simps ex_string_state_def)
  have n: "Value_Interface ex_env (mem ex_struct_state) \<lparr>typecode = 15, val = 4096, flags = 3\<rparr>
             = Inr (15, 3)
         \<and> Value_Int ex_env (mem ex_struct_state) \<lparr>typecode = 15, val = 4096, flags = 3\<rparr>
             = Inr 3
         \<and> Value_Int ex_env (mem ex_struct_state) (ValueOf (15, 3)) = Inr 3"
    using T[of "\<lparr>typecode = 15, val = 4096, flags = 3\<rparr>" IntKind
               "(15, 3)" "mem ex_struct_state" _ 3,
            OF _ sk(9)]
    by (simp add: vo valueInterfaceUnsafe_def composeInterface_def ushl_def valueBits_def
          scalarSize_def int_bits_def ex_simps ex_struct_state_def)
  show ?thesis
    using b i u f g c c2 s n by simp
qed

subsection \<open>What a failing operation leaves behind\<close>

lemma untouched_refl: "untouched s s"
  by (simp add: untouched_def)

lemma isl_Inl: "isl r \<Longrightarrow> \<exists>e. r = Inl e"
  by (cases r) simp_all

lemma hashmapSet_fails:
  "fst (hashmapSet E s mp k a) = Inl e \<Longrightarrow> snd (hashmapSet E s mp k a) = s"
  by (simp add: hashmapSet_def split: option.splits)

lemma Set_fails: "fst (Value_Set E s v x) = Inl e \<Longrightarrow> snd (Value_Set E s v x) = s"
  by (simp add: Value_Set_def Let_def split: sum.splits if_splits)

lemma SetBool_fails: "fst (Value_SetBool E s v x) = Inl e \<Longrightarrow> snd (Value_SetBool E s v x) = s"
  by (cases "Value_Kind E v") (simp_all add: Value_SetBool_def split: sum.splits)

lemma SetInt_fails: "fst (Value_SetInt E s v x) = Inl e \<Longrightarrow> snd (Value_SetInt E s v x) = s"
  by (cases "Value_Kind E v") (simp_all add: Value_SetInt_def split: sum.splits)

lemma SetUint_fails: "fst (Value_SetUint E s v x) = Inl e \<Longrightarrow> snd (Value_SetUint E s v x) = s"
  by (cases "Value_Kind E v") (simp_all add: Value_SetUint_def split: sum.splits)

lemma SetFloat_fails: "fst (Value_SetFloat E s v x) = Inl e \<Longrightarrow> snd (Value_SetFloat E s v x) = s"
  by (cases "Value_Kind E v") (simp_all add: Value_SetFloat_def split: sum.splits)

lemma SetComplex_fails:
  "fst (Value_SetComplex E s v x) = Inl e \<Longrightarrow> snd (Value_SetComplex E s v x) = s"
  by (cases "Value_Kind E v") (simp_all add: Value_SetComplex_def split: sum.splits)

lemma SetString_fails:
  "fst (Value_SetString E s v x) = Inl e \<Longrightarrow> snd (Value_SetString E s v x) = s"
  by (cases "Value_Kind E v") (simp_all add: Value_SetString_def split: sum.splits)

lemma SetBytes_fails:
  "fst (Value_SetBytes E s v x) = Inl e \<Longrightarrow> snd (Value_SetBytes E s v x) = s"
  by (auto simp: Value_SetBytes_def split: sum.splits if_splits)

lemma SetLen_fails:
  "fst (Value_SetLen E s v n) = Inl e \<Longrightarrow> snd (Value_SetLen E s v n) = s"
  by (auto simp: Value_SetLen_def Let_def split: if_splits)

lemma SetMapIndex_fails:
  "fst (Value_SetMapIndex E s v key elem) = Inl e \<Longrightarrow> snd (Value_SetMapIndex E s v key elem) = s"
  by (auto simp: Value_SetMapIndex_def Let_def hashmapSet_fails split: if_splits sum.splits)

lemma MakeSlice_fails:
  "fst (MakeSlice E s typ len0 cap0) = Inl e \<Longrightarrow> snd (MakeSlice E s typ len0 cap0) = s"
  by (auto simp: MakeSlice_def Let_def split: if_splits prod.splits)

lemma MakeMapWithSize_fails:
  "fst (MakeMapWithSize E s typ n) = Inl e \<Longrightarrow> snd (MakeMapWithSize E s typ n) = s"
  by (auto simp: MakeMapWithSize_def Let_def split: if_splits prod.splits)

lemma Copy_fails:
  "fst (Copy E s dst src) = Inl e \<Longrightarrow> snd (Copy E s dst src) = s"
  by (auto simp: Copy_def Let_def split: if_splits sum.splits prod.splits)

lemma AppendSlice_fails:
  "fst (AppendSlice E s sv tv) = Inl e \<Longrightarrow> snd (AppendSlice E s sv tv) = s"
  by (auto simp: AppendSlice_def Let_def split: if_splits prod.splits)

lemma extendSlice_fails:
  "fst (extendSlice E s v n) = Inl e \<Longrightarrow> snd (extendSlice E s v n) = s"
  by (auto simp: extendSlice_def Let_def split: if_splits prod.splits)

lemma alloc_untouched:
  assumes "brk s + n \<le> 2 ^ pbits E"
  shows "untouched s (snd (alloc E s n))"
  using assms by (simp add: untouched_def alloc_def length_replicate_zero_store)

lemma new_sliceHeader_untouched:
  assumes "brk s + 3 * ptrSize E \<le> 2 ^ pbits E" "0 < ptrSize E"
  shows "untouched s (snd (new_sliceHeader E s h))"
  using assms
  by (simp add: untouched_def new_sliceHeader_def alloc_def store_sliceHeader_frame
        length_replicate_zero_store)

lemma Slice_fails:
  assumes "brk s + 3 * ptrSize E \<le> 2 ^ pbits E" "0 < ptrSize E"
      and "fst (Value_Slice E s v i j) = Inl e"
  shows "untouched s (snd (Value_Slice E s v i j))"
  using assms(3) new_sliceHeader_untouched[OF assms(1,2)]
  by (cases "Value_Kind E v")
     (auto simp: Value_Slice_def Let_def untouched_refl split_beta split: if_splits)

lemma Slice3_fails:
  assumes "brk s + 3 * ptrSize E \<le> 2 ^ pbits E" "0 < ptrSize E"
      and "fst (Value_Slice3 E s v i j k) = Inl e"
  shows "untouched s (snd (Value_Slice3 E s v i j k))"
  using assms(3) new_sliceHeader_untouched[OF assms(1,2)]
  by (cases "Value_Kind E v")
     (auto simp: Value_Slice3_def Let_def untouched_refl split_beta split: if_splits)

lemma hashmapGet_untouched:
  assumes "p + n \<le> 2 ^ pbits E" "brk s0 \<le> p" "untouched s0 s1"
  shows "untouched s0 (snd (hashmapGet E s1 mp k p n))"
proof -
  have "store_bytes E (mem s1) p (take n bs) a = mem s1 a" if "a < brk s0" for a bs
    using that assms(1,2) by (intro store_bytes_frame) auto
  then show ?thesis
    using assms(3) by (auto simp: hashmapGet_def untouched_def split: option.splits)
qed

lemma New_untouched:
  assumes "brk s + rawType_Size E t \<le> 2 ^ pbits E"
  shows "untouched s (snd (New E s t))" "val (fst (New E s t)) = brk s"
  using alloc_untouched[OF assms] by (simp_all add: New_def split_beta alloc_def)

lemma MapIndex_fails:
  assumes "brk s + rawType_Size E (rawType_elem E (typecode v)) \<le> 2 ^ pbits E"
      and "fst (Value_MapIndex E s v key) = Inl e"
  shows "untouched s (snd (Value_MapIndex E s v key))"
proof -
  let ?t = "rawType_elem E (typecode v)"
  let ?n = "rawType_Size E ?t"
  obtain el s1 where N: "New E s ?t = (el, s1)" by (cases "New E s ?t")
  have u1: "untouched s s1" and ve: "val el = brk s"
    using New_untouched[OF assms(1)] N by simp_all
  have g: "untouched s x2" if "hashmapGet E s1 mp k (val el) ?n = (ok, x2)" for mp k ok x2
    using hashmapGet_untouched[OF _ _ u1, of "val el" ?n E mp k] assms(1) ve that by simp
  show ?thesis
    using assms(2) u1 g
    by (auto simp: Value_MapIndex_def Let_def N untouched_refl hashmapStringGet_def
          hashmapBinaryGet_def hashmapInterfaceGet_def
          split: if_splits sum.splits prod.splits)
qed

lemma Append_loop_append:
  "Append_loop E s v oldLen i (xs @ ys)
     = (case Append_loop E s v oldLen i xs of
          (Inl e, s') \<Rightarrow> (Inl e, s')
        | (Inr u, s') \<Rightarrow> Append_loop E s' v oldLen (i + int (length xs)) ys)"
proof (induction xs arbitrary: s i)
  case Nil
  then show ?case by simp
next
  case (Cons x xs)
  show ?case
    by (simp add: Cons.IH add.assoc split: sum.splits prod.splits)
qed

lemma Append_loop_one_fails:
  "fst (Append_loop E s v oldLen i [y]) = Inl e \<Longrightarrow> Append_loop E s v oldLen i [y] = (Inl e, s)"
  using Set_fails[of E s _ y]
  by (auto simp: prod_eq_iff split: sum.splits prod.splits)

lemma Append_loop_Cons:
  "Append_loop E s v oldLen i (z # zs)
     = (case Append_loop E s v oldLen i [z] of
          (Inl e, s') \<Rightarrow> (Inl e, s')
        | (Inr u, s') \<Rightarrow> Append_loop E s' v oldLen (i + 1) zs)"
  by (simp split: sum.splits prod.splits)

lemma Append_loop_fails_split:
  "Append_loop E s v oldLen i zs = (Inl e, s') \<Longrightarrow>
     \<exists>xs y ys. zs = xs @ y # ys
       \<and> Append_loop E s v oldLen i xs = (Inr (), s')
       \<and> Append_loop E s' v oldLen (i + int (length xs)) [y] = (Inl e, s')"
proof (induction zs arbitrary: s i)
  case Nil
  then show ?case by simp
next
  case (Cons z zs)
  obtain r s1 where P: "Append_loop E s v oldLen i [z] = (r, s1)"
    by (cases "Append_loop E s v oldLen i [z]")
  show ?case
  proof (cases r)
    case (Inl e1)
    then have f: "Append_loop E s v oldLen i [z] = (Inl e1, s)"
      using P Append_loop_one_fails[of E s v oldLen i z e1] by simp
    have "Append_loop E s v oldLen i (z # zs) = (Inl e1, s)"
      by (subst Append_loop_Cons) (simp only: f sum.case prod.case)
    then have "e1 = e" "s' = s" using Cons.prems by simp_all
    then have "z # zs = [] @ z # zs \<and> Append_loop E s v oldLen i [] = (Inr (), s')
        \<and> Append_loop E s' v oldLen (i + int (length ([] :: Value list))) [z] = (Inl e, s')"
      using f by (simp del: Append_loop.simps(2))
    then show ?thesis by blast
  next
    case (Inr u)
    then have ok: "Append_loop E s v oldLen i [z] = (Inr (), s1)" using P by simp
    have c: "Append_loop E s v oldLen i (z # ws) = Append_loop E s1 v oldLen (i + 1) ws" for ws
      by (subst Append_loop_Cons) (simp only: ok sum.case prod.case)
    have "Append_loop E s1 v oldLen (i + 1) zs = (Inl e, s')"
      using c[of zs] Cons.prems by simp
    from Cons.IH[OF this] obtain xs y ys where
      d: "zs = xs @ y # ys" "Append_loop E s1 v oldLen (i + 1) xs = (Inr (), s')"
         "Append_loop E s' v oldLen (i + 1 + int (length xs)) [y] = (Inl e, s')"
      by blast
    have i: "i + 1 + int (length xs) = i + int (length (z # xs))" by simp
    have "z # zs = (z # xs) @ y # ys \<and> Append_loop E s v oldLen i (z # xs) = (Inr (), s')
        \<and> Append_loop E s' v oldLen (i + int (length (z # xs))) [y] = (Inl e, s')"
      using d(1) c[of xs] d(2) d(3)[unfolded i] by (simp del: Append_loop.simps(2))
    then show ?thesis by blast
  qed
qed

lemma Append_fails_after_prefix:
  assumes "Value_Kind E v = Slice" "Value_Len E s v = Inr oldLen"
      and "extendSlice E s v (int (length (xs @ y # ys))) = (Inr v1, s1)"
      and "Append_loop E s1 v1 oldLen 0 xs = (Inr (), s2)"
      and "fst (Append_loop E s2 v1 oldLen (int (length xs)) [y]) = Inl e"
  shows "Append E s v (xs @ y # ys) = (Inl e, s2)"
proof -
  have f: "Append_loop E s2 v1 oldLen (int (length xs)) [y] = (Inl e, s2)"
    by (rule Append_loop_one_fails[OF assms(5)])
  have "Append_loop E s2 v1 oldLen (int (length xs)) (y # ys) = (Inl e, s2)"
    using Append_loop_append[of E s2 v1 oldLen "int (length xs)" "[y]" ys] f by simp
  then have "Append_loop E s1 v1 oldLen 0 (xs @ y # ys) = (Inl e, s2)"
    using Append_loop_append[of E s1 v1 oldLen 0 xs "y # ys"] assms(4) by simp
  then show ?thesis
    using assms(1,2,3) by (simp add: Append_def)
qed

lemma Append_fails_split:
  assumes "Value_Kind E v = Slice" "Append E s v zs = (Inl e, s')"
  shows "\<exists>oldLen v1 s1 xs y ys.
           Value_Len E s v = Inr oldLen \<and> zs = xs @ y # ys
         \<and> extendSlice E s v (int (length zs)) = (Inr v1, s1)
         \<and> Append_loop E s1 v1 oldLen 0 xs = (Inr (), s')
         \<and> Append_loop E s' v1 oldLen (int (length xs)) [y] = (Inl e, s')"
proof -
  obtain oldLen where l: "Value_Len E s v = Inr oldLen"
    using assms(1) by (auto simp: Value_Len_def Value_Kind_def)
  obtain v1 s1 where x: "extendSlice E s v (int (length zs)) = (Inr v1, s1)"
    using assms(1) by (auto simp: extendSlice_def Let_def split_beta)
  have "Append_loop E s1 v1 oldLen 0 zs = (Inl e, s')"
    using assms l x by (auto simp: Append_def split: sum.splits prod.splits)
  from Append_loop_fails_split[OF this] l x show ?thesis by auto
qed

lemma ex_append_eval:
  "Value_Kind ex_env \<lparr>typecode = 7, val = 4096, flags = 2\<rparr> = Slice"
  "Value_Len ex_env ex_slice_state \<lparr>typecode = 7, val = 4096, flags = 2\<rparr> = Inr 2"
  "extendSlice ex_env ex_slice_state \<lparr>typecode = 7, val = 4096, flags = 2\<rparr> 2
     = (Inr \<lparr>typecode = 7, val = 8224, flags = 2\<rparr>, ex_append_extended)"
  "Append_loop ex_env ex_append_extended \<lparr>typecode = 7, val = 8224, flags = 2\<rparr> 2 0
     [\<lparr>typecode = 15, val = 5, flags = 2\<rparr>] = (Inr (), ex_append_written)"
  "Append_loop ex_env ex_append_written \<lparr>typecode = 7, val = 8224, flags = 2\<rparr> 2 1
     [\<lparr>typecode = 5, val = 4096, flags = 2\<rparr>]
     = (Inl (PanicString ''reflect: cannot set''), ex_append_written)"
  "mem ex_append_written 8208 = 5"
  "mem ex_slice_state 8208 = 0"
proof -
  let ?v = "\<lparr>typecode = 7, val = 4096, flags = 2\<rparr>"
  let ?x1 = "\<lparr>typecode = 15, val = 5, flags = 2\<rparr>"
  let ?x2 = "\<lparr>typecode = 5, val = 4096, flags = 2\<rparr>"
  let ?h = "\<lparr>sh_data = 8192, sh_len = 4, sh_cap = 4\<rparr>"
  let ?v1 = "\<lparr>typecode = 7, val = 8224, flags = 2\<rparr>"
  let ?s1 = ex_append_extended
  let ?s2 = ex_append_written
  have pb: "(2::nat) ^ pbits ex_env = 18446744073709551616"
    by (simp add: pbits_def)
  have b0: "brk ex_slice_state = 8224" by (simp add: ex_slice_state_def)
  have nh: "new_sliceHeader ex_env ex_slice_state ?h = (8224, ?s1)"
    using new_sliceHeader_props(1)[of ex_slice_state ex_env ?h]
    by (simp add: ex_append_extended_def pb b0 prod_eq_iff)
  have h1: "load_sliceHeader ex_env (mem ?s1) 8224 = ?h"
    using new_sliceHeader_props(2)[of ex_slice_state ex_env ?h]
    by (simp add: ex_append_extended_def pb b0)
  show len: "Value_Len ex_env ex_slice_state ?v = Inr 2"
    by (simp add: Value_Len_def ex_simps load_sliceHeader_def ex_slice_state_def)
  have h0: "load_sliceHeader ex_env (mem ex_slice_state) 4096
              = \<lparr>sh_data = 8192, sh_len = 2, sh_cap = 4\<rparr>"
    by (simp add: load_sliceHeader_def ex_simps ex_slice_state_def)
  show k: "Value_Kind ex_env ?v = Slice" by (simp add: ex_simps)
  have ar: "int_to_uintptr ex_env 2 = 2" "uadd ex_env 2 2 = 4"
    by (simp_all add: ex_simps)
  show ext: "extendSlice ex_env ex_slice_state ?v 2 = (Inr ?v1, ?s1)"
    by (simp add: extendSlice_def k h0 ar nh)
  have ix1: "Value_Index ex_env (mem ?s1) ?v1 2 = Inr \<lparr>typecode = 15, val = 8208, flags = 3\<rparr>"
    by (simp add: Value_Index_def h1 Let_def ex_simps)
  have set1: "Value_Set ex_env ?s1 \<lparr>typecode = 15, val = 8208, flags = 3\<rparr> ?x1 = (Inr (), ?s2)"
    by (simp add: Value_Set_def checkAddressable_def rawType_AssignableTo_def
          ex_append_written_def ex_simps)
  have m2: "mem ?s2 = store_bytes ex_env (mem ?s1) 8208 [5, 0, 0, 0, 0, 0, 0, 0]"
    by (simp add: ex_append_written_def memcpy_def read_arg_def)
  have "load_sliceHeader ex_env (mem ?s2) 8224 = load_sliceHeader ex_env (mem ?s1) 8224"
    unfolding m2
  proof (rule load_sliceHeader_cong)
    show "8224 + 3 * ptrSize ex_env \<le> 2 ^ pbits ex_env" by (simp add: pb)
    show "0 < ptrSize ex_env" by simp
    fix a :: nat
    assume "8224 \<le> a"
    then show "store_bytes ex_env (mem ?s1) 8208 [5, 0, 0, 0, 0, 0, 0, 0] a = mem ?s1 a"
      by (intro store_bytes_frame) (simp_all add: pb)
  qed
  then have h2: "load_sliceHeader ex_env (mem ?s2) 8224 = ?h" using h1 by simp
  have ix2: "Value_Index ex_env (mem ?s2) ?v1 3 = Inr \<lparr>typecode = 15, val = 8216, flags = 3\<rparr>"
    by (simp add: Value_Index_def h2 Let_def ex_simps)
  have set2: "Value_Set ex_env ?s2 \<lparr>typecode = 15, val = 8216, flags = 3\<rparr> ?x2
                = (Inl (PanicString ''reflect: cannot set''), ?s2)"
    by (simp add: Value_Set_def checkAddressable_def rawType_AssignableTo_def ex_simps)
  show "Append_loop ex_env ?s1 ?v1 2 0 [?x1] = (Inr (), ?s2)"
    by (simp add: ix1 set1 del: One_nat_def)
  show "Append_loop ex_env ?s2 ?v1 2 1 [?x2] = (Inl (PanicString ''reflect: cannot set''), ?s2)"
    by (simp add: ix2 set2 del: One_nat_def)
  show "mem ?s2 8208 = 5"
    unfolding m2 by (simp add: unsafe_Add_def uadd_def pb)
  show "mem ex_slice_state 8208 = 0" by (simp add: ex_slice_state_def)
qed

text \<open>
  C2, as the code has it. The operations of value.go that write to memory, to a map or to
  the allocator, and what each leaves when it fails.

  \<^verbatim>\<open>Set\<close>, the scalar writers \<^verbatim>\<open>SetBool\<close>, \<^verbatim>\<open>SetInt\<close>, \<^verbatim>\<open>SetUint\<close>, \<^verbatim>\<open>SetFloat\<close>, \<^verbatim>\<open>SetComplex\<close>,
  \<^verbatim>\<open>SetString\<close>, as well as \<^verbatim>\<open>SetBytes\<close>, \<^verbatim>\<open>SetLen\<close>, \<^verbatim>\<open>SetMapIndex\<close>, \<^verbatim>\<open>Copy\<close>, \<^verbatim>\<open>AppendSlice\<close>,
  \<^verbatim>\<open>extendSlice\<close>, \<^verbatim>\<open>MakeSlice\<close> and \<^verbatim>\<open>MakeMapWithSize\<close> check everything before they write
  or allocate: when one of them fails, the state is the state it was called in. The
  operations that are not implemented (\<^verbatim>\<open>SetCap\<close>, \<^verbatim>\<open>CanConvert\<close>, \<^verbatim>\<open>Convert\<close>,
  \<^verbatim>\<open>FieldByIndex\<close>, \<^verbatim>\<open>FieldByName\<close>, \<^verbatim>\<open>Call\<close>, \<^verbatim>\<open>Method\<close>, \<^verbatim>\<open>MethodByName\<close>, \<^verbatim>\<open>Recv\<close>,
  \<^verbatim>\<open>NewAt\<close>) always fail and leave the state alike.

  \<^verbatim>\<open>Slice\<close> and \<^verbatim>\<open>Slice3\<close> on a slice have allocated the header before they check the
  bounds, and \<^verbatim>\<open>MapIndex\<close> has allocated the element before it boxes the key: when the heap
  has room for the allocation, a failure leaves every map and every byte that existed
  before the call as it was.

  \<^verbatim>\<open>Append\<close> on a handle that is not a slice fails in the state it was called in. On a
  slice it fails only in its loop, at the first element \<open>y\<close> that \<^verbatim>\<open>Index\<close> or \<^verbatim>\<open>Set\<close> rejects,
  and the state it leaves is the state after \<^verbatim>\<open>extendSlice\<close> and after the elements before
  \<open>y\<close> have been set: what they wrote stays written.
\<close>

theorem failures_leave_existing_state:
  "(isl (fst (Value_Set E s v x)) \<longrightarrow> snd (Value_Set E s v x) = s)
 \<and> (isl (fst (Value_SetBool E s v xb)) \<longrightarrow> snd (Value_SetBool E s v xb) = s)
 \<and> (isl (fst (Value_SetInt E s v xi)) \<longrightarrow> snd (Value_SetInt E s v xi) = s)
 \<and> (isl (fst (Value_SetUint E s v xu)) \<longrightarrow> snd (Value_SetUint E s v xu) = s)
 \<and> (isl (fst (Value_SetFloat E s v xf)) \<longrightarrow> snd (Value_SetFloat E s v xf) = s)
 \<and> (isl (fst (Value_SetComplex E s v xc)) \<longrightarrow> snd (Value_SetComplex E s v xc) = s)
 \<and> (isl (fst (Value_SetString E s v xs)) \<longrightarrow> snd (Value_SetString E s v xs) = s)
 \<and> (isl (fst (Value_SetBytes E s v xh)) \<longrightarrow> snd (Value_SetBytes E s v xh) = s)
 \<and> (isl (fst (Value_SetLen E s v nl)) \<longrightarrow> snd (Value_SetLen E s v nl) = s)
 \<and> (isl (fst (Value_SetMapIndex E s v key elem)) \<longrightarrow>
        snd (Value_SetMapIndex E s v key elem) = s)
 \<and> (isl (fst (Copy E s v w)) \<longrightarrow> snd (Copy E s v w) = s)
 \<and> (isl (fst (AppendSlice E s v w)) \<longrightarrow> snd (AppendSlice E s v w) = s)
 \<and> (isl (fst (extendSlice E s v ne)) \<longrightarrow> snd (extendSlice E s v ne) = s)
 \<and> (isl (fst (MakeSlice E s ty ln cp)) \<longrightarrow> snd (MakeSlice E s ty ln cp) = s)
 \<and> (isl (fst (MakeMapWithSize E s tm hint)) \<longrightarrow> snd (MakeMapWithSize E s tm hint) = s)
 \<and> Value_SetCap E s v nc = (Inl (PanicString ''unimplemented: (reflect.Value).SetCap()''), s)
 \<and> snd (Value_CanConvert s v tc) = s \<and> isl (fst (Value_CanConvert s v tc))
 \<and> snd (Value_Convert s v tc) = s \<and> isl (fst (Value_Convert s v tc))
 \<and> snd (Value_FieldByIndex s v index) = s \<and> isl (fst (Value_FieldByIndex s v index))
 \<and> snd (Value_FieldByName s v name) = s \<and> isl (fst (Value_FieldByName s v name))
 \<and> snd (Value_Call s v args) = s \<and> isl (fst (Value_Call s v args))
 \<and> snd (Value_Method s v mi) = s \<and> isl (fst (Value_Method s v mi))
 \<and> snd (Value_MethodByName s v name) = s \<and> isl (fst (Value_MethodByName s v name))
 \<and> snd (Value_Recv s v) = s \<and> isl (fst (Value_Recv s v))
 \<and> snd (NewAt s tn p) = s \<and> isl (fst (NewAt s tn p))
 \<and> (0 < ptrSize E \<and> brk s + 3 * ptrSize E \<le> 2 ^ pbits E
        \<and> isl (fst (Value_Slice E s v i j)) \<longrightarrow>
      untouched s (snd (Value_Slice E s v i j)))
 \<and> (0 < ptrSize E \<and> brk s + 3 * ptrSize E \<le> 2 ^ pbits E
        \<and> isl (fst (Value_Slice3 E s v i j k)) \<longrightarrow>
      untouched s (snd (Value_Slice3 E s v i j k)))
 \<and> (brk s + rawType_Size E (rawType_elem E (typecode v)) \<le> 2 ^ pbits E
        \<and> isl (fst (Value_MapIndex E s v key)) \<longrightarrow>
      untouched s (snd (Value_MapIndex E s v key)))
 \<and> (Value_Kind E v \<noteq> Slice \<longrightarrow>
        Append E s v zs = (Inl (ValueError ''Append'' (Value_Kind E v)), s))
 \<and> (Value_Kind E v = Slice \<and> Value_Len E s v = Inr oldLen
        \<and> extendSlice E s v (int (length (ys @ y # yr))) = (Inr vx, sx)
        \<and> Append_loop E sx vx oldLen 0 ys = (Inr (), sp)
        \<and> fst (Append_loop E sp vx oldLen (int (length ys)) [y]) = Inl e \<longrightarrow>
      Append E s v (ys @ y # yr) = (Inl e, sp))
 \<and> (Value_Kind E v = Slice \<and> isl (fst (Append E s v zs)) \<longrightarrow>
      (\<exists>oldLen vx sx ys y yr e.
          Value_Len E s v = Inr oldLen \<and> zs = ys @ y # yr
        \<and> extendSlice E s v (int (length zs)) = (Inr vx, sx)
        \<and> Append_loop E sx vx oldLen 0 ys = (Inr (), snd (Append E s v zs))
        \<and> Append_loop E (snd (Append E s v zs)) vx oldLen (int (length ys)) [y]
            = (Inl e, snd (Append E s v zs))
        \<and> fst (Append E s v zs) = Inl e))"
proof -
  have A: "isl (fst X) \<longrightarrow> snd X = s" if "\<And>e. fst X = Inl e \<Longrightarrow> snd X = s"
    for X :: "(panic + 'a) \<times> state"
    using that isl_Inl[of "fst X"] by blast
  have U: "P \<and> isl (fst X) \<longrightarrow> untouched s (snd X)"
    if "\<And>e. P \<Longrightarrow> fst X = Inl e \<Longrightarrow> untouched s (snd X)"
    for X :: "(panic + 'a) \<times> state" and P
    using that isl_Inl[of "fst X"] by blast
  have c1: "isl (fst (Value_Set E s v x)) \<longrightarrow> snd (Value_Set E s v x) = s"
    by (rule A) (rule Set_fails)
  have c2: "isl (fst (Value_SetBool E s v xb)) \<longrightarrow> snd (Value_SetBool E s v xb) = s"
    by (rule A) (rule SetBool_fails)
  have c3: "isl (fst (Value_SetInt E s v xi)) \<longrightarrow> snd (Value_SetInt E s v xi) = s"
    by (rule A) (rule SetInt_fails)
  have c4: "isl (fst (Value_SetUint E s v xu)) \<longrightarrow> snd (Value_SetUint E s v xu) = s"
    by (rule A) (rule SetUint_fails)
  have c5: "isl (fst (Value_SetFloat E s v xf)) \<longrightarrow> snd (Value_SetFloat E s v xf) = s"
    by (rule A) (rule SetFloat_fails)
  have c6: "isl (fst (Value_SetComplex E s v xc)) \<longrightarrow> snd (Value_SetComplex E s v xc) = s"
    by (rule A) (rule SetComplex_fails)
  have c7: "isl (fst (Value_SetString E s v xs)) \<longrightarrow> snd (Value_SetString E s v xs) = s"
    by (rule A) (rule SetString_fails)
  have c8: "isl (fst (Value_SetBytes E s v xh)) \<longrightarrow> snd (Value_SetBytes E s v xh) = s"
    by (rule A) (rule SetBytes_fails)
  have c9: "isl (fst (Value_SetLen E s v nl)) \<longrightarrow> snd (Value_SetLen E s v nl) = s"
    by (rule A) (rule SetLen_fails)
  have c10: "isl (fst (Value_SetMapIndex E s v key elem)) \<longrightarrow>
               snd (Value_SetMapIndex E s v key elem) = s"
    by (rule A) (rule SetMapIndex_fails)
  have c11: "isl (fst (Copy E s v w)) \<longrightarrow> snd (Copy E s v w) = s"
    by (rule A) (rule Copy_fails)
  have c12: "isl (fst (AppendSlice E s v w)) \<longrightarrow> snd (AppendSlice E s v w) = s"
    by (rule A) (rule AppendSlice_fails)
  have c13: "isl (fst (extendSlice E s v ne)) \<longrightarrow> snd (extendSlice E s v ne) = s"
    by (rule A) (rule extendSlice_fails)
  have c14: "isl (fst (MakeSlice E s ty ln cp)) \<longrightarrow> snd (MakeSlice E s ty ln cp) = s"
    by (rule A) (rule MakeSlice_fails)
  have c15: "isl (fst (MakeMapWithSize E s tm hint)) \<longrightarrow> snd (MakeMapWithSize E s tm hint) = s"
    by (rule A) (rule MakeMapWithSize_fails)
  have t: "Value_SetCap E s v nc = (Inl (PanicString ''unimplemented: (reflect.Value).SetCap()''), s)"
          "snd (Value_CanConvert s v tc) = s \<and> isl (fst (Value_CanConvert s v tc))"
          "snd (Value_Convert s v tc) = s \<and> isl (fst (Value_Convert s v tc))"
          "snd (Value_FieldByIndex s v index) = s \<and> isl (fst (Value_FieldByIndex s v index))"
          "snd (Value_FieldByName s v name) = s \<and> isl (fst (Value_FieldByName s v name))"
          "snd (Value_Call s v args) = s \<and> isl (fst (Value_Call s v args))"
          "snd (Value_Method s v mi) = s \<and> isl (fst (Value_Method s v mi))"
          "snd (Value_MethodByName s v name) = s \<and> isl (fst (Value_MethodByName s v name))"
          "snd (Value_Recv s v) = s \<and> isl (fst (Value_Recv s v))"
          "snd (NewAt s tn p) = s \<and> isl (fst (NewAt s tn p))"
    by (simp_all add: Value_SetCap_def Value_CanConvert_def Value_Convert_def
          Value_FieldByIndex_def Value_FieldByName_def Value_Call_def Value_Method_def
          Value_MethodByName_def Value_Recv_def NewAt_def)
  have fs2: "(0 < ptrSize E \<and> brk s + 3 * ptrSize E \<le> 2 ^ pbits E)
              \<and> isl (fst (Value_Slice E s v i j)) \<longrightarrow>
            untouched s (snd (Value_Slice E s v i j))"
    by (rule U) (auto intro: Slice_fails)
  have fs3: "(0 < ptrSize E \<and> brk s + 3 * ptrSize E \<le> 2 ^ pbits E)
              \<and> isl (fst (Value_Slice3 E s v i j k)) \<longrightarrow>
            untouched s (snd (Value_Slice3 E s v i j k))"
    by (rule U) (auto intro: Slice3_fails)
  have mi: "brk s + rawType_Size E (rawType_elem E (typecode v)) \<le> 2 ^ pbits E
              \<and> isl (fst (Value_MapIndex E s v key)) \<longrightarrow>
            untouched s (snd (Value_MapIndex E s v key))"
    by (rule U) (rule MapIndex_fails)
  have a1: "Value_Kind E v \<noteq> Slice \<longrightarrow>
              Append E s v zs = (Inl (ValueError ''Append'' (Value_Kind E v)), s)"
    by (simp add: Append_def)
  have a2: "Value_Kind E v = Slice \<and> Value_Len E s v = Inr oldLen
        \<and> extendSlice E s v (int (length (ys @ y # yr))) = (Inr vx, sx)
        \<and> Append_loop E sx vx oldLen 0 ys = (Inr (), sp)
        \<and> fst (Append_loop E sp vx oldLen (int (length ys)) [y]) = Inl e \<longrightarrow>
      Append E s v (ys @ y # yr) = (Inl e, sp)"
    using Append_fails_after_prefix[of E v s oldLen ys y yr vx sx sp e] by blast
  have a3: "Value_Kind E v = Slice \<and> isl (fst (Append E s v zs)) \<longrightarrow>
      (\<exists>oldLen vx sx ys y yr e.
          Value_Len E s v = Inr oldLen \<and> zs = ys @ y # yr
        \<and> extendSlice E s v (int (length zs)) = (Inr vx, sx)
        \<and> Append_loop E sx vx oldLen 0 ys = (Inr (), snd (Append E s v zs))
        \<and> Append_loop E (snd (Append E s v zs)) vx oldLen (int (length ys)) [y]
            = (Inl e, snd (Append E s v zs))
        \<and> fst (Append E s v zs) = Inl e)"
  proof (intro impI, elim conjE)
    assume k: "Value_Kind E v = Slice" and f: "isl (fst (Append E s v zs))"
    then obtain e where "Append E s v zs = (Inl e, snd (Append E s v zs))"
      using isl_Inl[of "fst (Append E s v zs)"] by (metis prod.collapse)
    from Append_fails_split[OF k this] this
    show "\<exists>oldLen vx sx ys y yr e.
          Value_Len E s v = Inr oldLen \<and> zs = ys @ y # yr
        \<and> extendSlice E s v (int (length zs)) = (Inr vx, sx)
        \<and> Append_loop E sx vx oldLen 0 ys = (Inr (), snd (Append E s v zs))
        \<and> Append_loop E (snd (Append E s v zs)) vx oldLen (int (length ys)) [y]
            = (Inl e, snd (Append E s v zs))
        \<and> fst (Append E s v zs) = Inl e"
      by (metis fst_conv)
  qed
  show ?thesis
    using c1 c2 c3 c4 c5 c6 c7 c8 c9 c10 c11 c12 c13 c14 c15 t fs2 fs3 mi a1 a2 a3
    by (simp only: conj_assoc)
qed

text \<open>
  Each of the first group on a handle of kind \<^verbatim>\<open>int\<close> that is not addressable,
  \<^verbatim>\<open>MakeSlice\<close> with a length above the capacity and \<^verbatim>\<open>MakeMapWithSize\<close> with a negative
  hint; \<^verbatim>\<open>Slice3(0, 2, 4)\<close> and \<^verbatim>\<open>Slice(3, 2)\<close> on the example slice, where the header has
  been allocated (the allocator's mark has moved from 8224 to 8248); \<^verbatim>\<open>MapIndex\<close> on the
  \<^verbatim>\<open>map[float64]int\<close> with a key whose exported flag is clear, where the element has been
  allocated; and \<^verbatim>\<open>Append\<close> of an \<^verbatim>\<open>int\<close> and a string to the example slice, which fails
  in the state where the \<^verbatim>\<open>int\<close> has been written.
\<close>

theorem failures_leave_existing_state_witness:
  "isl (fst (Value_Set ex_env ex_state \<lparr>typecode = 15, val = 5, flags = 2\<rparr> zeroValue))
 \<and> snd (Value_Set ex_env ex_state \<lparr>typecode = 15, val = 5, flags = 2\<rparr> zeroValue) = ex_state
 \<and> isl (fst (Value_SetBool ex_env ex_state \<lparr>typecode = 15, val = 5, flags = 2\<rparr> True))
 \<and> snd (Value_SetBool ex_env ex_state \<lparr>typecode = 15, val = 5, flags = 2\<rparr> True) = ex_state
 \<and> isl (fst (Value_SetInt ex_env ex_state \<lparr>typecode = 15, val = 5, flags = 2\<rparr> 7))
 \<and> snd (Value_SetInt ex_env ex_state \<lparr>typecode = 15, val = 5, flags = 2\<rparr> 7) = ex_state
 \<and> isl (fst (Value_SetUint ex_env ex_state \<lparr>typecode = 15, val = 5, flags = 2\<rparr> 7))
 \<and> snd (Value_SetUint ex_env ex_state \<lparr>typecode = 15, val = 5, flags = 2\<rparr> 7) = ex_state
 \<and> isl (fst (Value_SetFloat ex_env ex_state \<lparr>typecode = 15, val = 5, flags = 2\<rparr> 7))
 \<and> snd (Value_SetFloat ex_env ex_state \<lparr>typecode = 15, val = 5, flags = 2\<rparr> 7) = ex_state
 \<and> isl (fst (Value_SetComplex ex_env ex_state \<lparr>typecode = 15, val = 5, flags = 2\<rparr> (7, 0)))
 \<and> snd (Value_SetComplex ex_env ex_state \<lparr>typecode = 15, val = 5, flags = 2\<rparr> (7, 0)) = ex_state
 \<and> isl (fst (Value_SetString ex_env ex_state \<lparr>typecode = 15, val = 5, flags = 2\<rparr>
              \<lparr>st_data = 0, st_len = 0\<rparr>))
 \<and> snd (Value_SetString ex_env ex_state \<lparr>typecode = 15, val = 5, flags = 2\<rparr>
              \<lparr>st_data = 0, st_len = 0\<rparr>) = ex_state
 \<and> isl (fst (Value_SetBytes ex_env ex_state \<lparr>typecode = 15, val = 5, flags = 2\<rparr>
              \<lparr>sh_data = 0, sh_len = 0, sh_cap = 0\<rparr>))
 \<and> snd (Value_SetBytes ex_env ex_state \<lparr>typecode = 15, val = 5, flags = 2\<rparr>
              \<lparr>sh_data = 0, sh_len = 0, sh_cap = 0\<rparr>) = ex_state
 \<and> isl (fst (Value_SetLen ex_env ex_state \<lparr>typecode = 15, val = 5, flags = 2\<rparr> 1))
 \<and> snd (Value_SetLen ex_env ex_state \<lparr>typecode = 15, val = 5, flags = 2\<rparr> 1) = ex_state
 \<and> isl (fst (Value_SetMapIndex ex_env ex_state \<lparr>typecode = 15, val = 5, flags = 2\<rparr>
              zeroValue zeroValue))
 \<and> snd (Value_SetMapIndex ex_env ex_state \<lparr>typecode = 15, val = 5, flags = 2\<rparr>
              zeroValue zeroValue) = ex_state
 \<and> isl (fst (Copy ex_env ex_state \<lparr>typecode = 15, val = 5, flags = 2\<rparr>
              \<lparr>typecode = 15, val = 5, flags = 2\<rparr>))
 \<and> snd (Copy ex_env ex_state \<lparr>typecode = 15, val = 5, flags = 2\<rparr>
              \<lparr>typecode = 15, val = 5, flags = 2\<rparr>) = ex_state
 \<and> isl (fst (AppendSlice ex_env ex_state \<lparr>typecode = 15, val = 5, flags = 2\<rparr>
              \<lparr>typecode = 15, val = 5, flags = 2\<rparr>))
 \<and> snd (AppendSlice ex_env ex_state \<lparr>typecode = 15, val = 5, flags = 2\<rparr>
              \<lparr>typecode = 15, val = 5, flags = 2\<rparr>) = ex_state
 \<and> isl (fst (extendSlice ex_env ex_state \<lparr>typecode = 15, val = 5, flags = 2\<rparr> 1))
 \<and> snd (extendSlice ex_env ex_state \<lparr>typecode = 15, val = 5, flags = 2\<rparr> 1) = ex_state
 \<and> isl (fst (MakeSlice ex_env ex_state 7 3 2))
 \<and> snd (MakeSlice ex_env ex_state 7 3 2) = ex_state
 \<and> isl (fst (MakeMapWithSize ex_env ex_state 10 (-1)))
 \<and> snd (MakeMapWithSize ex_env ex_state 10 (-1)) = ex_state
 \<and> Append ex_env ex_state \<lparr>typecode = 15, val = 5, flags = 2\<rparr> []
      = (Inl (ValueError ''Append'' IntKind), ex_state)
 \<and> isl (fst (Value_Slice3 ex_env ex_slice_state \<lparr>typecode = 7, val = 4096, flags = 2\<rparr> 0 2 4))
 \<and> untouched ex_slice_state
      (snd (Value_Slice3 ex_env ex_slice_state \<lparr>typecode = 7, val = 4096, flags = 2\<rparr> 0 2 4))
 \<and> brk (snd (Value_Slice3 ex_env ex_slice_state \<lparr>typecode = 7, val = 4096, flags = 2\<rparr> 0 2 4))
      = 8248
 \<and> isl (fst (Value_Slice ex_env ex_slice_state \<lparr>typecode = 7, val = 4096, flags = 2\<rparr> 3 2))
 \<and> untouched ex_slice_state
      (snd (Value_Slice ex_env ex_slice_state \<lparr>typecode = 7, val = 4096, flags = 2\<rparr> 3 2))
 \<and> isl (fst (Value_MapIndex ex_env ex_map_state \<lparr>typecode = 13, val = 6016, flags = 2\<rparr>
              \<lparr>typecode = 11, val = 0, flags = 0\<rparr>))
 \<and> untouched ex_map_state
      (snd (Value_MapIndex ex_env ex_map_state \<lparr>typecode = 13, val = 6016, flags = 2\<rparr>
              \<lparr>typecode = 11, val = 0, flags = 0\<rparr>))
 \<and> brk (snd (Value_MapIndex ex_env ex_map_state \<lparr>typecode = 13, val = 6016, flags = 2\<rparr>
              \<lparr>typecode = 11, val = 0, flags = 0\<rparr>)) = 8208
 \<and> Append ex_env ex_slice_state \<lparr>typecode = 7, val = 4096, flags = 2\<rparr>
      [\<lparr>typecode = 15, val = 5, flags = 2\<rparr>, \<lparr>typecode = 5, val = 4096, flags = 2\<rparr>]
      = (Inl (PanicString ''reflect: cannot set''), ex_append_written)"
proof -
  let ?v = "\<lparr>typecode = 15, val = 5, flags = 2\<rparr>"
  let ?sv = "\<lparr>typecode = 7, val = 4096, flags = 2\<rparr>"
  let ?mv = "\<lparr>typecode = 13, val = 6016, flags = 2\<rparr>"
  let ?uk = "\<lparr>typecode = 11, val = 0, flags = 0\<rparr>"
  let ?x1 = "\<lparr>typecode = 15, val = 5, flags = 2\<rparr>"
  let ?x2 = "\<lparr>typecode = 5, val = 4096, flags = 2\<rparr>"
  have k: "Value_Kind ex_env ?v = IntKind" by (simp add: ex_simps)
  have rk: "rawType_Kind ex_env 15 = IntKind" by (simp add: ex_simps)
  have a: "checkAddressable ?v = Inl (PanicString ''reflect: value is not addressable'')"
    by (simp add: checkAddressable_def ex_simps)
  have h: "isl (fst (Value_Set ex_env ex_state ?v zeroValue))"
          "isl (fst (Value_SetBool ex_env ex_state ?v True))"
          "isl (fst (Value_SetInt ex_env ex_state ?v 7))"
          "isl (fst (Value_SetUint ex_env ex_state ?v 7))"
          "isl (fst (Value_SetFloat ex_env ex_state ?v 7))"
          "isl (fst (Value_SetComplex ex_env ex_state ?v (7, 0)))"
          "isl (fst (Value_SetString ex_env ex_state ?v \<lparr>st_data = 0, st_len = 0\<rparr>))"
          "isl (fst (Value_SetBytes ex_env ex_state ?v \<lparr>sh_data = 0, sh_len = 0, sh_cap = 0\<rparr>))"
    by (simp_all add: Value_Set_def Value_SetBool_def Value_SetInt_def Value_SetUint_def
          Value_SetFloat_def Value_SetComplex_def Value_SetString_def Value_SetBytes_def a)
  have h2: "isl (fst (Value_SetMapIndex ex_env ex_state ?v zeroValue zeroValue))"
           "isl (fst (Value_SetLen ex_env ex_state ?v 1))"
           "isl (fst (Copy ex_env ex_state ?v ?v))"
           "isl (fst (AppendSlice ex_env ex_state ?v ?v))"
           "isl (fst (extendSlice ex_env ex_state ?v 1))"
    by (simp_all add: Value_SetMapIndex_def Value_SetLen_def Copy_def AppendSlice_def
          extendSlice_def k rk Let_def)
  have h3: "isl (fst (MakeSlice ex_env ex_state 7 3 2))"
           "isl (fst (MakeMapWithSize ex_env ex_state 10 (-1)))"
    by (simp_all add: MakeSlice_def MakeMapWithSize_def Let_def ex_simps)
  have p1: "isl (fst (Value_Set ex_env ex_state ?v zeroValue))
      \<and> snd (Value_Set ex_env ex_state ?v zeroValue) = ex_state
      \<and> isl (fst (Value_SetBool ex_env ex_state ?v True))
      \<and> snd (Value_SetBool ex_env ex_state ?v True) = ex_state
      \<and> isl (fst (Value_SetInt ex_env ex_state ?v 7))
      \<and> snd (Value_SetInt ex_env ex_state ?v 7) = ex_state
      \<and> isl (fst (Value_SetUint ex_env ex_state ?v 7))
      \<and> snd (Value_SetUint ex_env ex_state ?v 7) = ex_state
      \<and> isl (fst (Value_SetFloat ex_env ex_state ?v 7))
      \<and> snd (Value_SetFloat ex_env ex_state ?v 7) = ex_state
      \<and> isl (fst (Value_SetComplex ex_env ex_state ?v (7, 0)))
      \<and> snd (Value_SetComplex ex_env ex_state ?v (7, 0)) = ex_state
      \<and> isl (fst (Value_SetString ex_env ex_state ?v \<lparr>st_data = 0, st_len = 0\<rparr>))
      \<and> snd (Value_SetString ex_env ex_state ?v \<lparr>st_data = 0, st_len = 0\<rparr>) = ex_state
      \<and> isl (fst (Value_SetBytes ex_env ex_state ?v \<lparr>sh_data = 0, sh_len = 0, sh_cap = 0\<rparr>))
      \<and> snd (Value_SetBytes ex_env ex_state ?v \<lparr>sh_data = 0, sh_len = 0, sh_cap = 0\<rparr>)
           = ex_state
      \<and> isl (fst (Value_SetLen ex_env ex_state ?v 1))
      \<and> snd (Value_SetLen ex_env ex_state ?v 1) = ex_state
      \<and> isl (fst (Value_SetMapIndex ex_env ex_state ?v zeroValue zeroValue))
      \<and> snd (Value_SetMapIndex ex_env ex_state ?v zeroValue zeroValue) = ex_state
      \<and> isl (fst (Copy ex_env ex_state ?v ?v))
      \<and> snd (Copy ex_env ex_state ?v ?v) = ex_state
      \<and> isl (fst (AppendSlice ex_env ex_state ?v ?v))
      \<and> snd (AppendSlice ex_env ex_state ?v ?v) = ex_state
      \<and> isl (fst (extendSlice ex_env ex_state ?v 1))
      \<and> snd (extendSlice ex_env ex_state ?v 1) = ex_state
      \<and> isl (fst (MakeSlice ex_env ex_state 7 3 2))
      \<and> snd (MakeSlice ex_env ex_state 7 3 2) = ex_state
      \<and> isl (fst (MakeMapWithSize ex_env ex_state 10 (-1)))
      \<and> snd (MakeMapWithSize ex_env ex_state 10 (-1)) = ex_state
      \<and> Append ex_env ex_state ?v [] = (Inl (ValueError ''Append'' IntKind), ex_state)"
    using failures_leave_existing_state
            [where E = ex_env and s = ex_state and v = "?v" and x = zeroValue and xb = True
               and xi = 7 and xu = 7 and xf = 7 and xc = "(7, 0)"
               and xs = "\<lparr>st_data = 0, st_len = 0\<rparr>"
               and xh = "\<lparr>sh_data = 0, sh_len = 0, sh_cap = 0\<rparr>" and nl = 1
               and key = zeroValue and elem = zeroValue and w = "?v" and ne = 1
               and ty = 7 and ln = 3 and cp = 2 and tm = 10 and hint = "-1" and zs = "[]"]
          h h2 h3 k
    by simp
  have ks: "Value_Kind ex_env ?sv = Slice" by (simp add: ex_simps)
  have hd: "load_sliceHeader ex_env (mem ex_slice_state) 4096
             = \<lparr>sh_data = 8192, sh_len = 2, sh_cap = 4\<rparr>"
    by (simp add: load_sliceHeader_def ex_simps ex_slice_state_def)
  have ar: "int_to_uintptr ex_env 0 = 0" "int_to_uintptr ex_env 2 = 2"
           "int_to_uintptr ex_env 3 = 3" "int_to_uintptr ex_env 4 = 4"
    by (simp_all add: ex_simps)
  have pb: "(2::nat) ^ pbits ex_env = 18446744073709551616" by (simp add: pbits_def)
  have b0: "brk ex_slice_state = 8224" by (simp add: ex_slice_state_def)
  have room: "0 < ptrSize ex_env" "brk ex_slice_state + 3 * ptrSize ex_env \<le> 2 ^ pbits ex_env"
    by (simp_all add: pb b0)
  have s3v: "Value_Slice3 ex_env ex_slice_state ?sv 0 2 4
               = (Inl SlicePanic,
                  snd (new_sliceHeader ex_env ex_slice_state
                         \<lparr>sh_data = 8192, sh_len = 2, sh_cap = 4\<rparr>))"
    by (simp add: Value_Slice3_def ks hd ar Let_def split_beta)
  have s2v: "isl (fst (Value_Slice ex_env ex_slice_state ?sv 3 2))"
    by (simp add: Value_Slice_def ks hd ar Let_def split_beta)
  have f3: "isl (fst (Value_Slice3 ex_env ex_slice_state ?sv 0 2 4))" by (simp add: s3v)
  have b3: "brk (snd (Value_Slice3 ex_env ex_slice_state ?sv 0 2 4)) = 8248"
    using new_sliceHeader_props(4)[of ex_slice_state ex_env
            "\<lparr>sh_data = 8192, sh_len = 2, sh_cap = 4\<rparr>"]
    by (simp add: s3v pb b0)
  note ae = ex_append_eval
  have p2: "untouched ex_slice_state (snd (Value_Slice3 ex_env ex_slice_state ?sv 0 2 4))
      \<and> untouched ex_slice_state (snd (Value_Slice ex_env ex_slice_state ?sv 3 2))
      \<and> Append ex_env ex_slice_state ?sv [?x1, ?x2]
           = (Inl (PanicString ''reflect: cannot set''), ex_append_written)"
    using failures_leave_existing_state
            [where E = ex_env and s = ex_slice_state and v = "?sv" and i = 0 and j = 2
               and k = 4 and oldLen = 2 and ys = "[?x1]" and y = "?x2" and yr = "[]"
               and vx = "\<lparr>typecode = 7, val = 8224, flags = 2\<rparr>"
               and sx = ex_append_extended and sp = ex_append_written
               and e = "PanicString ''reflect: cannot set''"]
          failures_leave_existing_state
            [where E = ex_env and s = ex_slice_state and v = "?sv" and i = 3 and j = 2]
          room f3 s2v ae(1,2,3,4,5)
    by (simp del: Append_loop.simps One_nat_def)
  have mf: "Value_MapIndex ex_env ex_map_state ?mv ?uk
              = (Inl (PanicString ''(reflect.Value).Interface: unexported''),
                 ex_map_state\<lparr>brk := 8208\<rparr>)"
    by (simp add: Value_MapIndex_def Value_Interface_def New_ex_map_state Let_def ex_simps)
  have rm: "brk ex_map_state + rawType_Size ex_env (rawType_elem ex_env (typecode ?mv))
              \<le> 2 ^ pbits ex_env"
    by (simp add: ex_simps)
  have p3: "untouched ex_map_state (snd (Value_MapIndex ex_env ex_map_state ?mv ?uk))"
    using failures_leave_existing_state
            [where E = ex_env and s = ex_map_state and v = "?mv" and key = "?uk"]
          rm mf
    by simp
  show ?thesis
    using p1 p2 p3 f3 b3 s2v mf by simp
qed

text \<open>
  C2 as stated fails for \<^verbatim>\<open>Append\<close>. The example slice has length 2 and capacity 4, so
  two elements are appended in place. The first, an \<^verbatim>\<open>int\<close> 5, is written to its slot at
  address 8208 of the backing store; the second, a string, is not assignable and \<^verbatim>\<open>Set\<close>
  panics. The call fails and the byte at 8208, which was 0, is 5.
\<close>

theorem Append_partial_write_counterexample:
  "fst (Append ex_env ex_slice_state \<lparr>typecode = 7, val = 4096, flags = 2\<rparr>
          [\<lparr>typecode = 15, val = 5, flags = 2\<rparr>, \<lparr>typecode = 5, val = 4096, flags = 2\<rparr>])
     = Inl (PanicString ''reflect: cannot set'')
 \<and> mem ex_slice_state 8208 = 0
 \<and> mem (snd (Append ex_env ex_slice_state \<lparr>typecode = 7, val = 4096, flags = 2\<rparr>
          [\<lparr>typecode = 15, val = 5, flags = 2\<rparr>, \<lparr>typecode = 5, val = 4096, flags = 2\<rparr>])) 8208
     = 5"
proof -
  let ?v = "\<lparr>typecode = 7, val = 4096, flags = 2\<rparr>"
  let ?x1 = "\<lparr>typecode = 15, val = 5, flags = 2\<rparr>"
  let ?x2 = "\<lparr>typecode = 5, val = 4096, flags = 2\<rparr>"
  let ?v1 = "\<lparr>typecode = 7, val = 8224, flags = 2\<rparr>"
  note ae = ex_append_eval
  have "Append_loop ex_env ex_append_extended ?v1 2 0 ([?x1] @ [?x2])
          = (Inl (PanicString ''reflect: cannot set''), ex_append_written)"
    by (subst Append_loop_append) (simp add: ae(4,5) del: Append_loop.simps One_nat_def)
  then have loop: "Append_loop ex_env ex_append_extended ?v1 2 0 [?x1, ?x2]
          = (Inl (PanicString ''reflect: cannot set''), ex_append_written)"
    by (simp del: Append_loop.simps)
  have app: "Append ex_env ex_slice_state ?v [?x1, ?x2]
               = (Inl (PanicString ''reflect: cannot set''), ex_append_written)"
    by (simp add: Append_def ae(1,2,3) loop del: One_nat_def Append_loop.simps)
  show ?thesis by (simp add: app ae(6,7))
qed

end
